theory Spec2Isabelle
  imports Main "HOL-Library.Word"
begin

unbundle bit_operations_syntax

section \<open>Job kinds\<close>

datatype qemuDomainJob =
    QEMU_JOB_NONE
  | QEMU_JOB_QUERY
  | QEMU_JOB_DESTROY
  | QEMU_JOB_SUSPEND
  | QEMU_JOB_MODIFY
  | QEMU_JOB_ABORT
  | QEMU_JOB_MIGRATION_OP

datatype qemuDomainAsyncJob =
    QEMU_ASYNC_JOB_NONE
  | QEMU_ASYNC_JOB_MIGRATION_OUT
  | QEMU_ASYNC_JOB_MIGRATION_IN
  | QEMU_ASYNC_JOB_SAVE
  | QEMU_ASYNC_JOB_DUMP
  | QEMU_ASYNC_JOB_SNAPSHOT

section \<open>Helpers outside the driver file, and errors\<close>

datatype virDomainPausedReason =
    VIR_DOMAIN_PAUSED_USER
  | VIR_DOMAIN_PAUSED_MIGRATION
  | VIR_DOMAIN_PAUSED_SAVE
  | VIR_DOMAIN_PAUSED_SNAPSHOT
  | VIR_DOMAIN_PAUSED_FROM_SNAPSHOT

datatype virDomainShutoffReason =
    VIR_DOMAIN_SHUTOFF_DESTROYED
  | VIR_DOMAIN_SHUTOFF_SAVED
  | VIR_DOMAIN_SHUTOFF_FROM_SNAPSHOT

text \<open>
  The flags of \<open>open(2)\<close> the driver uses, and the owner that \<open>virFileOpenAs\<close>
  is asked to open a file as.
\<close>

datatype oflag = O_RDONLY | O_WRONLY | O_RDWR | O_CREAT | O_TRUNC | O_DIRECT

datatype open_as = AS_CALLER | AS_FILE_OWNER | AS_QEMU_USER

text \<open>
  The phases of a migration job, \<open>enum qemuMigrationJobPhase\<close> of
  \<open>qemu_migration.h\<close> (outside the sources), in the order of the enumeration.
\<close>

datatype qemuMigrationJobPhase =
    QEMU_MIGRATION_PHASE_NONE
  | QEMU_MIGRATION_PHASE_PERFORM2
  | QEMU_MIGRATION_PHASE_BEGIN3
  | QEMU_MIGRATION_PHASE_PERFORM3
  | QEMU_MIGRATION_PHASE_PERFORM3_DONE
  | QEMU_MIGRATION_PHASE_CONFIRM3_CANCELLED
  | QEMU_MIGRATION_PHASE_CONFIRM3
  | QEMU_MIGRATION_PHASE_PREPARE
  | QEMU_MIGRATION_PHASE_FINISH2
  | QEMU_MIGRATION_PHASE_FINISH3

text \<open>
  The functions \<open>qemu_driver.c\<close> calls and does not define (job admission, the
  monitor, the process layer, the close-callback registry, system calls).  A run of an
  operation records each such call, in order, in its trace; what the call returns is
  read from the environment.
\<close>

datatype call =
    C_virDomainObjUnlock
  | C_qemuDriverUnlock
  | C_qemuDomainEventQueue
  | C_qemuDomainObjBeginJob qemuDomainJob
  | C_qemuDomainObjBeginAsyncJob qemuDomainAsyncJob
  | C_qemuDomainObjEndJob
  | C_qemuDomainObjEndAsyncJob
  | C_qemuDomainObjSetAsyncJobMask "qemuDomainJob set"
  | C_qemuDomainObjAbortAsyncJob
  | C_qemuDomainObjEnterMonitor
  | C_qemuDomainObjExitMonitor
  | C_qemuDomainRemoveInactive
  | C_qemuMonitorMigrateCancel
  | C_qemuProcessStopCPUs virDomainPausedReason qemuDomainAsyncJob
  | C_qemuProcessStartCPUs qemuDomainAsyncJob
  | C_qemuProcessStop virDomainShutoffReason
  | C_qemuProcessKill bool
  | C_qemuProcessAutoDestroyActive
  | C_qemuDomainSetFakeReboot
  | C_virDomainHasDiskMirror
  | C_virDomainSaveStatus
  | C_virDomainAuditStop
  | C_virTimeMillisNow
  | C_VIR_ALLOC_N
  | C_virFileDirectFdFlag
  | C_virStorageFileIsSharedFS
  | C_open "oflag set"
  | C_virFileOpenAs "oflag set" open_as bool bool
  | C_virFileWrapperFdNew
  | C_virFileWrapperFdClose
  | C_safewrite string
  | C_saferead nat
  | C_VIR_CLOSE nat
  | C_VIR_FORCE_CLOSE
  | C_unlink
  | C_qemuMigrationToFile nat "string option" bool qemuDomainAsyncJob
  | C_virDomainDefParseString string
  | C_virDomainDefCheckABIStability
  | C_qemuDomainDefFormatLive
  | C_qemuDomainSaveImageStartVM bool
  | C_virAsprintf
  | C_qemuDomainCheckEjectableMedia qemuDomainAsyncJob
  | C_qemuMigrationBegin
  | C_qemuDriverCloseCallbackSet
  | C_qemuDriverCloseCallbackUnset
  | C_qemuMigrationJobContinue
  | C_qemuMigrationJobStartPhase qemuMigrationJobPhase
  | C_qemuMigrationConfirm
  | C_virDomainDeleteConfig
  | C_qemuSnapObjFromSnapshot
  | C_qemuDomainSnapshotWriteMetadata
  | C_qemuDomainDefFormatXML
  | C_qemuMonitorLoadSnapshot
  | C_qemuDomainSnapshotRevertInactive
  | C_virGetLastError
  | C_qemuDomainSnapshotFSFreeze
  | C_qemuDomainSnapshotFSThaw bool
  | C_qemuDomainSnapshotCreateDiskActive
  | C_virDomainObjAssignDef
  | C_qemuProcessStart
  | C_virDomainAuditStart
  | C_VIR_WARN string

text \<open>
  The driver reports a failure by raising an error object (a code and a message) and
  returning \<open>-1\<close> or \<open>NULL\<close>.  An error raised inside a helper that lives outside
  \<open>qemu_driver.c\<close> is \<open>Reported_by\<close> that helper.  \<open>JOB_BUSY\<close> is the admission
  failure of the job layer.
\<close>

datatype virErrorNumber =
    VIR_ERR_NO_DOMAIN
  | VIR_ERR_OPERATION_INVALID
  | VIR_ERR_OPERATION_FAILED
  | VIR_ERR_INTERNAL_ERROR
  | VIR_ERR_BLOCK_COPY_ACTIVE
  | VIR_ERR_INVALID_ARG
  | VIR_ERR_SYSTEM_ERROR
  | VIR_ERR_NO_MEMORY
  | VIR_ERR_CONFIG_UNSUPPORTED
  | VIR_ERR_SNAPSHOT_REVERT_RISKY

datatype virError =
    Err virErrorNumber string
  | Reported_by call
  | JOB_BUSY

section \<open>The domain object and its job state\<close>

datatype virDomainJobType =
    VIR_DOMAIN_JOB_NONE
  | VIR_DOMAIN_JOB_BOUNDED
  | VIR_DOMAIN_JOB_UNBOUNDED
  | VIR_DOMAIN_JOB_COMPLETED
  | VIR_DOMAIN_JOB_FAILED
  | VIR_DOMAIN_JOB_CANCELLED

text \<open>
  \<open>virDomainJobInfo\<close> of the public API: the job type and eleven
  \<open>unsigned long long\<close> counters.
\<close>

record virDomainJobInfo =
  jtype :: virDomainJobType
  timeElapsed :: "64 word"
  timeRemaining :: "64 word"
  dataTotal :: "64 word"
  dataProcessed :: "64 word"
  dataRemaining :: "64 word"
  memTotal :: "64 word"
  memProcessed :: "64 word"
  memRemaining :: "64 word"
  fileTotal :: "64 word"
  fileProcessed :: "64 word"
  fileRemaining :: "64 word"

text \<open>\<open>memset(info, 0, sizeof(*info))\<close>: every counter is 0 and the type is the enum's 0.\<close>

definition zero_job_info :: virDomainJobInfo where
  "zero_job_info =
     \<lparr> jtype = VIR_DOMAIN_JOB_NONE, timeElapsed = 0, timeRemaining = 0,
       dataTotal = 0, dataProcessed = 0, dataRemaining = 0,
       memTotal = 0, memProcessed = 0, memRemaining = 0,
       fileTotal = 0, fileProcessed = 0, fileRemaining = 0 \<rparr>"

text \<open>
  \<open>priv->job\<close>.  The mask is the set of synchronous job kinds that may run beside the
  asynchronous job; \<open>|\<close> on masks is union and \<open>JOB_MASK(kind)\<close> is the singleton.
\<close>

record qemuDomainJobObj =
  active :: qemuDomainJob
  asyncJob :: qemuDomainAsyncJob
  phase :: int
  mask :: "qemuDomainJob set"
  start :: "64 word"
  asyncAbort :: bool
  dump_memory_only :: bool
  info :: virDomainJobInfo

datatype virDomainState =
    VIR_DOMAIN_NOSTATE
  | VIR_DOMAIN_RUNNING
  | VIR_DOMAIN_BLOCKED
  | VIR_DOMAIN_PAUSED
  | VIR_DOMAIN_SHUTDOWN
  | VIR_DOMAIN_SHUTOFF
  | VIR_DOMAIN_CRASHED
  | VIR_DOMAIN_PMSUSPENDED

text \<open>
  The domain object with the private data of the driver (\<open>vm->privateData\<close>) beside the
  fields of the object itself.  \<open>def_id\<close> is \<open>vm->def->id\<close>, which is \<open>-1\<close> while the
  domain is not running; \<open>def_name\<close> and \<open>def_uuid\<close> are the name and the UUID of
  the definition.
\<close>

record virDomainObj =
  def_id :: int
  def_name :: string
  def_uuid :: string
  persistent :: bool
  state :: virDomainState
  hasManagedSave :: bool
  job :: qemuDomainJobObj
  monStart :: "64 word"
  monError :: bool
  beingDestroyed :: bool

definition virDomainObjIsActive :: "virDomainObj \<Rightarrow> bool" where
  "virDomainObjIsActive vm = (def_id vm \<noteq> - 1)"

definition virDomainObjGetState :: "virDomainObj \<Rightarrow> virDomainState" where
  "virDomainObjGetState vm = state vm"

text \<open>
  \<open>virCheckFlags(supported, retval)\<close>: the call is refused when a flag bit outside
  \<open>supported\<close> is set.
\<close>

definition virCheckFlags :: "32 word \<Rightarrow> 32 word \<Rightarrow> virError option" where
  "virCheckFlags supported flags =
     (if flags AND NOT supported \<noteq> 0
      then Some (Err VIR_ERR_INVALID_ARG ''unsupported flags'')
      else None)"

text \<open>
  \<open>virTimeMillisNow\<close>: the clock is read from the environment; \<open>None\<close> is a clock
  that cannot be read, and then the helper has raised the error.
\<close>

definition virTimeMillisNow :: "64 word option \<Rightarrow> virError + 64 word" where
  "virTimeMillisNow clock =
     (case clock of
        None \<Rightarrow> Inl (Reported_by C_virTimeMillisNow)
      | Some t \<Rightarrow> Inr t)"

definition no_domain :: virError where
  "no_domain = Err VIR_ERR_NO_DOMAIN ''no domain with matching uuid''"

definition not_running :: virError where
  "not_running = Err VIR_ERR_OPERATION_INVALID ''domain is not running''"

section \<open>qemuDomainGetControlInfo\<close>

datatype virDomainControlState =
    VIR_DOMAIN_CONTROL_OK
  | VIR_DOMAIN_CONTROL_JOB
  | VIR_DOMAIN_CONTROL_OCCUPIED
  | VIR_DOMAIN_CONTROL_ERROR

record virDomainControlInfo =
  cstate :: virDomainControlState
  details :: "32 word"
  stateTime :: "64 word"

definition zero_control_info :: virDomainControlInfo where
  "zero_control_info = \<lparr> cstate = VIR_DOMAIN_CONTROL_OK, details = 0, stateTime = 0 \<rparr>"

text \<open>
  \<open>found\<close> is what \<open>virDomainFindByUUID\<close> returned (\<open>None\<close> for \<open>NULL\<close>).  On failure
  the caller gets \<open>-1\<close> and the error; the result on success is the filled
  \<open>info\<close>.
\<close>

definition qemuDomainGetControlInfo ::
  "64 word option \<Rightarrow> virDomainObj option \<Rightarrow> 32 word \<Rightarrow> virError + virDomainControlInfo" where
  "qemuDomainGetControlInfo clock found flags =
     (case virCheckFlags 0 flags of
        Some e \<Rightarrow> Inl e
      | None \<Rightarrow>
     (case found of
        None \<Rightarrow> Inl no_domain
      | Some vm \<Rightarrow>
          if \<not> virDomainObjIsActive vm then Inl not_running
          else if monError vm then
            Inr (zero_control_info\<lparr>cstate := VIR_DOMAIN_CONTROL_ERROR\<rparr>)
          else if active (job vm) \<noteq> QEMU_JOB_NONE then
            (if monStart vm = 0 then
               (case virTimeMillisNow clock of
                  Inl e \<Rightarrow> Inl e
                | Inr now \<Rightarrow>
                    Inr (zero_control_info\<lparr>cstate := VIR_DOMAIN_CONTROL_JOB,
                                            stateTime := now - start (job vm)\<rparr>))
             else
               (case virTimeMillisNow clock of
                  Inl e \<Rightarrow> Inl e
                | Inr now \<Rightarrow>
                    Inr (zero_control_info\<lparr>cstate := VIR_DOMAIN_CONTROL_OCCUPIED,
                                            stateTime := now - monStart vm\<rparr>)))
          else Inr (zero_control_info\<lparr>cstate := VIR_DOMAIN_CONTROL_OK\<rparr>)))"

section \<open>qemuDomainGetJobInfo\<close>

definition qemuDomainGetJobInfo ::
  "64 word option \<Rightarrow> virDomainObj option \<Rightarrow> virError + virDomainJobInfo" where
  "qemuDomainGetJobInfo clock found =
     (case found of
        None \<Rightarrow> Inl no_domain
      | Some vm \<Rightarrow>
          if virDomainObjIsActive vm then
            (if asyncJob (job vm) \<noteq> QEMU_ASYNC_JOB_NONE \<and> \<not> dump_memory_only (job vm) then
               (case virTimeMillisNow clock of
                  Inl e \<Rightarrow> Inl e
                | Inr now \<Rightarrow> Inr ((info (job vm))\<lparr>timeElapsed := now - start (job vm)\<rparr>))
             else Inr (zero_job_info\<lparr>jtype := VIR_DOMAIN_JOB_NONE\<rparr>))
          else Inl not_running)"

section \<open>Runs of an operation\<close>

text \<open>
  The environment of a run: what each helper outside the driver file returns
  (\<open>rc\<close>), whether the guest quits while a helper has the domain unlocked
  (\<open>quits\<close>), whether the domain object is still referenced once a helper has dropped
  the caller's reference (\<open>referenced\<close>), and the clock of the job layer in
  milliseconds.  For the file operations: how many bytes a failing write or read moved
  before it failed (\<open>short\<close>), whether the path names a regular file, the driver's
  \<open>dynamicOwnership\<close> setting, whether \<open>driver->user\<close> is the caller's uid, the
  memory image that QEMU writes, the block size
  \<open>QEMU_MONITOR_MIGRATE_TO_FILE_BS\<close> (a constant of \<open>qemu_monitor.h\<close>, outside the
  sources), the XML that \<open>qemuDomainDefFormatLive\<close> formats (\<open>None\<close> for
  \<open>NULL\<close>), and the definition that \<open>virDomainDefParseString\<close> parses from an XML
  (\<open>None\<close> for \<open>NULL\<close>).
\<close>

record virDomainDef =
  name :: string
  uuid :: string

record env =
  rc :: "call \<Rightarrow> int"
  quits :: "call \<Rightarrow> bool"
  referenced :: "call \<Rightarrow> bool"
  millis :: "64 word"
  short :: "call \<Rightarrow> nat"
  is_regular :: bool
  dynamicOwnership :: bool
  user_is_caller :: bool
  memory_image :: string
  migrate_to_file_bs :: nat
  live_xml :: "string option"
  parse_def :: "string \<Rightarrow> virDomainDef option"

text \<open>
  The state of a run: the contents of the domain object (\<open>obj\<close>), whether the local
  variable \<open>vm\<close> of the running function still points to it (\<open>held\<close>;
  \<open>vm = NULL\<close> clears it), the last error raised, and the trace of outside calls.
  An operation that works on a file works on one path: \<open>disk\<close> is the contents of
  the file at that path (\<open>None\<close> when there is none, a byte being a \<open>char\<close>), and
  \<open>fd_pos\<close> is the position of the open descriptor.
\<close>

record run =
  obj :: virDomainObj
  held :: bool
  last_error :: "virError option"
  trace :: "call list"
  disk :: "string option"
  fd_pos :: nat

definition log :: "call \<Rightarrow> run \<Rightarrow> run" where
  "log c st = st\<lparr>trace := trace st @ [c]\<rparr>"

definition virReportError :: "virError \<Rightarrow> run \<Rightarrow> run" where
  "virReportError e st = st\<lparr>last_error := Some e\<rparr>"

text \<open>
  A call of a helper that keeps the domain locked: it is recorded, its return value is
  read from the environment, and a negative return value has raised an error.
\<close>

definition ext :: "env \<Rightarrow> call \<Rightarrow> run \<Rightarrow> int \<times> run" where
  "ext env c st =
     (rc env c,
      (log c st)\<lparr>last_error := (if rc env c < 0 then Some (Reported_by c)
                                else last_error st)\<rparr>)"

text \<open>A system call, or a helper that raises no error: recorded, its value read.\<close>

definition sys :: "env \<Rightarrow> call \<Rightarrow> run \<Rightarrow> int \<times> run" where
  "sys env c st = (rc env c, log c st)"

text \<open>
  A call of a helper that talks to the monitor, and so unlocks the domain while it
  waits: the guest may have quit when it returns.
\<close>

definition guest_quit :: "virDomainObj \<Rightarrow> virDomainObj" where
  "guest_quit v = v\<lparr>def_id := - 1, state := VIR_DOMAIN_SHUTOFF\<rparr>"

definition ext_unlocked :: "env \<Rightarrow> call \<Rightarrow> run \<Rightarrow> int \<times> run" where
  "ext_unlocked env c st =
     (case ext env c st of
        (r, st1) \<Rightarrow> (r, if quits env c then st1\<lparr>obj := guest_quit (obj st1)\<rparr> else st1))"

section \<open>The job layer\<close>

text \<open>
  Modelled from the spec: \<open>DEFAULT_JOB_MASK\<close> and \<open>JOB_MASK\<close> are macros of
  \<open>qemu_domain.h\<close>, outside the sources.  The default mask permits QUERY and ABORT.
\<close>

definition DEFAULT_JOB_MASK :: "qemuDomainJob set" where
  "DEFAULT_JOB_MASK = {QEMU_JOB_QUERY, QEMU_JOB_ABORT}"

definition JOB_MASK :: "qemuDomainJob \<Rightarrow> qemuDomainJob set" where
  "JOB_MASK j = {j}"

text \<open>
  Modelled from the spec: \<open>qemuDomainObjBeginJob\<close> (and its \<open>WithDriver\<close> variant) is
  defined in \<open>qemu_domain.c\<close>, outside the sources.  The job is admitted when no
  synchronous job is active and either no asynchronous job is active or the kind is in
  the mask; then the kind and the start time are recorded.  Otherwise the caller waits;
  a run is the run of one thread, in which a job held by another thread stays held, so
  the wait ends in the timeout and the call fails with \<open>JOB_BUSY\<close>.
\<close>

definition qemuDomainObjBeginJob :: "env \<Rightarrow> qemuDomainJob \<Rightarrow> run \<Rightarrow> int \<times> run" where
  "qemuDomainObjBeginJob env kind st =
     (let j = job (obj st); st1 = log (C_qemuDomainObjBeginJob kind) st in
      if active j = QEMU_JOB_NONE \<and> (asyncJob j = QEMU_ASYNC_JOB_NONE \<or> kind \<in> mask j)
      then (0, st1\<lparr>obj := (obj st)\<lparr>job := j\<lparr>active := kind, start := millis env\<rparr>\<rparr>\<rparr>)
      else (- 1, virReportError JOB_BUSY st1))"

text \<open>
  Modelled from the spec: \<open>qemuDomainObjBeginAsyncJob\<close> of \<open>qemu_domain.c\<close>.  The
  same waiting discipline, and no asynchronous job may be active; on success the
  asynchronous job is set, the phase is the initial one and the mask is the default.
\<close>

definition qemuDomainObjBeginAsyncJob ::
  "env \<Rightarrow> qemuDomainAsyncJob \<Rightarrow> run \<Rightarrow> int \<times> run" where
  "qemuDomainObjBeginAsyncJob env kind st =
     (let j = job (obj st); st1 = log (C_qemuDomainObjBeginAsyncJob kind) st in
      if active j = QEMU_JOB_NONE \<and> asyncJob j = QEMU_ASYNC_JOB_NONE
      then (0, st1\<lparr>obj := (obj st)\<lparr>job := j\<lparr>asyncJob := kind, phase := 0,
                                              mask := DEFAULT_JOB_MASK,
                                              start := millis env\<rparr>\<rparr>\<rparr>)
      else (- 1, virReportError JOB_BUSY st1))"

text \<open>
  Modelled from the spec: \<open>qemuDomainObjEndJob\<close> and \<open>qemuDomainObjEndAsyncJob\<close> of
  \<open>qemu_domain.c\<close>.  They clear the job field (the asynchronous one with its phase)
  and tell the caller whether the domain object is still referenced: 0 says that it may
  have been freed.  The reference count is kept outside the sources, so the answer is
  the environment's.
\<close>

definition qemuDomainObjEndJob :: "env \<Rightarrow> run \<Rightarrow> int \<times> run" where
  "qemuDomainObjEndJob env st =
     (if referenced env C_qemuDomainObjEndJob then 1 else 0,
      (log C_qemuDomainObjEndJob st)
        \<lparr>obj := (obj st)\<lparr>job := (job (obj st))\<lparr>active := QEMU_JOB_NONE\<rparr>\<rparr>\<rparr>)"

definition qemuDomainObjEndAsyncJob :: "env \<Rightarrow> run \<Rightarrow> int \<times> run" where
  "qemuDomainObjEndAsyncJob env st =
     (if referenced env C_qemuDomainObjEndAsyncJob then 1 else 0,
      (log C_qemuDomainObjEndAsyncJob st)
        \<lparr>obj := (obj st)\<lparr>job := (job (obj st))\<lparr>asyncJob := QEMU_ASYNC_JOB_NONE,
                                                  phase := 0\<rparr>\<rparr>\<rparr>)"

text \<open>
  Modelled from the spec: \<open>qemuDomainObjSetAsyncJobMask\<close> and
  \<open>qemuDomainObjAbortAsyncJob\<close> of \<open>qemu_domain.c\<close>.  The first replaces the mask
  of the asynchronous job; the second sets the abort flag that the thread running the
  asynchronous job inspects, and does nothing else.
\<close>

definition qemuDomainObjSetAsyncJobMask :: "qemuDomainJob set \<Rightarrow> run \<Rightarrow> run" where
  "qemuDomainObjSetAsyncJobMask m st =
     (log (C_qemuDomainObjSetAsyncJobMask m) st)
       \<lparr>obj := (obj st)\<lparr>job := (job (obj st))\<lparr>mask := m\<rparr>\<rparr>\<rparr>"

definition qemuDomainObjAbortAsyncJob :: "run \<Rightarrow> run" where
  "qemuDomainObjAbortAsyncJob st =
     (log C_qemuDomainObjAbortAsyncJob st)
       \<lparr>obj := (obj st)\<lparr>job := (job (obj st))\<lparr>asyncAbort := True\<rparr>\<rparr>\<rparr>"

text \<open>
  Modelled from the spec: \<open>qemuDomainObjEnterMonitor\<close> and
  \<open>qemuDomainObjExitMonitor\<close> of \<open>qemu_domain.c\<close>.  Entering marks the monitor busy
  (the time of entry is recorded), leaving clears the mark.
\<close>

definition qemuDomainObjEnterMonitor :: "env \<Rightarrow> run \<Rightarrow> run" where
  "qemuDomainObjEnterMonitor env st =
     (log C_qemuDomainObjEnterMonitor st)\<lparr>obj := (obj st)\<lparr>monStart := millis env\<rparr>\<rparr>"

definition qemuDomainObjExitMonitor :: "run \<Rightarrow> run" where
  "qemuDomainObjExitMonitor st =
     (log C_qemuDomainObjExitMonitor st)\<lparr>obj := (obj st)\<lparr>monStart := 0\<rparr>\<rparr>"

text \<open>
  Modelled from the spec: \<open>qemuProcessStop\<close> of \<open>qemu_process.c\<close>, the stop sequence:
  the domain is shut off and no longer active.
\<close>

definition qemuProcessStop :: "virDomainShutoffReason \<Rightarrow> run \<Rightarrow> run" where
  "qemuProcessStop reason st =
     (log (C_qemuProcessStop reason) st)
       \<lparr>obj := (obj st)\<lparr>def_id := - 1, state := VIR_DOMAIN_SHUTOFF\<rparr>\<rparr>"

section \<open>qemuDomainAbortJob\<close>

definition qemuDomainAbortJob_cleanup :: "run \<Rightarrow> run" where
  "qemuDomainAbortJob_cleanup st = (if held st then log C_virDomainObjUnlock st else st)"

definition qemuDomainAbortJob_endjob :: "env \<Rightarrow> run \<Rightarrow> run" where
  "qemuDomainAbortJob_endjob env st =
     (case qemuDomainObjEndJob env st of
        (r, st1) \<Rightarrow> qemuDomainAbortJob_cleanup (if r = 0 then st1\<lparr>held := False\<rparr> else st1))"

text \<open>
  The run starts after the lookup: \<open>held\<close> tells whether \<open>virDomainFindByUUID\<close> found
  the domain.
\<close>

definition qemuDomainAbortJob :: "env \<Rightarrow> run \<Rightarrow> int \<times> run" where
  "qemuDomainAbortJob env st =
     (if \<not> held st then (- 1, qemuDomainAbortJob_cleanup (virReportError no_domain st))
      else
        case qemuDomainObjBeginJob env QEMU_JOB_ABORT st of
          (r, st1) \<Rightarrow>
            if r < 0 then (- 1, qemuDomainAbortJob_cleanup st1)
            else if \<not> virDomainObjIsActive (obj st1) then
              (- 1, qemuDomainAbortJob_endjob env (virReportError not_running st1))
            else if asyncJob (job (obj st1)) = QEMU_ASYNC_JOB_NONE
                    \<or> dump_memory_only (job (obj st1)) then
              (- 1, qemuDomainAbortJob_endjob env
                      (virReportError (Err VIR_ERR_OPERATION_INVALID
                                         ''no job is active on the domain'') st1))
            else if asyncJob (job (obj st1)) = QEMU_ASYNC_JOB_MIGRATION_IN then
              (- 1, qemuDomainAbortJob_endjob env
                      (virReportError (Err VIR_ERR_OPERATION_INVALID
                         ''cannot abort incoming migration; use virDomainDestroy instead'')
                         st1))
            else
              (case ext_unlocked env C_qemuMonitorMigrateCancel
                      (qemuDomainObjEnterMonitor env (qemuDomainObjAbortAsyncJob st1)) of
                 (ret, st2) \<Rightarrow>
                   (ret, qemuDomainAbortJob_endjob env (qemuDomainObjExitMonitor st2))))"

section \<open>qemudDomainSuspend\<close>

datatype virDomainEventSuspendedDetailType =
    VIR_DOMAIN_EVENT_SUSPENDED_PAUSED
  | VIR_DOMAIN_EVENT_SUSPENDED_MIGRATED

text \<open>
  \<open>ev\<close> tells whether the local variable \<open>event\<close> is set.  The cleanup and the
  \<open>endjob\<close> label are shared with \<open>qemuDomainDestroyFlags\<close>, whose labels read the
  same but for the test of \<open>vm\<close> before the job is ended.
\<close>

definition driver_cleanup :: "bool \<Rightarrow> run \<Rightarrow> run" where
  "driver_cleanup ev st =
     (let st1 = (if held st then log C_virDomainObjUnlock st else st);
          st2 = (if ev then log C_qemuDomainEventQueue st1 else st1)
      in log C_qemuDriverUnlock st2)"

definition qemudDomainSuspend_endjob :: "env \<Rightarrow> bool \<Rightarrow> run \<Rightarrow> run" where
  "qemudDomainSuspend_endjob env ev st =
     (case qemuDomainObjEndJob env st of
        (r, st1) \<Rightarrow> driver_cleanup ev (if r = 0 then st1\<lparr>held := False\<rparr> else st1))"

definition qemudDomainSuspend :: "env \<Rightarrow> run \<Rightarrow> int \<times> run" where
  "qemudDomainSuspend env st =
     (if \<not> held st then (- 1, driver_cleanup False (virReportError no_domain st))
      else if \<not> virDomainObjIsActive (obj st) then
        (- 1, driver_cleanup False (virReportError not_running st))
      else
        case qemuDomainObjBeginJob env QEMU_JOB_SUSPEND st of
          (r, st1) \<Rightarrow>
            if r < 0 then (- 1, driver_cleanup False st1)
            else if \<not> virDomainObjIsActive (obj st1) then
              (- 1, qemudDomainSuspend_endjob env False (virReportError not_running st1))
            else
              let (reason, eventDetail) =
                    (if asyncJob (job (obj st1)) = QEMU_ASYNC_JOB_MIGRATION_OUT then
                       (VIR_DOMAIN_PAUSED_MIGRATION, Some VIR_DOMAIN_EVENT_SUSPENDED_MIGRATED)
                     else if asyncJob (job (obj st1)) = QEMU_ASYNC_JOB_SNAPSHOT then
                       (VIR_DOMAIN_PAUSED_SNAPSHOT, None)
                     else
                       (VIR_DOMAIN_PAUSED_USER, Some VIR_DOMAIN_EVENT_SUSPENDED_PAUSED))
              in
                if virDomainObjGetState (obj st1) = VIR_DOMAIN_PMSUSPENDED then
                  (- 1, qemudDomainSuspend_endjob env False
                          (virReportError (Err VIR_ERR_OPERATION_INVALID
                                             ''domain is pmsuspended'') st1))
                else if virDomainObjGetState (obj st1) \<noteq> VIR_DOMAIN_PAUSED then
                  (case ext_unlocked env
                          (C_qemuProcessStopCPUs reason QEMU_ASYNC_JOB_NONE) st1 of
                     (r2, st2) \<Rightarrow>
                       if r2 < 0 then (- 1, qemudDomainSuspend_endjob env False st2)
                       else
                         (case ext env C_virDomainSaveStatus st2 of
                            (r3, st3) \<Rightarrow>
                              if r3 < 0 then
                                (- 1, qemudDomainSuspend_endjob env (eventDetail \<noteq> None) st3)
                              else (0, qemudDomainSuspend_endjob env (eventDetail \<noteq> None) st3)))
                else
                  (case ext env C_virDomainSaveStatus st1 of
                     (r3, st3) \<Rightarrow>
                       if r3 < 0 then (- 1, qemudDomainSuspend_endjob env False st3)
                       else (0, qemudDomainSuspend_endjob env False st3)))"

section \<open>qemuDomainDestroyFlags\<close>

definition VIR_DOMAIN_DESTROY_GRACEFUL :: "32 word" where
  "VIR_DOMAIN_DESTROY_GRACEFUL = 1"

definition qemuDomainDestroyFlags_endjob :: "env \<Rightarrow> bool \<Rightarrow> run \<Rightarrow> run" where
  "qemuDomainDestroyFlags_endjob env ev st =
     (if held st then
        (case qemuDomainObjEndJob env st of
           (r, st1) \<Rightarrow> driver_cleanup ev (if r = 0 then st1\<lparr>held := False\<rparr> else st1))
      else driver_cleanup ev st)"

definition qemuDomainDestroyFlags :: "env \<Rightarrow> 32 word \<Rightarrow> run \<Rightarrow> int \<times> run" where
  "qemuDomainDestroyFlags env flags st =
     (case virCheckFlags VIR_DOMAIN_DESTROY_GRACEFUL flags of
        Some e \<Rightarrow> (- 1, virReportError e st)
      | None \<Rightarrow>
        if \<not> held st then (- 1, driver_cleanup False (virReportError no_domain st))
        else
          case ext env C_qemuDomainSetFakeReboot st of
            (_, st0) \<Rightarrow>
          case ext env (C_qemuProcessKill (flags AND VIR_DOMAIN_DESTROY_GRACEFUL = 0)) st0 of
            (rk, st1) \<Rightarrow>
              if flags AND VIR_DOMAIN_DESTROY_GRACEFUL \<noteq> 0 \<and> rk < 0 then
                (- 1, driver_cleanup False
                        (virReportError (Err VIR_ERR_OPERATION_FAILED
                           ''failed to kill qemu process with SIGTERM'') st1))
              else
                case qemuDomainObjBeginJob env QEMU_JOB_DESTROY
                       (st1\<lparr>obj := (obj st1)\<lparr>beingDestroyed := True\<rparr>\<rparr>) of
                  (r, st2) \<Rightarrow>
                    if r < 0 then (- 1, driver_cleanup False st2)
                    else
                      let st3 = st2\<lparr>obj := (obj st2)\<lparr>beingDestroyed := False\<rparr>\<rparr> in
                      if \<not> virDomainObjIsActive (obj st3) then
                        (- 1, qemuDomainDestroyFlags_endjob env False
                                (virReportError not_running st3))
                      else
                        let st4 = log C_virDomainAuditStop
                                    (qemuProcessStop VIR_DOMAIN_SHUTOFF_DESTROYED st3) in
                        if \<not> persistent (obj st4) then
                          (case qemuDomainObjEndJob env st4 of
                             (re, st5) \<Rightarrow>
                               (0, qemuDomainDestroyFlags_endjob env True
                                     ((if re > 0 then log C_qemuDomainRemoveInactive st5
                                       else st5)\<lparr>held := False\<rparr>)))
                        else (0, qemuDomainDestroyFlags_endjob env True st4))"

section \<open>The save image\<close>

definition QEMUD_SAVE_MAGIC :: string where
  "QEMUD_SAVE_MAGIC = ''LibvirtQemudSave''"

definition QEMUD_SAVE_PARTIAL :: string where
  "QEMUD_SAVE_PARTIAL = ''LibvirtQemudPart''"

definition QEMUD_SAVE_VERSION :: "32 word" where
  "QEMUD_SAVE_VERSION = 2"

datatype qemud_save_formats =
    QEMUD_SAVE_FORMAT_RAW
  | QEMUD_SAVE_FORMAT_GZIP
  | QEMUD_SAVE_FORMAT_BZIP2
  | QEMUD_SAVE_FORMAT_XZ
  | QEMUD_SAVE_FORMAT_LZOP

fun format_number :: "qemud_save_formats \<Rightarrow> 32 word" where
  "format_number QEMUD_SAVE_FORMAT_RAW = 0"
| "format_number QEMUD_SAVE_FORMAT_GZIP = 1"
| "format_number QEMUD_SAVE_FORMAT_BZIP2 = 2"
| "format_number QEMUD_SAVE_FORMAT_XZ = 3"
| "format_number QEMUD_SAVE_FORMAT_LZOP = 4"

fun qemudSaveCompressionTypeToString :: "qemud_save_formats \<Rightarrow> string" where
  "qemudSaveCompressionTypeToString QEMUD_SAVE_FORMAT_RAW = ''raw''"
| "qemudSaveCompressionTypeToString QEMUD_SAVE_FORMAT_GZIP = ''gzip''"
| "qemudSaveCompressionTypeToString QEMUD_SAVE_FORMAT_BZIP2 = ''bzip2''"
| "qemudSaveCompressionTypeToString QEMUD_SAVE_FORMAT_XZ = ''xz''"
| "qemudSaveCompressionTypeToString QEMUD_SAVE_FORMAT_LZOP = ''lzop''"

definition qemuCompressProgramName :: "qemud_save_formats \<Rightarrow> string option" where
  "qemuCompressProgramName compress =
     (if compress = QEMUD_SAVE_FORMAT_RAW then None
      else Some (qemudSaveCompressionTypeToString compress))"

record qemud_save_header =
  magic :: string
  version :: "32 word"
  xml_len :: "32 word"
  was_running :: "32 word"
  compressed :: "32 word"
  unused :: "32 word list"

text \<open>\<open>memset(&header, 0, sizeof(header))\<close>: sixteen NUL bytes and nineteen zero words.\<close>

definition zero_header :: qemud_save_header where
  "zero_header =
     \<lparr> magic = replicate 16 (CHR 0x00), version = 0, xml_len = 0, was_running = 0,
       compressed = 0, unused = replicate 15 0 \<rparr>"

text \<open>
  The header is written as it lies in memory: the magic, then the words in the byte
  order of the host, here the least significant byte first.  There is no padding, the
  words being aligned; a header with its sixteen bytes of magic and fifteen unused words
  takes 92 bytes.
\<close>

definition u32_bytes :: "32 word \<Rightarrow> string" where
  "u32_bytes w = map (\<lambda>i. char_of (unat (drop_bit (8 * i) w))) [0, 1, 2, 3]"

definition bytes_u32 :: "string \<Rightarrow> 32 word" where
  "bytes_u32 bs = foldr (\<lambda>c w. of_char c + push_bit 8 w) bs 0"

definition header_bytes :: "qemud_save_header \<Rightarrow> string" where
  "header_bytes h =
     magic h @ u32_bytes (version h) @ u32_bytes (xml_len h) @ u32_bytes (was_running h)
       @ u32_bytes (compressed h) @ concat (map u32_bytes (unused h))"

definition sizeof_header :: nat where
  "sizeof_header = 92"

definition header_of_bytes :: "string \<Rightarrow> qemud_save_header" where
  "header_of_bytes bs =
     \<lparr> magic = take 16 bs,
       version = bytes_u32 (take 4 (drop 16 bs)),
       xml_len = bytes_u32 (take 4 (drop 20 bs)),
       was_running = bytes_u32 (take 4 (drop 24 bs)),
       compressed = bytes_u32 (take 4 (drop 28 bs)),
       unused = map (\<lambda>i. bytes_u32 (take 4 (drop (32 + 4 * i) bs))) [0..<15] \<rparr>"

definition bswap_32 :: "32 word \<Rightarrow> 32 word" where
  "bswap_32 w = bytes_u32 (rev (u32_bytes w))"

definition bswap_header :: "qemud_save_header \<Rightarrow> qemud_save_header" where
  "bswap_header hdr =
     hdr\<lparr>version := bswap_32 (version hdr), xml_len := bswap_32 (xml_len hdr),
         was_running := bswap_32 (was_running hdr),
         compressed := bswap_32 (compressed hdr)\<rparr>"

section \<open>Files\<close>

text \<open>
  Writing \<open>buf\<close> at position \<open>pos\<close> of a file: the bytes there are replaced, the file
  grows as needed, and a gap before \<open>pos\<close> reads as NUL bytes.
\<close>

definition write_at :: "nat \<Rightarrow> string \<Rightarrow> string \<Rightarrow> string" where
  "write_at pos buf content =
     take pos content @ replicate (pos - length content) (CHR 0x00) @ buf
       @ drop (pos + length buf) content"

text \<open>
  \<open>safewrite\<close> (outside the sources) writes the whole buffer at the position of the
  descriptor and returns its length, or fails with \<open>-1\<close> after it has written only
  a part of it.  A write of no bytes cannot fail.
\<close>

definition safewrite :: "env \<Rightarrow> string \<Rightarrow> run \<Rightarrow> int \<times> run" where
  "safewrite env buf st =
     (let c = C_safewrite buf;
          failed = (rc env c < 0 \<and> buf \<noteq> []);
          moved = (if failed then take (min (short env c) (length buf - 1)) buf else buf)
      in (if failed then - 1 else int (length buf),
          (log c st)\<lparr>disk := map_option (write_at (fd_pos st) moved) (disk st),
                     fd_pos := fd_pos st + length moved\<rparr>))"

text \<open>
  \<open>open(2)\<close>, directly or through \<open>virFileOpenAs\<close>: a file that is not there is
  created only with \<open>O_CREAT\<close>, a regular file is emptied with \<open>O_TRUNC\<close>, and the
  descriptor starts at position 0.  \<open>ENOENT\<close> is 2.
\<close>

definition opened :: "env \<Rightarrow> oflag set \<Rightarrow> string option \<Rightarrow> string option" where
  "opened env oflags d =
     (case d of
        None \<Rightarrow> Some []
      | Some content \<Rightarrow> if O_TRUNC \<in> oflags \<and> is_regular env then Some [] else Some content)"

definition sys_open :: "env \<Rightarrow> call \<Rightarrow> oflag set \<Rightarrow> run \<Rightarrow> int \<times> run" where
  "sys_open env c oflags st =
     (if disk st = None \<and> O_CREAT \<notin> oflags then (- 2, log c st)
      else if rc env c < 0 then (rc env c, log c st)
      else (rc env c, (log c st)\<lparr>disk := opened env oflags (disk st), fd_pos := 0\<rparr>))"

text \<open>\<open>unlink(2)\<close>: the file is gone when the call succeeds.\<close>

definition unlink :: "env \<Rightarrow> run \<Rightarrow> int \<times> run" where
  "unlink env st =
     (case sys env C_unlink st of
        (r, st1) \<Rightarrow>
          if disk st = None then (- 1, st1)
          else if r < 0 then (r, st1)
          else (r, st1\<lparr>disk := None\<rparr>))"

section \<open>qemuOpenFile\<close>

text \<open>
  The result is the descriptor (or the negative error number) with \<open>need_unlink\<close> and
  \<open>bypass_security\<close>.  \<open>stat\<close> succeeds when the file is there.  \<open>EACCES\<close> is 13 and
  \<open>EPERM\<close> is 1.
\<close>

text \<open>The retry as \<open>driver->user\<close>, in a child process.\<close>

definition qemuOpenFile_as_user ::
  "env \<Rightarrow> oflag set \<Rightarrow> bool \<Rightarrow> run \<Rightarrow> (int \<times> bool \<times> bool) \<times> run" where
  "qemuOpenFile_as_user env oflags force_owner st =
     (case sys_open env (C_virFileOpenAs oflags AS_QEMU_USER force_owner True) oflags st of
        (fd, st1) \<Rightarrow>
          if fd < 0 then
            ((fd, O_CREAT \<in> oflags, False),
             virReportError (Err VIR_ERR_SYSTEM_ERROR ''Error from child process creating'')
               st1)
          else ((fd, O_CREAT \<in> oflags, True), st1))"

text \<open>The branch for a regular file: \<open>virFileOpenAs\<close> as root first.\<close>

definition qemuOpenFile_regular ::
  "env \<Rightarrow> oflag set \<Rightarrow> int \<Rightarrow> open_as \<Rightarrow> bool \<Rightarrow> run \<Rightarrow> (int \<times> bool \<times> bool) \<times> run" where
  "qemuOpenFile_regular env oflags path_shared owner force_owner st =
     (case sys_open env (C_virFileOpenAs oflags owner force_owner False) oflags st of
        (fd, st1) \<Rightarrow>
          if fd \<ge> 0 then ((fd, O_CREAT \<in> oflags, False), st1)
          else if (fd \<noteq> - 13 \<and> fd \<noteq> - 1) \<or> user_is_caller env then
            ((fd, O_CREAT \<in> oflags, False),
             virReportError (Err VIR_ERR_SYSTEM_ERROR ''Failed to create file'') st1)
          else if path_shared = 1 then qemuOpenFile_as_user env oflags force_owner st1
          else if path_shared = - 1 then
            ((fd, O_CREAT \<in> oflags, False),
             virReportError (Err VIR_ERR_SYSTEM_ERROR
                ''Failed to create file: couldn't determine fs type'') st1)
          else
            ((fd, O_CREAT \<in> oflags, False),
             virReportError (Err VIR_ERR_SYSTEM_ERROR ''Failed to create file'') st1))"

text \<open>The branch for a path that is there and is not a regular file.\<close>

definition qemuOpenFile_device ::
  "env \<Rightarrow> oflag set \<Rightarrow> run \<Rightarrow> (int \<times> bool \<times> bool) \<times> run" where
  "qemuOpenFile_device env oflags st =
     (case sys_open env (C_open (oflags - {O_CREAT})) (oflags - {O_CREAT}) st of
        (fd, st1) \<Rightarrow>
          if fd < 0 then
            ((fd, O_CREAT \<in> oflags, False),
             virReportError (Err VIR_ERR_SYSTEM_ERROR ''unable to open'') st1)
          else ((fd, O_CREAT \<in> oflags, False), st1))"

definition qemuOpenFile :: "env \<Rightarrow> oflag set \<Rightarrow> run \<Rightarrow> (int \<times> bool \<times> bool) \<times> run" where
  "qemuOpenFile env oflags st =
     (case ext env C_virStorageFileIsSharedFS st of
        (path_shared, st0) \<Rightarrow>
          let force_owner = (O_CREAT \<in> oflags \<and> (path_shared \<le> 0 \<or> dynamicOwnership env));
              is_reg = (if O_CREAT \<in> oflags \<and> disk st \<noteq> None then is_regular env else True);
              owner = (if O_CREAT \<in> oflags \<and> disk st \<noteq> None \<and> is_reg
                          \<and> \<not> dynamicOwnership env
                       then AS_FILE_OWNER else AS_CALLER)
          in
            if \<not> is_reg then qemuOpenFile_device env oflags st0
            else qemuOpenFile_regular env oflags path_shared owner force_owner st0)"

section \<open>qemuDomainSaveHeader and qemuDomainSaveMemory\<close>

text \<open>
  \<open>sizeof(*header)\<close> is the length of the header's bytes.  On failure the result is
  \<open>-errno\<close>, the negative number the environment gives for the failed write.
\<close>

definition qemuDomainSaveHeader ::
  "env \<Rightarrow> string \<Rightarrow> qemud_save_header \<Rightarrow> run \<Rightarrow> int \<times> run" where
  "qemuDomainSaveHeader env xml header st =
     (case safewrite env (header_bytes header) st of
        (n1, st1) \<Rightarrow>
          if n1 \<noteq> int (length (header_bytes header)) then
            (rc env (C_safewrite (header_bytes header)),
             virReportError (Err VIR_ERR_OPERATION_FAILED
                ''failed to write header to domain save file'') st1)
          else
            (case safewrite env (take (unat (xml_len header)) xml) st1 of
               (n2, st2) \<Rightarrow>
                 if n2 \<noteq> int (unat (xml_len header)) then
                   (rc env (C_safewrite (take (unat (xml_len header)) xml)),
                    virReportError (Err VIR_ERR_OPERATION_FAILED ''failed to write xml to'')
                      st2)
                 else (0, st2)))"

text \<open>
  \<open>qemuMigrationToFile\<close> is defined in \<open>qemu_migration.c\<close>, outside the sources.  It
  hands the descriptor to QEMU, which writes the memory image from the position of the
  descriptor on; the image and the outcome are the environment's, and a failed migration
  has written a part of the image.
\<close>

definition qemuMigrationToFile ::
  "env \<Rightarrow> nat \<Rightarrow> string option \<Rightarrow> bool \<Rightarrow> qemuDomainAsyncJob \<Rightarrow> run \<Rightarrow> int \<times> run" where
  "qemuMigrationToFile env offset compressor bypassSecurityDriver ajob st =
     (let c = C_qemuMigrationToFile offset compressor bypassSecurityDriver ajob in
      case ext_unlocked env c st of
        (r, st1) \<Rightarrow>
          let moved = (if r < 0 then take (short env c) (memory_image env)
                       else memory_image env)
          in (r, st1\<lparr>disk := map_option (write_at (fd_pos st1) moved) (disk st1),
                     fd_pos := fd_pos st1 + length moved\<rparr>))"

definition strlen :: "string \<Rightarrow> nat" where
  "strlen s = length (takeWhile (\<lambda>c. c \<noteq> CHR 0x00) s)"

definition VIR_DOMAIN_SAVE_BYPASS_CACHE :: "32 word" where
  "VIR_DOMAIN_SAVE_BYPASS_CACHE = 1"

definition VIR_DOMAIN_SAVE_RUNNING :: "32 word" where
  "VIR_DOMAIN_SAVE_RUNNING = 2"

definition VIR_DOMAIN_SAVE_PAUSED :: "32 word" where
  "VIR_DOMAIN_SAVE_PAUSED = 4"

text \<open>The \<open>cleanup\<close> label: the file is unlinked when the save has failed.\<close>

definition qemuDomainSaveMemory_cleanup :: "env \<Rightarrow> int \<Rightarrow> bool \<Rightarrow> run \<Rightarrow> int \<times> run" where
  "qemuDomainSaveMemory_cleanup env ret needUnlink st =
     (let st1 = log C_VIR_FORCE_CLOSE st in
      if ret \<noteq> 0 \<and> needUnlink then (ret, snd (unlink env st1)) else (ret, st1))"

text \<open>
  The header that the function builds before it opens the file, and the one that marks
  the image complete.
\<close>

definition partial_header :: "string \<Rightarrow> qemud_save_formats \<Rightarrow> bool \<Rightarrow> qemud_save_header" where
  "partial_header domXML compress wasrunning =
     zero_header\<lparr>magic := take 16 QEMUD_SAVE_PARTIAL,
                 version := QEMUD_SAVE_VERSION,
                 was_running := (if wasrunning then 1 else 0),
                 compressed := format_number compress,
                 xml_len := of_nat (strlen domXML + 1)\<rparr>"

definition complete_header :: "qemud_save_header \<Rightarrow> qemud_save_header" where
  "complete_header header = header\<lparr>magic := take 16 QEMUD_SAVE_MAGIC\<rparr>"

text \<open>
  The second part of the function, from the touch-up of the header on: the descriptor
  is closed, the file is reopened and the header is written again, now complete.
\<close>

definition qemuDomainSaveMemory_complete ::
  "env \<Rightarrow> qemud_save_header \<Rightarrow> bool \<Rightarrow> run \<Rightarrow> int \<times> run" where
  "qemuDomainSaveMemory_complete env header needUnlink st =
     (case sys env (C_VIR_CLOSE 1) st of
        (rc1, st1) \<Rightarrow>
          if rc1 < 0 then
            qemuDomainSaveMemory_cleanup env (- 1) needUnlink
              (virReportError (Err VIR_ERR_SYSTEM_ERROR ''unable to close'') st1)
          else
            case ext env C_virFileWrapperFdClose st1 of
              (rw, st2) \<Rightarrow>
                if rw < 0 then qemuDomainSaveMemory_cleanup env (- 1) needUnlink st2
                else
                  case qemuOpenFile env {O_WRONLY} st2 of
                    ((fd, _, _), st3) \<Rightarrow>
                      if fd < 0 then qemuDomainSaveMemory_cleanup env (- 1) needUnlink st3
                      else
                        case safewrite env (header_bytes (complete_header header)) st3 of
                          (n, st4) \<Rightarrow>
                            if n \<noteq> int (length (header_bytes (complete_header header))) then
                              qemuDomainSaveMemory_cleanup env (- 1) needUnlink
                                (virReportError (Err VIR_ERR_SYSTEM_ERROR ''unable to write'')
                                   st4)
                            else
                              case sys env (C_VIR_CLOSE 2) st4 of
                                (rc2, st5) \<Rightarrow>
                                  if rc2 < 0 then
                                    qemuDomainSaveMemory_cleanup env (- 1) needUnlink
                                      (virReportError
                                         (Err VIR_ERR_SYSTEM_ERROR ''unable to close'') st5)
                                  else qemuDomainSaveMemory_cleanup env 0 needUnlink st5)"

text \<open>
  The padding after the XML, which rounds the start of the memory image up to a block
  boundary, and the buffer of \<open>len + pad\<close> zero bytes into which the XML is copied.
\<close>

definition xml_pad :: "env \<Rightarrow> string \<Rightarrow> nat" where
  "xml_pad env domXML =
     1024 + (migrate_to_file_bs env
               - ((sizeof_header + (strlen domXML + 1) + 1024) mod migrate_to_file_bs env))"

definition xml_buffer :: "env \<Rightarrow> string \<Rightarrow> string" where
  "xml_buffer env domXML =
     take (strlen domXML) domXML @ replicate (1 + xml_pad env domXML) (CHR 0x00)"

text \<open>
  The first part of the function, up to the migration: \<open>Inl\<close> is the result of a run
  that went to \<open>cleanup\<close>, \<open>Inr\<close> is \<open>needUnlink\<close> and the state once the memory
  image is in the file.
\<close>

definition qemuDomainSaveMemory_write ::
  "env \<Rightarrow> string \<Rightarrow> qemud_save_formats \<Rightarrow> bool \<Rightarrow> 32 word \<Rightarrow> qemuDomainAsyncJob \<Rightarrow> run
     \<Rightarrow> (int \<times> run) + (bool \<times> run)" where
  "qemuDomainSaveMemory_write env domXML compress wasrunning flags ajob st =
     (let header = partial_header domXML compress wasrunning;
          len = strlen domXML + 1;
          pad = xml_pad env domXML;
          xml = xml_buffer env domXML;
          offset = sizeof_header + len + pad;
          bypass = (flags AND VIR_DOMAIN_SAVE_BYPASS_CACHE \<noteq> 0)
      in
      case sys env C_VIR_ALLOC_N st of
        (ra, st1) \<Rightarrow>
          if ra < 0 then
            Inl (qemuDomainSaveMemory_cleanup env (- 1) False
                   (virReportError (Err VIR_ERR_NO_MEMORY ''out of memory'') st1))
          else
            case (if bypass then sys env C_virFileDirectFdFlag st1 else (0, st1)) of
              (directFlag, st2) \<Rightarrow>
                if directFlag < 0 then
                  Inl (qemuDomainSaveMemory_cleanup env (- 1) False
                         (virReportError (Err VIR_ERR_OPERATION_FAILED
                             ''bypass cache unsupported by this system'') st2))
                else
                  case qemuOpenFile env
                         ({O_WRONLY, O_TRUNC, O_CREAT} \<union> (if bypass then {O_DIRECT} else {}))
                         st2 of
                    ((fd, needUnlink, bypassSecurityDriver), st3) \<Rightarrow>
                      if fd < 0 then
                        Inl (qemuDomainSaveMemory_cleanup env (- 1) needUnlink st3)
                      else
                        case ext env C_virFileWrapperFdNew st3 of
                          (rw, st4) \<Rightarrow>
                            if rw < 0 then
                              Inl (qemuDomainSaveMemory_cleanup env (- 1) needUnlink st4)
                            else
                              case qemuDomainSaveHeader env xml header st4 of
                                (rh, st5) \<Rightarrow>
                                  if rh < 0 then
                                    Inl (qemuDomainSaveMemory_cleanup env (- 1) needUnlink st5)
                                  else
                                    case qemuMigrationToFile env offset
                                           (qemuCompressProgramName compress)
                                           bypassSecurityDriver ajob st5 of
                                      (rm, st6) \<Rightarrow>
                                        if rm < 0 then
                                          Inl (qemuDomainSaveMemory_cleanup env (- 1)
                                                 needUnlink st6)
                                        else Inr (needUnlink, st6))"

definition qemuDomainSaveMemory ::
  "env \<Rightarrow> string \<Rightarrow> qemud_save_formats \<Rightarrow> bool \<Rightarrow> 32 word \<Rightarrow> qemuDomainAsyncJob \<Rightarrow> run
     \<Rightarrow> int \<times> run" where
  "qemuDomainSaveMemory env domXML compress wasrunning flags ajob st =
     (case qemuDomainSaveMemory_write env domXML compress wasrunning flags ajob st of
        Inl res \<Rightarrow> res
      | Inr (needUnlink, st6) \<Rightarrow>
          qemuDomainSaveMemory_complete env (partial_header domXML compress wasrunning)
            needUnlink st6)"

section \<open>qemuDomainSaveInternal\<close>

text \<open>
  \<open>qemuDomainDefFormatLive\<close> (outside the sources): the XML is the environment's,
  \<open>None\<close> for \<open>NULL\<close>.
\<close>

definition qemuDomainDefFormatLive :: "env \<Rightarrow> run \<Rightarrow> string option \<times> run" where
  "qemuDomainDefFormatLive env st = (live_xml env, log C_qemuDomainDefFormatLive st)"

text \<open>
  \<open>virDomainDefParseString\<close> (outside the sources): the definition is the
  environment's, and \<open>NULL\<close> comes with an error.
\<close>

definition virDomainDefParseString :: "env \<Rightarrow> string \<Rightarrow> run \<Rightarrow> virDomainDef option \<times> run" where
  "virDomainDefParseString env x st =
     (parse_def env x,
      (log (C_virDomainDefParseString x) st)
        \<lparr>last_error := (if parse_def env x = None
                          then Some (Reported_by (C_virDomainDefParseString x))
                          else last_error st)\<rparr>)"

definition qemuDomainSaveInternal_cleanup :: "bool \<Rightarrow> run \<Rightarrow> run" where
  "qemuDomainSaveInternal_cleanup ev st =
     (let st1 = (if ev then log C_qemuDomainEventQueue st else st)
      in if held st1 then log C_virDomainObjUnlock st1 else st1)"

text \<open>
  The \<open>endjob\<close> label, with the value of \<open>ret\<close>, of \<open>was_running\<close> and whether
  \<open>event\<close> is set.
\<close>

definition qemuDomainSaveInternal_endjob ::
  "env \<Rightarrow> int \<Rightarrow> bool \<Rightarrow> bool \<Rightarrow> run \<Rightarrow> int \<times> run" where
  "qemuDomainSaveInternal_endjob env ret wasrunning ev st =
     (if held st then
        (case (if ret \<noteq> 0 \<and> wasrunning \<and> virDomainObjIsActive (obj st) then
                 (case ext_unlocked env (C_qemuProcessStartCPUs QEMU_ASYNC_JOB_SAVE) st of
                    (r, st1) \<Rightarrow>
                      if r < 0 then
                        (True,
                         log (C_VIR_WARN ''Unable to resume guest CPUs after save failure'')
                           st1)
                      else (ev, st1))
               else (ev, st)) of
           (ev1, st2) \<Rightarrow>
             (case qemuDomainObjEndAsyncJob env st2 of
                (re, st3) \<Rightarrow>
                  (ret, qemuDomainSaveInternal_cleanup ev1
                          (if re = 0 then st3\<lparr>held := False\<rparr> else st3))))
      else (ret, qemuDomainSaveInternal_cleanup ev st))"

text \<open>
  The part of the function from the computing of the XML on; \<open>wasrunning\<close> is the
  value of \<open>was_running\<close> after the pause.
\<close>

definition qemuDomainSaveInternal_save ::
  "env \<Rightarrow> qemud_save_formats \<Rightarrow> string option \<Rightarrow> 32 word \<Rightarrow> bool \<Rightarrow> run \<Rightarrow> int \<times> run" where
  "qemuDomainSaveInternal_save env compress xmlin flags wasrunning0 st =
     (let wasrunning = (if flags AND VIR_DOMAIN_SAVE_RUNNING \<noteq> 0 then True
                        else if flags AND VIR_DOMAIN_SAVE_PAUSED \<noteq> 0 then False
                        else wasrunning0)
      in
      case (case xmlin of
              Some x \<Rightarrow>
                (case virDomainDefParseString env x st of
                   (parsed, st1) \<Rightarrow>
                     if parsed = None then Inl st1
                     else
                       (case sys env C_virDomainDefCheckABIStability st1 of
                          (abi, st2) \<Rightarrow>
                            if abi = 0 then Inl st2
                            else Inr (qemuDomainDefFormatLive env st2)))
            | None \<Rightarrow> Inr (qemuDomainDefFormatLive env st)) of
        Inl st3 \<Rightarrow> qemuDomainSaveInternal_endjob env (- 1) wasrunning False st3
      | Inr (None, st3) \<Rightarrow>
          qemuDomainSaveInternal_endjob env (- 1) wasrunning False
            (virReportError (Err VIR_ERR_OPERATION_FAILED ''failed to get domain xml'') st3)
      | Inr (Some xml, st3) \<Rightarrow>
          (case qemuDomainSaveMemory env xml compress wasrunning flags QEMU_ASYNC_JOB_SAVE
                  st3 of
             (ret, st4) \<Rightarrow>
               if ret < 0 then qemuDomainSaveInternal_endjob env ret wasrunning False st4
               else
                 let st5 = log C_virDomainAuditStop
                             (qemuProcessStop VIR_DOMAIN_SHUTOFF_SAVED st4)
                 in
                   if \<not> persistent (obj st5) then
                     (case qemuDomainObjEndAsyncJob env st5 of
                        (re, st6) \<Rightarrow>
                          qemuDomainSaveInternal_endjob env ret wasrunning True
                            ((if re > 0 then log C_qemuDomainRemoveInactive st6
                              else st6)\<lparr>held := False\<rparr>))
                   else qemuDomainSaveInternal_endjob env ret wasrunning True st5))"

text \<open>
  The function is entered with the domain found, locked and active.  In the source the
  statement under the test of the admission is the \<open>memset\<close> of the job info, and
  the statements after it run whatever the admission returned.
\<close>

definition qemuDomainSaveInternal ::
  "env \<Rightarrow> qemud_save_formats \<Rightarrow> string option \<Rightarrow> 32 word \<Rightarrow> run \<Rightarrow> int \<times> run" where
  "qemuDomainSaveInternal env compress xmlin flags st =
     (case sys env C_qemuProcessAutoDestroyActive st of
        (ad, st1) \<Rightarrow>
          if ad \<noteq> 0 then
            (- 1, qemuDomainSaveInternal_cleanup False
                    (virReportError (Err VIR_ERR_OPERATION_INVALID
                       ''domain is marked for auto destroy'') st1))
          else
            case sys env C_virDomainHasDiskMirror st1 of
              (dm, st2) \<Rightarrow>
                if dm \<noteq> 0 then
                  (- 1, qemuDomainSaveInternal_cleanup False
                          (virReportError (Err VIR_ERR_BLOCK_COPY_ACTIVE
                             ''domain has active block copy job'') st2))
                else
                  case qemuDomainObjBeginAsyncJob env QEMU_ASYNC_JOB_SAVE st2 of
                    (rb, st3) \<Rightarrow>
                      let st4 = (if rb < 0 then
                                   st3\<lparr>obj := (obj st3)\<lparr>job := (job (obj st3))
                                          \<lparr>info := zero_job_info\<rparr>\<rparr>\<rparr>
                                 else st3);
                          st5 = st4\<lparr>obj := (obj st4)\<lparr>job := (job (obj st4))
                                   \<lparr>info := (info (job (obj st4)))
                                      \<lparr>jtype := VIR_DOMAIN_JOB_UNBOUNDED\<rparr>\<rparr>\<rparr>\<rparr>
                      in
                        if virDomainObjGetState (obj st5) = VIR_DOMAIN_RUNNING then
                          (case ext_unlocked env
                                  (C_qemuProcessStopCPUs VIR_DOMAIN_PAUSED_SAVE
                                     QEMU_ASYNC_JOB_SAVE) st5 of
                             (rs, st6) \<Rightarrow>
                               if rs < 0 then
                                 qemuDomainSaveInternal_endjob env (- 1) True False st6
                               else if \<not> virDomainObjIsActive (obj st6) then
                                 qemuDomainSaveInternal_endjob env (- 1) True False
                                   (virReportError (Err VIR_ERR_INTERNAL_ERROR
                                      ''guest unexpectedly quit'') st6)
                               else
                                 qemuDomainSaveInternal_save env compress xmlin flags True st6)
                        else qemuDomainSaveInternal_save env compress xmlin flags False st5)"

section \<open>Opening a save image\<close>

text \<open>
  \<open>saferead\<close> (outside the sources) reads up to \<open>n\<close> bytes at the position of the
  descriptor and returns the bytes read, or fails with \<open>-1\<close>.
\<close>

definition saferead :: "env \<Rightarrow> nat \<Rightarrow> run \<Rightarrow> (int \<times> string) \<times> run" where
  "saferead env n st =
     (if rc env (C_saferead n) < 0 then ((- 1, []), log (C_saferead n) st)
      else
        let bytes = take n (drop (fd_pos st)
                              (case disk st of None \<Rightarrow> [] | Some content \<Rightarrow> content))
        in ((int (length bytes), bytes),
            (log (C_saferead n) st)\<lparr>fd_pos := fd_pos st + length bytes\<rparr>))"

text \<open>
  The result of \<open>qemuDomainSaveImageOpen\<close> is \<open>Inl\<close> of a negative code (\<open>-1\<close> with
  an error raised, \<open>-2\<close> or \<open>-3\<close> with none), or \<open>Inr\<close> of the open descriptor with
  \<open>*ret_def\<close> and \<open>*ret_header\<close>.
\<close>

type_synonym save_image = "int + (int \<times> virDomainDef \<times> qemud_save_header)"

text \<open>The \<open>error\<close> label.\<close>

definition qemuDomainSaveImageOpen_error :: "run \<Rightarrow> save_image \<times> run" where
  "qemuDomainSaveImageOpen_error st = (Inl (- 1), log C_VIR_FORCE_CLOSE st)"

text \<open>
  The removal of a corrupt image, which the function does at two places:
  \<open>VIR_CLOSE(fd) < 0 || unlink(path) < 0\<close> raises an error, and \<open>-3\<close> is returned
  otherwise.
\<close>

definition qemuDomainSaveImageOpen_unlink :: "env \<Rightarrow> run \<Rightarrow> save_image \<times> run" where
  "qemuDomainSaveImageOpen_unlink env st =
     (case sys env (C_VIR_CLOSE 3) st of
        (rclose, st1) \<Rightarrow>
          if rclose < 0 then
            qemuDomainSaveImageOpen_error
              (virReportError (Err VIR_ERR_SYSTEM_ERROR ''cannot remove corrupt file'') st1)
          else
            case unlink env st1 of
              (runlink, st2) \<Rightarrow>
                if runlink < 0 then
                  qemuDomainSaveImageOpen_error
                    (virReportError (Err VIR_ERR_SYSTEM_ERROR ''cannot remove corrupt file'')
                       st2)
                else (Inl (- 3), st2))"

text \<open>The C string at the start of a buffer.\<close>

definition cstring :: "string \<Rightarrow> string" where
  "cstring s = takeWhile (\<lambda>c. c \<noteq> CHR 0x00) s"

text \<open>
  The part of the function after the check of the magic, with the descriptor and
  the header that was read.  \<open>st_arg\<close> is the parameter \<open>state\<close>.  The callers pass an
  \<open>xmlin\<close> together with \<open>edit\<close>.
\<close>

definition qemuDomainSaveImageOpen_body ::
  "env \<Rightarrow> int \<Rightarrow> qemud_save_header \<Rightarrow> string option \<Rightarrow> int \<Rightarrow> bool \<Rightarrow> run
     \<Rightarrow> save_image \<times> run" where
  "qemuDomainSaveImageOpen_body env fd header0 xmlin st_arg edit st =
     (let header = (if version header0 > QEMUD_SAVE_VERSION then bswap_header header0
                    else header0)
      in
      if version header > QEMUD_SAVE_VERSION then
        qemuDomainSaveImageOpen_error
          (virReportError (Err VIR_ERR_OPERATION_FAILED ''image version is not supported'')
             st)
      else if xml_len header = 0 then
        qemuDomainSaveImageOpen_error
          (virReportError (Err VIR_ERR_OPERATION_FAILED ''invalid XML length'') st)
      else
        case sys env C_VIR_ALLOC_N st of
          (ra, st1) \<Rightarrow>
            if ra < 0 then
              qemuDomainSaveImageOpen_error
                (virReportError (Err VIR_ERR_NO_MEMORY ''out of memory'') st1)
            else
              case saferead env (unat (xml_len header)) st1 of
                ((n, xml), st2) \<Rightarrow>
                  if n \<noteq> int (unat (xml_len header)) then
                    qemuDomainSaveImageOpen_error
                      (virReportError (Err VIR_ERR_OPERATION_FAILED ''failed to read XML'')
                         st2)
                  else if edit \<and> Some (cstring xml) = xmlin
                          \<and> (st_arg < 0 \<or> st_arg = uint (was_running header)) then
                    (case sys env (C_VIR_CLOSE 4) st2 of
                       (rclose, st3) \<Rightarrow>
                         if rclose < 0 then
                           qemuDomainSaveImageOpen_error
                             (virReportError
                                (Err VIR_ERR_SYSTEM_ERROR ''cannot close file'') st3)
                         else (Inl (- 2), st3))
                  else
                    let header1 = (if st_arg \<ge> 0
                                   then header\<lparr>was_running := word_of_int st_arg\<rparr>
                                   else header)
                    in
                    (case virDomainDefParseString env (cstring xml) st2 of
                       (None, st3) \<Rightarrow> qemuDomainSaveImageOpen_error st3
                     | (Some def, st3) \<Rightarrow>
                         (case xmlin of
                            None \<Rightarrow> (Inr (fd, def, header1), st3)
                          | Some x \<Rightarrow>
                              (case virDomainDefParseString env x st3 of
                                 (None, st4) \<Rightarrow> qemuDomainSaveImageOpen_error st4
                               | (Some def2, st4) \<Rightarrow>
                                   (case sys env C_virDomainDefCheckABIStability st4 of
                                      (abi, st5) \<Rightarrow>
                                        if abi = 0 then qemuDomainSaveImageOpen_error st5
                                        else (Inr (fd, def2, header1), st5))))))"

definition qemuDomainSaveImageOpen ::
  "env \<Rightarrow> bool \<Rightarrow> string option \<Rightarrow> int \<Rightarrow> bool \<Rightarrow> bool \<Rightarrow> run \<Rightarrow> save_image \<times> run" where
  "qemuDomainSaveImageOpen env bypass_cache xmlin st_arg edit unlink_corrupt st =
     (case (if bypass_cache then sys env C_virFileDirectFdFlag st else (0, st)) of
        (directFlag, st1) \<Rightarrow>
          if directFlag < 0 then
            qemuDomainSaveImageOpen_error
              (virReportError
                 (Err VIR_ERR_OPERATION_FAILED ''bypass cache unsupported by this system'')
                 st1)
          else
            case qemuOpenFile env
                   ({if edit then O_RDWR else O_RDONLY}
                      \<union> (if bypass_cache then {O_DIRECT} else {})) st1 of
              (opn, st2) \<Rightarrow>
                if fst opn < 0 then qemuDomainSaveImageOpen_error st2
                else
                  case (if bypass_cache then ext env C_virFileWrapperFdNew st2
                        else (0, st2)) of
                    (rw, st3) \<Rightarrow>
                      if rw < 0 then qemuDomainSaveImageOpen_error st3
                      else
                        case saferead env sizeof_header st3 of
                          (rd, st4) \<Rightarrow>
                            if fst rd \<noteq> int sizeof_header then
                              (if unlink_corrupt then qemuDomainSaveImageOpen_unlink env st4
                               else
                                 qemuDomainSaveImageOpen_error
                                   (virReportError
                                      (Err VIR_ERR_OPERATION_FAILED
                                         ''failed to read qemu header'') st4))
                            else if magic (header_of_bytes (snd rd)) \<noteq> QEMUD_SAVE_MAGIC then
                              (if magic (header_of_bytes (snd rd)) = QEMUD_SAVE_PARTIAL
                                  \<and> unlink_corrupt
                               then qemuDomainSaveImageOpen_unlink env st4
                               else
                                 qemuDomainSaveImageOpen_error
                                   (virReportError
                                      (Err VIR_ERR_OPERATION_FAILED
                                         (if magic (header_of_bytes (snd rd))
                                               = QEMUD_SAVE_PARTIAL
                                          then ''save image is incomplete''
                                          else ''image magic is incorrect'')) st4))
                            else
                              qemuDomainSaveImageOpen_body env (fst opn)
                                (header_of_bytes (snd rd)) xmlin st_arg edit st4)"

section \<open>Restoring and starting a domain\<close>

text \<open>
  \<open>qemuDomainSaveImageStartVM\<close> is the one function that hands a save image to
  \<open>qemuProcessStart\<close>; it is taken as one call, whose result is the environment's.
  The \<open>cleanup\<close> label of \<open>qemuDomainObjRestore\<close> frees the definition and the wrapper
  and closes the descriptor.
\<close>

definition qemuDomainObjRestore :: "env \<Rightarrow> bool \<Rightarrow> bool \<Rightarrow> run \<Rightarrow> int \<times> run" where
  "qemuDomainObjRestore env start_paused bypass_cache st =
     (case qemuDomainSaveImageOpen env bypass_cache None (- 1) False True st of
        (Inl fd, st1) \<Rightarrow> (if fd = - 3 then 1 else - 1, log C_VIR_FORCE_CLOSE st1)
      | (Inr (fd, def, header), st1) \<Rightarrow>
          if def_name (obj st1) \<noteq> name def \<or> def_uuid (obj st1) \<noteq> uuid def then
            (- 1,
             log C_VIR_FORCE_CLOSE
               (virReportError
                  (Err VIR_ERR_OPERATION_FAILED
                     ''cannot restore domain from a file which belongs to another domain'')
                  st1))
          else
            case ext_unlocked env (C_qemuDomainSaveImageStartVM start_paused)
                   (log C_virDomainObjAssignDef st1) of
              (ret, st2) \<Rightarrow>
                (case sys env C_virFileWrapperFdClose st2 of
                   (rw, st3) \<Rightarrow>
                     (ret,
                      log C_VIR_FORCE_CLOSE
                        (if rw < 0 then log (C_VIR_WARN ''Failed to close'') st3 else st3))))"

definition VIR_DOMAIN_START_PAUSED :: "32 word" where
  "VIR_DOMAIN_START_PAUSED = 1"

definition VIR_DOMAIN_START_AUTODESTROY :: "32 word" where
  "VIR_DOMAIN_START_AUTODESTROY = 2"

definition VIR_DOMAIN_START_BYPASS_CACHE :: "32 word" where
  "VIR_DOMAIN_START_BYPASS_CACHE = 4"

definition VIR_DOMAIN_START_FORCE_BOOT :: "32 word" where
  "VIR_DOMAIN_START_FORCE_BOOT = 8"

text \<open>\<open>true\<close> stands for the path, \<open>false\<close> for \<open>NULL\<close>.\<close>

definition qemuDomainManagedSavePath :: "env \<Rightarrow> run \<Rightarrow> bool \<times> run" where
  "qemuDomainManagedSavePath env st =
     (case sys env C_virAsprintf st of
        (r, st1) \<Rightarrow>
          if r < 0 then (False, virReportError (Err VIR_ERR_NO_MEMORY ''out of memory'') st1)
          else (True, st1))"

text \<open>
  The start from scratch, from the call of \<open>qemuProcessStart\<close> on; the events are
  allocated.
\<close>

definition qemuDomainObjStart_boot :: "env \<Rightarrow> bool \<Rightarrow> run \<Rightarrow> int \<times> run" where
  "qemuDomainObjStart_boot env start_paused st =
     (case ext_unlocked env C_qemuProcessStart st of
        (ret, st1) \<Rightarrow>
          let st2 = log C_virDomainAuditStart st1
          in (ret,
              if ret \<ge> 0 then
                (let st3 = log C_qemuDomainEventQueue st2
                 in if start_paused then log C_qemuDomainEventQueue st3 else st3)
              else st2))"

text \<open>\<open>virFileExists\<close> holds when the file is there.\<close>

definition qemuDomainObjStart :: "env \<Rightarrow> 32 word \<Rightarrow> run \<Rightarrow> int \<times> run" where
  "qemuDomainObjStart env flags st =
     (let start_paused = (flags AND VIR_DOMAIN_START_PAUSED \<noteq> 0);
          bypass_cache = (flags AND VIR_DOMAIN_START_BYPASS_CACHE \<noteq> 0);
          force_boot = (flags AND VIR_DOMAIN_START_FORCE_BOOT \<noteq> 0)
      in
      case qemuDomainManagedSavePath env st of
        (managed_save, st1) \<Rightarrow>
          if \<not> managed_save then (- 1, st1)
          else if disk st1 \<noteq> None then
            (if force_boot then
               (case unlink env st1 of
                  (r, st2) \<Rightarrow>
                    if r < 0 then
                      (- 1,
                       virReportError
                         (Err VIR_ERR_SYSTEM_ERROR ''cannot remove managed save file'') st2)
                    else qemuDomainObjStart_boot env start_paused st2)
             else
               (case qemuDomainObjRestore env start_paused bypass_cache st1 of
                  (ret, st2) \<Rightarrow>
                    let st3 =
                          (if ret = 0 then
                             (case unlink env st2 of
                                (r, st2a) \<Rightarrow>
                                  if r < 0 then
                                    log (C_VIR_WARN ''Failed to remove the managed state'')
                                      st2a
                                  else st2a\<lparr>obj := (obj st2a)\<lparr>hasManagedSave := False\<rparr>\<rparr>)
                           else st2)
                    in
                      if ret > 0 then
                        qemuDomainObjStart_boot env start_paused
                          (log (C_VIR_WARN ''Ignoring incomplete managed state'') st3)
                      else (ret, st3)))
          else qemuDomainObjStart_boot env start_paused st1)"

section \<open>qemuDomainSnapshotCreateActiveExternal\<close>

text \<open>
  The values of the flag bits are in \<open>libvirt.h\<close>, outside the sources; the flags are
  passed as the four tests that the function makes of them.
\<close>

record snapshot_create_flags =
  flag_halt :: bool
  flag_quiesce :: bool
  flag_atomic :: bool
  flag_live :: bool

text \<open>
  \<open>qemuDomainSnapshotFSFreeze\<close>, \<open>qemuDomainSnapshotFSThaw\<close> and
  \<open>qemuDomainSnapshotCreateDiskActive\<close> talk to the guest agent and to the monitor;
  none of them touches the job mask, and each is taken as one call whose result is the
  environment's.  A thaw that does not report restores the error that was there.
\<close>

definition qemuDomainSnapshotFSThaw :: "env \<Rightarrow> bool \<Rightarrow> run \<Rightarrow> int \<times> run" where
  "qemuDomainSnapshotFSThaw env report st =
     (case ext_unlocked env (C_qemuDomainSnapshotFSThaw report) st of
        (r, st1) \<Rightarrow> (r, if report then st1 else st1\<lparr>last_error := last_error st\<rparr>))"

text \<open>
  The \<open>endjob\<close> label, in two parts: the resuming of the guest CPUs, and the thaw with
  the end of the job.  \<open>vm\<close> tells whether the local variable \<open>vm\<close> is set;
  \<open>*vmptr = NULL\<close> is the release of the object.
\<close>

definition qemuDomainSnapshotCreateActiveExternal_thaw ::
  "env \<Rightarrow> int \<Rightarrow> int \<Rightarrow> bool \<Rightarrow> run \<Rightarrow> int \<times> run" where
  "qemuDomainSnapshotCreateActiveExternal_thaw env ret thaw vm st =
     (case (if vm \<and> thaw \<noteq> 0 then
              (case qemuDomainSnapshotFSThaw env (thaw > 0) st of
                 (r, st1) \<Rightarrow> (if r < 0 \<and> thaw > 0 then - 1 else ret, st1))
            else (ret, st)) of
        (ret1, st2) \<Rightarrow>
          if vm then
            (case qemuDomainObjEndAsyncJob env st2 of
               (re, st3) \<Rightarrow> if re = 0 then (- 1, st3\<lparr>held := False\<rparr>) else (ret1, st3))
          else (ret1, st2))"

definition qemuDomainSnapshotCreateActiveExternal_endjob ::
  "env \<Rightarrow> int \<Rightarrow> bool \<Rightarrow> int \<Rightarrow> bool \<Rightarrow> run \<Rightarrow> int \<times> run" where
  "qemuDomainSnapshotCreateActiveExternal_endjob env ret resume thaw vm st =
     (if resume \<and> vm \<and> virDomainObjIsActive (obj st) then
        (case ext_unlocked env (C_qemuProcessStartCPUs QEMU_ASYNC_JOB_SNAPSHOT) st of
           (r, st1) \<Rightarrow>
             if r < 0 then
               (let st2 = log C_qemuDomainEventQueue st1
                in (- 1,
                    if last_error st2 = None then
                      virReportError
                        (Err VIR_ERR_OPERATION_FAILED ''resuming after snapshot failed'') st2
                    else st2))
             else qemuDomainSnapshotCreateActiveExternal_thaw env ret thaw vm st1)
      else qemuDomainSnapshotCreateActiveExternal_thaw env ret thaw vm st)"

text \<open>The snapshot of the disks and what follows it.\<close>

definition qemuDomainSnapshotCreateActiveExternal_disks ::
  "env \<Rightarrow> snapshot_create_flags \<Rightarrow> bool \<Rightarrow> int \<Rightarrow> run \<Rightarrow> int \<times> run" where
  "qemuDomainSnapshotCreateActiveExternal_disks env flags resume thaw st =
     (case ext_unlocked env C_qemuDomainSnapshotCreateDiskActive st of
        (ret, st1) \<Rightarrow>
          if ret < 0 then
            qemuDomainSnapshotCreateActiveExternal_endjob env ret resume thaw True st1
          else if flag_halt flags then
            (let st2 = log C_virDomainAuditStop
                         (qemuProcessStop VIR_DOMAIN_SHUTOFF_FROM_SNAPSHOT st1);
                 st3 = snd (qemuDomainObjEndAsyncJob env st2);
                 st4 = log C_qemuDomainEventQueue st3
             in qemuDomainSnapshotCreateActiveExternal_endjob env 0 False 0 False st4)
          else qemuDomainSnapshotCreateActiveExternal_endjob env 0 resume thaw True st1)"

text \<open>
  The memory snapshot: \<open>Inl\<close> is the result of a run that went to \<open>endjob\<close>, \<open>Inr\<close>
  the state in which the disks are snapshotted.
\<close>

definition qemuDomainSnapshotCreateActiveExternal_memory ::
  "env \<Rightarrow> bool \<Rightarrow> int \<Rightarrow> run \<Rightarrow> (int \<times> run) + run" where
  "qemuDomainSnapshotCreateActiveExternal_memory env resume thaw st =
     (case qemuDomainDefFormatLive env
             (qemuDomainObjSetAsyncJobMask
                (DEFAULT_JOB_MASK \<union> JOB_MASK QEMU_JOB_SUSPEND
                   \<union> JOB_MASK QEMU_JOB_MIGRATION_OP) st) of
        (None, st1) \<Rightarrow>
          Inl (qemuDomainSnapshotCreateActiveExternal_endjob env (- 1) resume thaw True st1)
      | (Some xml, st1) \<Rightarrow>
          (case qemuDomainSaveMemory env xml QEMUD_SAVE_FORMAT_RAW resume 0
                  QEMU_ASYNC_JOB_SNAPSHOT st1 of
             (ret, st2) \<Rightarrow>
               if ret < 0 then
                 Inl (qemuDomainSnapshotCreateActiveExternal_endjob env ret resume thaw True
                        st2)
               else Inr (qemuDomainObjSetAsyncJobMask DEFAULT_JOB_MASK st2)))"

definition qemuDomainSnapshotCreateActiveExternal_snapshot ::
  "env \<Rightarrow> bool \<Rightarrow> snapshot_create_flags \<Rightarrow> bool \<Rightarrow> int \<Rightarrow> run \<Rightarrow> int \<times> run" where
  "qemuDomainSnapshotCreateActiveExternal_snapshot env memory flags resume thaw st =
     (if memory then
        (case qemuDomainSnapshotCreateActiveExternal_memory env resume thaw st of
           Inl r \<Rightarrow> r
         | Inr st1 \<Rightarrow> qemuDomainSnapshotCreateActiveExternal_disks env flags resume thaw st1)
      else qemuDomainSnapshotCreateActiveExternal_disks env flags resume thaw st)"

text \<open>
  \<open>memory\<close> tells whether the snapshot has an external memory image, \<open>transaction\<close>
  whether QEMU has the capability.  The events are allocated.
\<close>

definition qemuDomainSnapshotCreateActiveExternal ::
  "env \<Rightarrow> bool \<Rightarrow> bool \<Rightarrow> snapshot_create_flags \<Rightarrow> run \<Rightarrow> int \<times> run" where
  "qemuDomainSnapshotCreateActiveExternal env memory transaction flags st =
     (case qemuDomainObjBeginAsyncJob env QEMU_ASYNC_JOB_SNAPSHOT st of
        (rb, st1) \<Rightarrow>
          if rb < 0 then (- 1, st1)
          else
            case (if flag_quiesce flags
                  then ext_unlocked env C_qemuDomainSnapshotFSFreeze st1 else (0, st1)) of
              (rf, st2) \<Rightarrow>
                if rf < 0 then
                  qemuDomainSnapshotCreateActiveExternal_endjob env (- 1) False (- 1) True st2
                else
                  let thaw = (if flag_quiesce flags then 1 else 0) in
                  if virDomainObjGetState (obj st2) = VIR_DOMAIN_RUNNING then
                    (if (memory \<and> \<not> flag_live flags)
                        \<or> (\<not> memory \<and> flag_atomic flags \<and> \<not> transaction) then
                       (case ext_unlocked env
                               (C_qemuProcessStopCPUs VIR_DOMAIN_PAUSED_SNAPSHOT
                                  QEMU_ASYNC_JOB_SNAPSHOT) st2 of
                          (rs, st3) \<Rightarrow>
                            if rs < 0 then
                              qemuDomainSnapshotCreateActiveExternal_endjob env (- 1) True
                                thaw True st3
                            else if \<not> virDomainObjIsActive (obj st3) then
                              qemuDomainSnapshotCreateActiveExternal_endjob env (- 1) True
                                thaw True
                                (virReportError
                                   (Err VIR_ERR_INTERNAL_ERROR ''guest unexpectedly quit'')
                                   st3)
                            else
                              qemuDomainSnapshotCreateActiveExternal_snapshot env memory
                                flags True thaw st3)
                     else
                       qemuDomainSnapshotCreateActiveExternal_snapshot env memory flags True
                         thaw st2)
                  else
                    qemuDomainSnapshotCreateActiveExternal_snapshot env memory flags False
                      thaw st2)"

section \<open>qemuDomainRevertToSnapshot\<close>

text \<open>
  The state that a snapshot records is a state of a domain or
  \<open>VIR_DOMAIN_DISK_SNAPSHOT\<close>.  Of the definition of the snapshot the function reads
  that state and \<open>dom\<close>, the definition to roll back to, which is given by the XML that
  \<open>qemuDomainDefFormatXML\<close> makes of it (\<open>None\<close> for \<open>NULL\<close>).  The values of the
  flag bits are in \<open>libvirt.h\<close>, outside the sources; the flags are passed as the
  three bits that \<open>virCheckFlags\<close> lets through.
\<close>

datatype snapshot_state = SNAP_STATE virDomainState | VIR_DOMAIN_DISK_SNAPSHOT

record virDomainSnapshotDef =
  snap_state :: snapshot_state
  snap_dom :: "string option"

record snapshot_revert_flags =
  revert_running :: bool
  revert_paused :: bool
  revert_force :: bool

text \<open>
  Modelled from the spec: \<open>qemuProcessStart\<close> of \<open>qemu_process.c\<close>.  A start that
  succeeds leaves the domain active, paused or running as asked; one that fails leaves
  it shut off.
\<close>

definition qemuProcessStart :: "env \<Rightarrow> bool \<Rightarrow> run \<Rightarrow> int \<times> run" where
  "qemuProcessStart env paused st =
     (case ext_unlocked env C_qemuProcessStart
             (st\<lparr>obj := (obj st)\<lparr>def_id := 1,
                                   state := (if paused then VIR_DOMAIN_PAUSED
                                             else VIR_DOMAIN_RUNNING)\<rparr>\<rparr>) of
        (r, st1) \<Rightarrow>
          (r, if r < 0 then st1\<lparr>obj := (obj st1)\<lparr>def_id := - 1, state := VIR_DOMAIN_SHUTOFF\<rparr>\<rparr>
              else st1))"

text \<open>
  The \<open>cleanup\<close> label, with the value of \<open>ret\<close> and whether \<open>event\<close> and
  \<open>event2\<close> are set.  The bookkeeping of the current snapshot is the call of
  \<open>qemuDomainSnapshotWriteMetadata\<close>.
\<close>

definition qemuDomainRevertToSnapshot_cleanup ::
  "env \<Rightarrow> int \<Rightarrow> bool \<Rightarrow> bool \<Rightarrow> run \<Rightarrow> int \<times> run" where
  "qemuDomainRevertToSnapshot_cleanup env ret ev ev2 st =
     (case (if held st \<and> ret = 0 then
              (case ext env C_qemuDomainSnapshotWriteMetadata st of
                 (r, st1) \<Rightarrow> (if r < 0 then - 1 else ret, st1))
            else (ret, st)) of
        (ret1, st2) \<Rightarrow>
          let st3 = (if ev then
                       (let st2a = log C_qemuDomainEventQueue st2
                        in if ev2 then log C_qemuDomainEventQueue st2a else st2a)
                     else st2);
              st4 = (if held st3 then log C_virDomainObjUnlock st3 else st3)
          in (ret1, log C_qemuDriverUnlock st4))"

text \<open>The \<open>endjob\<close> label.\<close>

definition qemuDomainRevertToSnapshot_endjob ::
  "env \<Rightarrow> int \<Rightarrow> bool \<Rightarrow> bool \<Rightarrow> run \<Rightarrow> int \<times> run" where
  "qemuDomainRevertToSnapshot_endjob env ret ev ev2 st =
     (if held st then
        (case qemuDomainObjEndJob env st of
           (r, st1) \<Rightarrow>
             qemuDomainRevertToSnapshot_cleanup env ret ev ev2
               (if r = 0 then st1\<lparr>held := False\<rparr> else st1))
      else qemuDomainRevertToSnapshot_cleanup env ret ev ev2 st)"

text \<open>
  What the function does with a transient domain on two of its failure paths: the job is
  ended, the inactive domain is removed when it is still referenced, and \<open>vm\<close> is
  cleared.
\<close>

definition qemuDomainRevertToSnapshot_remove ::
  "env \<Rightarrow> bool \<Rightarrow> run \<Rightarrow> int \<times> run" where
  "qemuDomainRevertToSnapshot_remove env ev st =
     (case qemuDomainObjEndJob env st of
        (r, st1) \<Rightarrow>
          qemuDomainRevertToSnapshot_cleanup env (- 1) ev False
            ((if r > 0 then log C_qemuDomainRemoveInactive st1 else st1)\<lparr>held := False\<rparr>))"

text \<open>
  The touch-up of the state of the domain once the snapshot is loaded or the domain
  started.
\<close>

definition qemuDomainRevertToSnapshot_touch ::
  "env \<Rightarrow> virDomainSnapshotDef \<Rightarrow> snapshot_revert_flags \<Rightarrow> bool \<Rightarrow> bool \<Rightarrow> bool \<Rightarrow> run
     \<Rightarrow> int \<times> run" where
  "qemuDomainRevertToSnapshot_touch env snap flags wasrunning wasstopped ev st =
     (if \<not> revert_running flags
         \<and> (snap_state snap = SNAP_STATE VIR_DOMAIN_PAUSED \<or> revert_paused flags) then
        qemuDomainRevertToSnapshot_endjob env 0 ev wasstopped
          (st\<lparr>obj := (obj st)\<lparr>state := VIR_DOMAIN_PAUSED\<rparr>\<rparr>)
      else if \<not> virDomainObjIsActive (obj st) then
        qemuDomainRevertToSnapshot_endjob env (- 1) ev False
          (virReportError (Err VIR_ERR_INTERNAL_ERROR ''guest unexpectedly quit'') st)
      else
        (case ext_unlocked env (C_qemuProcessStartCPUs QEMU_ASYNC_JOB_NONE) st of
           (r, st1) \<Rightarrow>
             if r < 0 then qemuDomainRevertToSnapshot_endjob env (- 1) ev False st1
             else
               qemuDomainRevertToSnapshot_endjob env 0 (wasstopped \<or> wasrunning) False
                 st1))"

text \<open>The label \<open>load\<close>: the domain is started from the snapshot.\<close>

definition qemuDomainRevertToSnapshot_load ::
  "env \<Rightarrow> virDomainSnapshotDef \<Rightarrow> snapshot_revert_flags \<Rightarrow> bool \<Rightarrow> run \<Rightarrow> int \<times> run" where
  "qemuDomainRevertToSnapshot_load env snap flags config st =
     (case qemuProcessStart env True
             (if config then log C_virDomainObjAssignDef st else st) of
        (r, st1) \<Rightarrow>
          if r < 0 then
            qemuDomainRevertToSnapshot_endjob env (- 1) True False
              (log C_virDomainAuditStart st1)
          else
            qemuDomainRevertToSnapshot_touch env snap flags False True True
              (log C_virDomainAuditStart st1))"

text \<open>The monitor command that loads the snapshot into the running QEMU.\<close>

definition qemuDomainRevertToSnapshot_loadvm ::
  "env \<Rightarrow> virDomainSnapshotDef \<Rightarrow> snapshot_revert_flags \<Rightarrow> bool \<Rightarrow> bool \<Rightarrow> bool \<Rightarrow> run
     \<Rightarrow> int \<times> run" where
  "qemuDomainRevertToSnapshot_loadvm env snap flags config wasrunning ev st =
     (case ext_unlocked env C_qemuMonitorLoadSnapshot (qemuDomainObjEnterMonitor env st) of
        (r, st1) \<Rightarrow>
          if r < 0 then
            qemuDomainRevertToSnapshot_endjob env (- 1) ev False (qemuDomainObjExitMonitor st1)
          else
            qemuDomainRevertToSnapshot_touch env snap flags wasrunning False ev
              (if config then log C_virDomainObjAssignDef (qemuDomainObjExitMonitor st1)
               else qemuDomainObjExitMonitor st1))"

text \<open>
  The revert to a snapshot of a running or paused domain.  \<open>virDomainDefCheckABIStability\<close>
  raises an error when it returns false; whether the code of that error is
  \<open>VIR_ERR_CONFIG_UNSUPPORTED\<close> is the environment's (\<open>C_virGetLastError\<close>, nonzero
  for yes).
\<close>

definition qemuDomainRevertToSnapshot_online ::
  "env \<Rightarrow> virDomainSnapshotDef \<Rightarrow> snapshot_revert_flags \<Rightarrow> bool \<Rightarrow> run \<Rightarrow> int \<times> run" where
  "qemuDomainRevertToSnapshot_online env snap flags config st =
     (if virDomainObjIsActive (obj st) then
        (if config \<and> rc env C_virDomainDefCheckABIStability = 0 then
           (case sys env C_virGetLastError
                   ((log C_virDomainDefCheckABIStability st)
                      \<lparr>last_error := Some (Reported_by C_virDomainDefCheckABIStability)\<rparr>) of
              (code, st1) \<Rightarrow>
                if \<not> revert_force flags then
                  qemuDomainRevertToSnapshot_endjob env (- 1) False False
                    (if code \<noteq> 0 then
                       virReportError (Err VIR_ERR_SNAPSHOT_REVERT_RISKY ''ABI'') st1
                     else st1)
                else
                  qemuDomainRevertToSnapshot_load env snap flags config
                    (log C_qemuDomainEventQueue
                       (log C_virDomainAuditStop
                          (qemuProcessStop VIR_DOMAIN_SHUTOFF_FROM_SNAPSHOT
                             (st1\<lparr>last_error := None\<rparr>)))))
         else
           (let st1 = (if config then log C_virDomainDefCheckABIStability st else st) in
            if virDomainObjGetState (obj st1) = VIR_DOMAIN_RUNNING then
              (case ext_unlocked env
                      (C_qemuProcessStopCPUs VIR_DOMAIN_PAUSED_FROM_SNAPSHOT
                         QEMU_ASYNC_JOB_NONE) st1 of
                 (r, st2) \<Rightarrow>
                   if r < 0 then qemuDomainRevertToSnapshot_endjob env (- 1) False False st2
                   else if \<not> virDomainObjIsActive (obj st2) then
                     qemuDomainRevertToSnapshot_endjob env (- 1) True False
                       (virReportError
                          (Err VIR_ERR_INTERNAL_ERROR ''guest unexpectedly quit'') st2)
                   else
                     qemuDomainRevertToSnapshot_loadvm env snap flags config True True st2)
            else qemuDomainRevertToSnapshot_loadvm env snap flags config False False st1))
      else qemuDomainRevertToSnapshot_load env snap flags config st)"

text \<open>The revert to a snapshot of a domain that was shut off.\<close>

definition qemuDomainRevertToSnapshot_offline ::
  "env \<Rightarrow> snapshot_revert_flags \<Rightarrow> bool \<Rightarrow> run \<Rightarrow> int \<times> run" where
  "qemuDomainRevertToSnapshot_offline env flags config st =
     (let ev = virDomainObjIsActive (obj st);
          st1 = (if ev then
                   log C_virDomainAuditStop
                     (qemuProcessStop VIR_DOMAIN_SHUTOFF_FROM_SNAPSHOT st)
                 else st)
      in
      case ext env C_qemuDomainSnapshotRevertInactive st1 of
        (r, st2) \<Rightarrow>
          if r < 0 then
            (if \<not> persistent (obj st2) then qemuDomainRevertToSnapshot_remove env ev st2
             else qemuDomainRevertToSnapshot_endjob env (- 1) ev False st2)
          else
            let st3 = (if config then log C_virDomainObjAssignDef st2 else st2) in
            if revert_running flags \<or> revert_paused flags then
              (case qemuProcessStart env (revert_paused flags)
                      (if ev then log C_qemuDomainEventQueue st3 else st3) of
                 (rs, st4) \<Rightarrow>
                   if rs < 0 then
                     (if \<not> persistent (obj st4) then
                        qemuDomainRevertToSnapshot_remove env ev
                          (log C_virDomainAuditStart st4)
                      else
                        qemuDomainRevertToSnapshot_endjob env (- 1) ev False
                          (log C_virDomainAuditStart st4))
                   else
                     qemuDomainRevertToSnapshot_endjob env 0 True (revert_paused flags)
                       (log C_virDomainAuditStart st4))
            else qemuDomainRevertToSnapshot_endjob env 0 ev False st3)"

text \<open>
  The function from the taking of the job on; \<open>config\<close> tells whether the rollback
  definition was parsed.
\<close>

definition qemuDomainRevertToSnapshot_job ::
  "env \<Rightarrow> virDomainSnapshotDef \<Rightarrow> snapshot_revert_flags \<Rightarrow> bool \<Rightarrow> run \<Rightarrow> int \<times> run" where
  "qemuDomainRevertToSnapshot_job env snap flags config st =
     (case qemuDomainObjBeginJob env QEMU_JOB_MODIFY st of
        (r, st1) \<Rightarrow>
          if r < 0 then qemuDomainRevertToSnapshot_cleanup env (- 1) False False st1
          else if snap_state snap = SNAP_STATE VIR_DOMAIN_RUNNING
                  \<or> snap_state snap = SNAP_STATE VIR_DOMAIN_PAUSED then
            qemuDomainRevertToSnapshot_online env snap flags config st1
          else qemuDomainRevertToSnapshot_offline env flags config st1)"

text \<open>
  \<open>has_current\<close> tells whether \<open>vm->current_snapshot\<close> is set.  The events are
  allocated.
\<close>

definition qemuDomainRevertToSnapshot ::
  "env \<Rightarrow> virDomainSnapshotDef \<Rightarrow> bool \<Rightarrow> snapshot_revert_flags \<Rightarrow> run \<Rightarrow> int \<times> run" where
  "qemuDomainRevertToSnapshot env snap has_current flags st =
     (if \<not> held st then
        qemuDomainRevertToSnapshot_cleanup env (- 1) False False (virReportError no_domain st)
      else
        case sys env C_virDomainHasDiskMirror st of
          (dm, st1) \<Rightarrow>
            if dm \<noteq> 0 then
              qemuDomainRevertToSnapshot_cleanup env (- 1) False False
                (virReportError
                   (Err VIR_ERR_BLOCK_COPY_ACTIVE ''domain has active block copy job'') st1)
            else
              case ext env C_qemuSnapObjFromSnapshot st1 of
                (rs, st2) \<Rightarrow>
                  if rs < 0 then qemuDomainRevertToSnapshot_cleanup env (- 1) False False st2
                  else if \<not> persistent (obj st2)
                          \<and> snap_state snap \<noteq> SNAP_STATE VIR_DOMAIN_RUNNING
                          \<and> snap_state snap \<noteq> SNAP_STATE VIR_DOMAIN_PAUSED
                          \<and> \<not> (revert_running flags \<or> revert_paused flags) then
                    qemuDomainRevertToSnapshot_cleanup env (- 1) False False
                      (virReportError
                         (Err VIR_ERR_OPERATION_INVALID
                            ''transient domain needs to request run or pause to revert to inactive snapshot'')
                         st2)
                  else if snap_state snap = VIR_DOMAIN_DISK_SNAPSHOT then
                    qemuDomainRevertToSnapshot_cleanup env (- 1) False False
                      (virReportError
                         (Err VIR_ERR_CONFIG_UNSUPPORTED
                            ''revert to external disk snapshot not supported yet'') st2)
                  else if \<not> revert_force flags \<and> snap_dom snap = None then
                    qemuDomainRevertToSnapshot_cleanup env (- 1) False False
                      (virReportError
                         (Err VIR_ERR_SNAPSHOT_REVERT_RISKY
                            ''snapshot lacks domain rollback info'') st2)
                  else if \<not> revert_force flags \<and> virDomainObjIsActive (obj st2)
                          \<and> \<not> (snap_state snap = SNAP_STATE VIR_DOMAIN_RUNNING
                                \<or> snap_state snap = SNAP_STATE VIR_DOMAIN_PAUSED)
                          \<and> (revert_running flags \<or> revert_paused flags) then
                    qemuDomainRevertToSnapshot_cleanup env (- 1) False False
                      (virReportError
                         (Err VIR_ERR_SNAPSHOT_REVERT_RISKY
                            ''must respawn qemu to start inactive snapshot'') st2)
                  else
                    case (if has_current then ext env C_qemuDomainSnapshotWriteMetadata st2
                          else (0, st2)) of
                      (rm, st3) \<Rightarrow>
                        if rm < 0 then
                          qemuDomainRevertToSnapshot_cleanup env (- 1) False False st3
                        else
                          (case snap_dom snap of
                             None \<Rightarrow> qemuDomainRevertToSnapshot_job env snap flags False st3
                           | Some xml \<Rightarrow>
                               (case ext env C_qemuDomainDefFormatXML st3 of
                                  (rx, st4) \<Rightarrow>
                                    if rx < 0 then
                                      qemuDomainRevertToSnapshot_cleanup env (- 1) False False
                                        st4
                                    else
                                      (case virDomainDefParseString env xml st4 of
                                         (parsed, st5) \<Rightarrow>
                                           if parsed = None then
                                             qemuDomainRevertToSnapshot_cleanup env (- 1)
                                               False False st5
                                           else
                                             qemuDomainRevertToSnapshot_job env snap flags
                                               True st5))))"

section \<open>qemuDomainMigrateBegin3 and qemuDomainMigrateConfirm3\<close>

text \<open>
  Modelled from the spec: the job helpers of \<open>qemu_migration.c\<close>, outside the
  sources.  \<open>qemuMigrationJobStart\<close> admits the asynchronous job;
  \<open>qemuMigrationJobContinue\<close> hands the job, still open, to the next call of the API
  and tells whether the domain object is still referenced; \<open>qemuMigrationJobFinish\<close>
  ends the asynchronous job; \<open>qemuMigrationJobIsActive\<close> raises an error when the
  asynchronous job is not the one asked for; \<open>qemuMigrationJobStartPhase\<close> records
  the phase, numbered as in the enumeration.
\<close>

definition qemuMigrationJobStart :: "env \<Rightarrow> qemuDomainAsyncJob \<Rightarrow> run \<Rightarrow> int \<times> run" where
  "qemuMigrationJobStart env ajob st = qemuDomainObjBeginAsyncJob env ajob st"

definition qemuMigrationJobContinue :: "env \<Rightarrow> run \<Rightarrow> int \<times> run" where
  "qemuMigrationJobContinue env st =
     (if referenced env C_qemuMigrationJobContinue then 1 else 0,
      log C_qemuMigrationJobContinue st)"

definition qemuMigrationJobFinish :: "env \<Rightarrow> run \<Rightarrow> int \<times> run" where
  "qemuMigrationJobFinish env st = qemuDomainObjEndAsyncJob env st"

definition qemuMigrationJobIsActive :: "qemuDomainAsyncJob \<Rightarrow> run \<Rightarrow> bool \<times> run" where
  "qemuMigrationJobIsActive ajob st =
     (if asyncJob (job (obj st)) \<noteq> ajob then
        (False,
         virReportError (Err VIR_ERR_OPERATION_INVALID ''domain is not being migrated'') st)
      else (True, st))"

fun phase_number :: "qemuMigrationJobPhase \<Rightarrow> int" where
  "phase_number QEMU_MIGRATION_PHASE_NONE = 0"
| "phase_number QEMU_MIGRATION_PHASE_PERFORM2 = 1"
| "phase_number QEMU_MIGRATION_PHASE_BEGIN3 = 2"
| "phase_number QEMU_MIGRATION_PHASE_PERFORM3 = 3"
| "phase_number QEMU_MIGRATION_PHASE_PERFORM3_DONE = 4"
| "phase_number QEMU_MIGRATION_PHASE_CONFIRM3_CANCELLED = 5"
| "phase_number QEMU_MIGRATION_PHASE_CONFIRM3 = 6"
| "phase_number QEMU_MIGRATION_PHASE_PREPARE = 7"
| "phase_number QEMU_MIGRATION_PHASE_FINISH2 = 8"
| "phase_number QEMU_MIGRATION_PHASE_FINISH3 = 9"

definition qemuMigrationJobStartPhase :: "qemuMigrationJobPhase \<Rightarrow> run \<Rightarrow> run" where
  "qemuMigrationJobStartPhase p st =
     (log (C_qemuMigrationJobStartPhase p) st)
       \<lparr>obj := (obj st)\<lparr>job := (job (obj st))\<lparr>phase := phase_number p\<rparr>\<rparr>\<rparr>"

text \<open>
  \<open>qemuMigrationBegin\<close> (outside the sources) returns the XML of the domain, which is
  the environment's, or \<open>NULL\<close> with an error.
\<close>

definition qemuMigrationBegin :: "env \<Rightarrow> run \<Rightarrow> string option \<times> run" where
  "qemuMigrationBegin env st =
     (live_xml env,
      (log C_qemuMigrationBegin st)
        \<lparr>last_error := (if live_xml env = None then Some (Reported_by C_qemuMigrationBegin)
                          else last_error st)\<rparr>)"

text \<open>
  The values of the flag bits are in \<open>libvirt.h\<close>, outside the sources; the flags are
  passed as the two tests that the functions make of them.  A call with a flag outside
  \<open>QEMU_MIGRATION_FLAGS\<close> is refused by \<open>virCheckFlags\<close> before the domain is looked
  up, and is not a run of the functions below.
\<close>

record migrate_flags =
  change_protection :: bool
  undefine_source :: bool

text \<open>The labels \<open>cleanup\<close> and \<open>endjob\<close>, with the value of \<open>xml\<close>.\<close>

definition qemuDomainMigrateBegin3_cleanup :: "string option \<Rightarrow> run \<Rightarrow> string option \<times> run" where
  "qemuDomainMigrateBegin3_cleanup xml st =
     (xml, log C_qemuDriverUnlock (if held st then log C_virDomainObjUnlock st else st))"

definition qemuDomainMigrateBegin3_endjob ::
  "env \<Rightarrow> migrate_flags \<Rightarrow> string option \<Rightarrow> run \<Rightarrow> string option \<times> run" where
  "qemuDomainMigrateBegin3_endjob env flags xml st =
     (case (if change_protection flags then qemuMigrationJobFinish env st
            else qemuDomainObjEndJob env st) of
        (r, st1) \<Rightarrow>
          qemuDomainMigrateBegin3_cleanup xml (if r = 0 then st1\<lparr>held := False\<rparr> else st1))"

definition qemuDomainMigrateBegin3 ::
  "env \<Rightarrow> migrate_flags \<Rightarrow> run \<Rightarrow> string option \<times> run" where
  "qemuDomainMigrateBegin3 env flags st =
     (if \<not> held st then qemuDomainMigrateBegin3_cleanup None (virReportError no_domain st)
      else
        case (if change_protection flags
              then qemuMigrationJobStart env QEMU_ASYNC_JOB_MIGRATION_OUT st
              else qemuDomainObjBeginJob env QEMU_JOB_MODIFY st) of
          (r, st1) \<Rightarrow>
            if r < 0 then qemuDomainMigrateBegin3_cleanup None st1
            else if \<not> virDomainObjIsActive (obj st1) then
              qemuDomainMigrateBegin3_endjob env flags None (virReportError not_running st1)
            else
              case ext_unlocked env
                     (C_qemuDomainCheckEjectableMedia
                        (if change_protection flags then QEMU_ASYNC_JOB_MIGRATION_OUT
                         else QEMU_ASYNC_JOB_NONE)) st1 of
                (rm, st2) \<Rightarrow>
                  if rm < 0 then qemuDomainMigrateBegin3_endjob env flags None st2
                  else
                    case qemuMigrationBegin env st2 of
                      (xml, st3) \<Rightarrow>
                        if xml = None then qemuDomainMigrateBegin3_endjob env flags None st3
                        else if change_protection flags then
                          (case ext env C_qemuDriverCloseCallbackSet st3 of
                             (rs, st4) \<Rightarrow>
                               if rs < 0 then
                                 qemuDomainMigrateBegin3_endjob env flags xml st4
                               else
                                 (case qemuMigrationJobContinue env st4 of
                                    (rj, st5) \<Rightarrow>
                                      if rj = 0 then
                                        qemuDomainMigrateBegin3_cleanup None
                                          (virReportError
                                             (Err VIR_ERR_OPERATION_FAILED
                                                ''domain disappeared'')
                                             (st5\<lparr>held := False\<rparr>))
                                      else qemuDomainMigrateBegin3_cleanup xml st5))
                        else qemuDomainMigrateBegin3_endjob env flags xml st3)"

text \<open>
  \<open>qemuMigrationConfirm\<close> (outside the sources) is taken as one call; whether the
  domain is still active when it returns is the environment's.
\<close>

definition qemuDomainMigrateConfirm3_cleanup :: "run \<Rightarrow> run" where
  "qemuDomainMigrateConfirm3_cleanup st =
     log C_qemuDriverUnlock (if held st then log C_virDomainObjUnlock st else st)"

definition qemuDomainMigrateConfirm3 :: "env \<Rightarrow> migrate_flags \<Rightarrow> int \<Rightarrow> run \<Rightarrow> int \<times> run" where
  "qemuDomainMigrateConfirm3 env flags cancelled st =
     (if \<not> held st then
        (- 1, qemuDomainMigrateConfirm3_cleanup (virReportError no_domain st))
      else
        case qemuMigrationJobIsActive QEMU_ASYNC_JOB_MIGRATION_OUT st of
          (act, st1) \<Rightarrow>
            if \<not> act then (- 1, qemuDomainMigrateConfirm3_cleanup st1)
            else
              case ext_unlocked env C_qemuMigrationConfirm
                     (log C_qemuDriverCloseCallbackUnset
                        (qemuMigrationJobStartPhase
                           (if cancelled \<noteq> 0 then QEMU_MIGRATION_PHASE_CONFIRM3_CANCELLED
                            else QEMU_MIGRATION_PHASE_CONFIRM3) st1)) of
                (ret, st2) \<Rightarrow>
                  (case qemuMigrationJobFinish env st2 of
                     (rf, st3) \<Rightarrow>
                       if rf = 0 then
                         (ret, qemuDomainMigrateConfirm3_cleanup (st3\<lparr>held := False\<rparr>))
                       else if \<not> virDomainObjIsActive (obj st3)
                               \<and> (\<not> persistent (obj st3) \<or> undefine_source flags) then
                         (ret,
                          qemuDomainMigrateConfirm3_cleanup
                            ((log C_qemuDomainRemoveInactive
                                (if undefine_source flags then log C_virDomainDeleteConfig st3
                                 else st3))\<lparr>held := False\<rparr>))
                       else (ret, qemuDomainMigrateConfirm3_cleanup st3)))"

section \<open>Reading a trace\<close>

text \<open>
  The public operations whose handling of the return value of \<open>qemuDomainObjEndJob\<close>
  is examined together; each is run on its own trace.
\<close>

datatype operation = Suspend | DestroyFlags "32 word" | AbortJob

definition run_operation :: "env \<Rightarrow> operation \<Rightarrow> run \<Rightarrow> run" where
  "run_operation env op st =
     (case op of
        Suspend \<Rightarrow> snd (qemudDomainSuspend env (st\<lparr>trace := []\<rparr>))
      | DestroyFlags flags \<Rightarrow> snd (qemuDomainDestroyFlags env flags (st\<lparr>trace := []\<rparr>))
      | AbortJob \<Rightarrow> snd (qemuDomainAbortJob env (st\<lparr>trace := []\<rparr>)))"

text \<open>The calls that drop the caller's reference to the domain object.\<close>

definition releases :: "call \<Rightarrow> bool" where
  "releases c = (c = C_qemuDomainObjEndJob \<or> c = C_qemuDomainObjEndAsyncJob)"

text \<open>
  The calls that are given the domain object: all but the unlocking of the driver, the
  queueing of an event that was built earlier, and the clock.
\<close>

definition vm_access :: "call \<Rightarrow> bool" where
  "vm_access c =
     (c \<noteq> C_qemuDriverUnlock \<and> c \<noteq> C_qemuDomainEventQueue \<and> c \<noteq> C_virTimeMillisNow)"

text \<open>
  After the first release that returns 0 (the object is no longer referenced) no call of
  the trace is given the object.
\<close>

fun untouched_after_release :: "(call \<Rightarrow> bool) \<Rightarrow> call list \<Rightarrow> bool" where
  "untouched_after_release refd [] = True"
| "untouched_after_release refd (c # cs) =
     (if releases c \<and> \<not> refd c then list_all (\<lambda>d. \<not> vm_access d) cs
      else untouched_after_release refd cs)"

fun is_stop :: "call \<Rightarrow> bool" where
  "is_stop (C_qemuProcessStop reason) = True"
| "is_stop c = False"

text \<open>
  Once the operation has run the stop sequence, a release that returns a positive
  number is followed at once by \<open>qemuDomainRemoveInactive\<close>.
\<close>

fun removed_after_stop :: "(call \<Rightarrow> bool) \<Rightarrow> bool \<Rightarrow> call list \<Rightarrow> bool" where
  "removed_after_stop refd stopped [] = True"
| "removed_after_stop refd stopped (c # cs) =
     (if releases c \<and> stopped \<and> refd c then
        (case cs of [] \<Rightarrow> False | d # ds \<Rightarrow> d = C_qemuDomainRemoveInactive)
      else removed_after_stop refd (stopped \<or> is_stop c) cs)"

text \<open>
  The steps of a save that touch the file: a write (with its buffer), the migration of
  the memory image, and the unlinking of the file.
\<close>

datatype step = WRITE string | MIGRATE | UNLINK

fun step_of :: "call \<Rightarrow> step list" where
  "step_of (C_safewrite buf) = [WRITE buf]"
| "step_of (C_qemuMigrationToFile offset compressor bypass ajob) = [MIGRATE]"
| "step_of C_unlink = [UNLINK]"
| "step_of c = []"

definition steps :: "call list \<Rightarrow> step list" where
  "steps tr = concat (map step_of tr)"

text \<open>The file is there and starts with the sixteen bytes \<open>m\<close>.\<close>

definition has_magic :: "string \<Rightarrow> string option \<Rightarrow> bool" where
  "has_magic m d = (case d of None \<Rightarrow> False | Some content \<Rightarrow> take 16 content = m)"

text \<open>
  The four steps of a save that runs to its end: the header with the partial magic, the
  XML, the migration, and the header with the complete magic.
\<close>

definition save_steps :: "env \<Rightarrow> string \<Rightarrow> qemud_save_formats \<Rightarrow> bool \<Rightarrow> step list" where
  "save_steps env domXML compress wasrunning =
     [WRITE (header_bytes (partial_header domXML compress wasrunning)),
      WRITE (take (unat (xml_len (partial_header domXML compress wasrunning)))
               (xml_buffer env domXML)),
      MIGRATE,
      WRITE (header_bytes (complete_header (partial_header domXML compress wasrunning)))]"

definition operation_invalid :: "virError option \<Rightarrow> bool" where
  "operation_invalid e =
     (case e of Some (Err VIR_ERR_OPERATION_INVALID m) \<Rightarrow> True | _ \<Rightarrow> False)"

text \<open>
  The calls that start a guest: from a save image, or from scratch.
\<close>

fun guest_start :: "call \<Rightarrow> bool" where
  "guest_start (C_qemuDomainSaveImageStartVM p) = True"
| "guest_start C_qemuProcessStart = True"
| "guest_start c = False"

definition guest_starts :: "call list \<Rightarrow> call list" where
  "guest_starts tr = filter guest_start tr"

text \<open>
  The calls that set the job mask, the calls that \<open>qemuDomainSaveMemory\<close> makes, and
  the calls that are neither of these nor the snapshot of the disks.
\<close>

fun sets_mask :: "call \<Rightarrow> bool" where
  "sets_mask (C_qemuDomainObjSetAsyncJobMask m) = True"
| "sets_mask c = False"

fun saves_memory :: "call \<Rightarrow> bool" where
  "saves_memory C_VIR_ALLOC_N = True"
| "saves_memory C_virFileDirectFdFlag = True"
| "saves_memory C_virStorageFileIsSharedFS = True"
| "saves_memory (C_open oflags) = True"
| "saves_memory (C_virFileOpenAs oflags owner force_owner as_user) = True"
| "saves_memory C_virFileWrapperFdNew = True"
| "saves_memory C_virFileWrapperFdClose = True"
| "saves_memory (C_safewrite buf) = True"
| "saves_memory (C_qemuMigrationToFile offset compressor bypass ajob) = True"
| "saves_memory (C_VIR_CLOSE n) = True"
| "saves_memory C_VIR_FORCE_CLOSE = True"
| "saves_memory C_unlink = True"
| "saves_memory c = False"

definition other_call :: "call \<Rightarrow> bool" where
  "other_call c =
     (\<not> sets_mask c \<and> \<not> saves_memory c \<and> c \<noteq> C_qemuDomainSnapshotCreateDiskActive)"

text \<open>
  A trace has grown from \<open>t0\<close> to \<open>t\<close> by calls that all satisfy \<open>P\<close>.  The mask
  that the snapshot sets for the time of the memory save.
\<close>

definition added_only :: "(call \<Rightarrow> bool) \<Rightarrow> call list \<Rightarrow> call list \<Rightarrow> bool" where
  "added_only P t0 t = (take (length t0) t = t0 \<and> list_all P (drop (length t0) t))"

definition wide_mask :: "qemuDomainJob set" where
  "wide_mask = DEFAULT_JOB_MASK \<union> JOB_MASK QEMU_JOB_SUSPEND \<union> JOB_MASK QEMU_JOB_MIGRATION_OP"

section \<open>Example inputs\<close>

text \<open>An environment in which every helper succeeds and nothing else happens.\<close>

definition quiet_env :: env where
  "quiet_env =
     \<lparr> rc = (\<lambda>c. 0), quits = (\<lambda>c. False), referenced = (\<lambda>c. True), millis = 5,
       short = (\<lambda>c. 0), is_regular = True, dynamicOwnership = False,
       user_is_caller = True, memory_image = ''MEMORY'', migrate_to_file_bs = 65536,
       live_xml = Some ''<domain/>'',
       parse_def = (\<lambda>x. Some \<lparr> name = ''guest'', uuid = ''0123456789abcdef'' \<rparr>) \<rparr>"

definition start_run :: "virDomainObj \<Rightarrow> run" where
  "start_run v =
     \<lparr> obj = v, held = True, last_error = None, trace = [], disk = None, fd_pos = 0 \<rparr>"


definition idle_job :: qemuDomainJobObj where
  "idle_job =
     \<lparr> active = QEMU_JOB_NONE, asyncJob = QEMU_ASYNC_JOB_NONE, phase = 0,
       mask = {QEMU_JOB_QUERY, QEMU_JOB_ABORT}, start = 0, asyncAbort = False,
       dump_memory_only = False, info = zero_job_info \<rparr>"

definition running_vm :: virDomainObj where
  "running_vm =
     \<lparr> def_id = 1, def_name = ''guest'', def_uuid = ''0123456789abcdef'', persistent = True,
       state = VIR_DOMAIN_RUNNING, hasManagedSave = False,
       job = idle_job, monStart = 0, monError = False, beingDestroyed = False \<rparr>"

text \<open>
  A running domain on which another thread holds the async job of an outgoing
  migration, and an environment in which the live XML cannot be formatted.
\<close>

definition busy_vm :: virDomainObj where
  "busy_vm = running_vm\<lparr>job := idle_job\<lparr>asyncJob := QEMU_ASYNC_JOB_MIGRATION_OUT\<rparr>\<rparr>"

definition no_xml_env :: env where
  "no_xml_env = quiet_env\<lparr>live_xml := None\<rparr>"

text \<open>
  A domain that is shut off and has a managed save file whose header starts with the
  partial magic, and an environment in which \<open>unlink\<close> fails.
\<close>

definition partial_image :: string where
  "partial_image = QEMUD_SAVE_PARTIAL @ replicate 76 (CHR 0x00)"

definition shut_off_vm :: virDomainObj where
  "shut_off_vm = running_vm\<lparr>def_id := - 1, state := VIR_DOMAIN_SHUTOFF, hasManagedSave := True\<rparr>"

definition managed_run :: run where
  "managed_run = (start_run shut_off_vm)\<lparr>disk := Some partial_image\<rparr>"

definition unlink_fails_env :: env where
  "unlink_fails_env = quiet_env\<lparr>rc := (\<lambda>c. if c = C_unlink then - 1 else 0)\<rparr>"

text \<open>
  An environment in which every \<open>safewrite\<close> fails after five bytes and \<open>unlink\<close>
  fails.
\<close>

definition torn_write_env :: env where
  "torn_write_env =
     quiet_env\<lparr>rc := (\<lambda>c. case c of C_safewrite buf \<Rightarrow> - 1 | C_unlink \<Rightarrow> - 1 | _ \<Rightarrow> 0),
               short := (\<lambda>c. 5)\<rparr>"

text \<open>
  A transient running domain, an environment in which \<open>qemuProcessStart\<close> fails,
  snapshots of a running and of a shut-off domain that carry a rollback definition, and
  the flags that force a revert, alone and with the request to run.
\<close>

definition transient_vm :: virDomainObj where
  "transient_vm = running_vm\<lparr>persistent := False\<rparr>"

definition start_fails_env :: env where
  "start_fails_env = quiet_env\<lparr>rc := (\<lambda>c. if c = C_qemuProcessStart then - 1 else 0)\<rparr>"

definition running_snapshot :: virDomainSnapshotDef where
  "running_snapshot =
     \<lparr> snap_state = SNAP_STATE VIR_DOMAIN_RUNNING, snap_dom = Some ''<domain/>'' \<rparr>"

definition shutoff_snapshot :: virDomainSnapshotDef where
  "shutoff_snapshot =
     \<lparr> snap_state = SNAP_STATE VIR_DOMAIN_SHUTOFF, snap_dom = Some ''<domain/>'' \<rparr>"

definition force_flags :: snapshot_revert_flags where
  "force_flags = \<lparr> revert_running = False, revert_paused = False, revert_force = True \<rparr>"

definition force_running_flags :: snapshot_revert_flags where
  "force_running_flags =
     \<lparr> revert_running = True, revert_paused = False, revert_force = True \<rparr>"

text \<open>A snapshot with none of the four flags.\<close>

definition no_flags :: snapshot_create_flags where
  "no_flags = \<lparr> flag_halt = False, flag_quiesce = False, flag_atomic = False,
                flag_live = False \<rparr>"



text \<open>The flags of a migration with change protection.\<close>

definition protected_flags :: migrate_flags where
  "protected_flags = \<lparr> change_protection = True, undefine_source = False \<rparr>"

section \<open>What the status queries report\<close>

text \<open>
  C9.  For a running domain and a call with no flag set, \<open>qemuDomainGetControlInfo\<close>
  reports ERROR when a monitor error is recorded; otherwise, when a synchronous job is
  active, OCCUPIED with the time since the monitor was entered if it has been entered
  (\<open>monStart\<close> is not 0), and JOB with the time since the job started if it has not;
  and OK when no job is active.  The two times are the clock, where it can be read, minus
  the recorded timestamp, in 64-bit unsigned arithmetic.
\<close>

theorem getControlInfo_reports:
  assumes "flags = 0" and "virDomainObjIsActive v"
  shows "(monError v \<longrightarrow>
            qemuDomainGetControlInfo clock (Some v) flags =
              Inr \<lparr> cstate = VIR_DOMAIN_CONTROL_ERROR, details = 0, stateTime = 0 \<rparr>)
       \<and> (\<not> monError v \<and> active (job v) \<noteq> QEMU_JOB_NONE \<and> monStart v \<noteq> 0
            \<and> clock = Some t \<longrightarrow>
            qemuDomainGetControlInfo clock (Some v) flags =
              Inr \<lparr> cstate = VIR_DOMAIN_CONTROL_OCCUPIED, details = 0,
                    stateTime = t - monStart v \<rparr>)
       \<and> (\<not> monError v \<and> active (job v) \<noteq> QEMU_JOB_NONE \<and> monStart v = 0
            \<and> clock = Some t \<longrightarrow>
            qemuDomainGetControlInfo clock (Some v) flags =
              Inr \<lparr> cstate = VIR_DOMAIN_CONTROL_JOB, details = 0,
                    stateTime = t - start (job v) \<rparr>)
       \<and> (\<not> monError v \<and> active (job v) = QEMU_JOB_NONE \<longrightarrow>
            qemuDomainGetControlInfo clock (Some v) flags =
              Inr \<lparr> cstate = VIR_DOMAIN_CONTROL_OK, details = 0, stateTime = 0 \<rparr>)"
  using assms
  by (simp add: qemuDomainGetControlInfo_def virCheckFlags_def virTimeMillisNow_def
      zero_control_info_def)

theorem getControlInfo_reports_witness:
  "qemuDomainGetControlInfo (Some 100)
      (Some (running_vm\<lparr>job := idle_job\<lparr>active := QEMU_JOB_MODIFY, start := 40\<rparr>,
                         monStart := 70\<rparr>)) 0
     = Inr \<lparr> cstate = VIR_DOMAIN_CONTROL_OCCUPIED, details = 0, stateTime = 30 \<rparr>
   \<and> qemuDomainGetControlInfo (Some 100)
      (Some (running_vm\<lparr>job := idle_job\<lparr>active := QEMU_JOB_MODIFY, start := 40\<rparr>\<rparr>)) 0
     = Inr \<lparr> cstate = VIR_DOMAIN_CONTROL_JOB, details = 0, stateTime = 60 \<rparr>
   \<and> qemuDomainGetControlInfo None (Some (running_vm\<lparr>monError := True\<rparr>)) 0
     = Inr \<lparr> cstate = VIR_DOMAIN_CONTROL_ERROR, details = 0, stateTime = 0 \<rparr>
   \<and> qemuDomainGetControlInfo None (Some running_vm) 0
     = Inr \<lparr> cstate = VIR_DOMAIN_CONTROL_OK, details = 0, stateTime = 0 \<rparr>"
  using
    getControlInfo_reports [of 0
      "running_vm\<lparr>job := idle_job\<lparr>active := QEMU_JOB_MODIFY, start := 40\<rparr>, monStart := 70\<rparr>"
      "Some 100" 100]
    getControlInfo_reports [of 0
      "running_vm\<lparr>job := idle_job\<lparr>active := QEMU_JOB_MODIFY, start := 40\<rparr>\<rparr>"
      "Some 100" 100]
    getControlInfo_reports [of 0 "running_vm\<lparr>monError := True\<rparr>" None 0]
    getControlInfo_reports [of 0 running_vm None 0]
  by (simp add: running_vm_def idle_job_def virDomainObjIsActive_def)

text \<open>
  C8.  For a running domain \<open>qemuDomainGetJobInfo\<close> returns the stored job info with
  the elapsed time set to the clock minus the start of the job when an asynchronous job
  is active and is not a memory-only dump, and the zeroed info of type NONE when there is
  no asynchronous job or it is a memory-only dump; for a domain that is not running it
  fails with the error "domain is not running".
\<close>

theorem getJobInfo_cases:
  "(virDomainObjIsActive v \<and> asyncJob (job v) \<noteq> QEMU_ASYNC_JOB_NONE
      \<and> \<not> dump_memory_only (job v) \<and> clock = Some t \<longrightarrow>
      qemuDomainGetJobInfo clock (Some v) =
        Inr ((info (job v))\<lparr>timeElapsed := t - start (job v)\<rparr>))
   \<and> (virDomainObjIsActive v
      \<and> (asyncJob (job v) = QEMU_ASYNC_JOB_NONE \<or> dump_memory_only (job v)) \<longrightarrow>
      qemuDomainGetJobInfo clock (Some v) = Inr zero_job_info
      \<and> jtype zero_job_info = VIR_DOMAIN_JOB_NONE)
   \<and> (\<not> virDomainObjIsActive v \<longrightarrow>
      qemuDomainGetJobInfo clock (Some v) =
        Inl (Err VIR_ERR_OPERATION_INVALID ''domain is not running''))"
  by (auto simp add: qemuDomainGetJobInfo_def virTimeMillisNow_def zero_job_info_def
      not_running_def)

theorem getJobInfo_cases_witness:
  "qemuDomainGetJobInfo (Some 1000)
      (Some (running_vm\<lparr>job := idle_job\<lparr>asyncJob := QEMU_ASYNC_JOB_SAVE, start := 400,
          info := zero_job_info\<lparr>jtype := VIR_DOMAIN_JOB_UNBOUNDED, memTotal := 7\<rparr>\<rparr>\<rparr>))
     = Inr (zero_job_info\<lparr>jtype := VIR_DOMAIN_JOB_UNBOUNDED, memTotal := 7,
                           timeElapsed := 600\<rparr>)
   \<and> qemuDomainGetJobInfo (Some 1000)
      (Some (running_vm\<lparr>job := idle_job\<lparr>asyncJob := QEMU_ASYNC_JOB_DUMP,
          dump_memory_only := True,
          info := zero_job_info\<lparr>jtype := VIR_DOMAIN_JOB_UNBOUNDED\<rparr>\<rparr>\<rparr>))
     = Inr zero_job_info
   \<and> qemuDomainGetJobInfo (Some 1000) (Some running_vm) = Inr zero_job_info
   \<and> qemuDomainGetJobInfo (Some 1000) (Some (running_vm\<lparr>def_id := - 1\<rparr>))
     = Inl (Err VIR_ERR_OPERATION_INVALID ''domain is not running'')"
  using
    getJobInfo_cases [of
      "running_vm\<lparr>job := idle_job\<lparr>asyncJob := QEMU_ASYNC_JOB_SAVE, start := 400,
          info := zero_job_info\<lparr>jtype := VIR_DOMAIN_JOB_UNBOUNDED, memTotal := 7\<rparr>\<rparr>\<rparr>"
      "Some 1000" 1000]
    getJobInfo_cases [of
      "running_vm\<lparr>job := idle_job\<lparr>asyncJob := QEMU_ASYNC_JOB_DUMP,
          dump_memory_only := True,
          info := zero_job_info\<lparr>jtype := VIR_DOMAIN_JOB_UNBOUNDED\<rparr>\<rparr>\<rparr>"
      "Some 1000" 1000]
    getJobInfo_cases [of running_vm "Some 1000" 1000]
    getJobInfo_cases [of "running_vm\<lparr>def_id := - 1\<rparr>" "Some 1000" 1000]
  by (simp add: running_vm_def idle_job_def virDomainObjIsActive_def zero_job_info_def)

section \<open>Ending a job\<close>

text \<open>
  In \<open>qemudDomainSuspend\<close>, \<open>qemuDomainDestroyFlags\<close> and \<open>qemuDomainAbortJob\<close>:
  once \<open>qemuDomainObjEndJob\<close> has returned 0, no later call of the operation is given
  the domain object, and the operation ends with its reference cleared; and for a
  domain that is not persistent, once the operation has stopped the domain (it has run
  \<open>qemuProcessStop\<close>), a positive return value is followed at once by
  \<open>qemuDomainRemoveInactive\<close>.
\<close>

theorem end_job_discipline:
  "untouched_after_release (referenced env) (trace (run_operation env op st))
   \<and> (list_ex releases (trace (run_operation env op st))
        \<and> \<not> referenced env C_qemuDomainObjEndJob \<longrightarrow>
      \<not> held (run_operation env op st))
   \<and> (\<not> persistent (obj st) \<longrightarrow>
      removed_after_stop (referenced env) False (trace (run_operation env op st)))"
  by (cases op)
    (simp_all add: run_operation_def qemudDomainSuspend_def qemuDomainDestroyFlags_def
      qemuDomainAbortJob_def qemudDomainSuspend_endjob_def qemuDomainDestroyFlags_endjob_def
      qemuDomainAbortJob_endjob_def qemuDomainAbortJob_cleanup_def driver_cleanup_def
      qemuDomainObjBeginJob_def qemuDomainObjEndJob_def ext_def ext_unlocked_def log_def
      virReportError_def qemuProcessStop_def qemuDomainObjEnterMonitor_def
      qemuDomainObjExitMonitor_def qemuDomainObjAbortAsyncJob_def virCheckFlags_def Let_def
      releases_def vm_access_def split: prod.splits option.splits if_splits)

theorem end_job_discipline_witness:
  "trace (run_operation (quiet_env\<lparr>referenced := (\<lambda>c. False)\<rparr>) Suspend
            (start_run running_vm)) =
     [C_qemuDomainObjBeginJob QEMU_JOB_SUSPEND,
      C_qemuProcessStopCPUs VIR_DOMAIN_PAUSED_USER QEMU_ASYNC_JOB_NONE,
      C_virDomainSaveStatus, C_qemuDomainObjEndJob, C_qemuDomainEventQueue,
      C_qemuDriverUnlock]
   \<and> \<not> held (run_operation (quiet_env\<lparr>referenced := (\<lambda>c. False)\<rparr>) Suspend
               (start_run running_vm))
   \<and> trace (run_operation quiet_env (DestroyFlags 0)
              (start_run (running_vm\<lparr>persistent := False\<rparr>))) =
     [C_qemuDomainSetFakeReboot, C_qemuProcessKill True,
      C_qemuDomainObjBeginJob QEMU_JOB_DESTROY,
      C_qemuProcessStop VIR_DOMAIN_SHUTOFF_DESTROYED, C_virDomainAuditStop,
      C_qemuDomainObjEndJob, C_qemuDomainRemoveInactive, C_qemuDomainEventQueue,
      C_qemuDriverUnlock]
   \<and> removed_after_stop (referenced quiet_env) False
        (trace (run_operation quiet_env (DestroyFlags 0)
                  (start_run (running_vm\<lparr>persistent := False\<rparr>))))
   \<and> untouched_after_release (referenced (quiet_env\<lparr>referenced := (\<lambda>c. False)\<rparr>))
        (trace (run_operation (quiet_env\<lparr>referenced := (\<lambda>c. False)\<rparr>) Suspend
                  (start_run running_vm)))"
  using
    end_job_discipline [of "quiet_env\<lparr>referenced := (\<lambda>c. False)\<rparr>" Suspend
      "start_run running_vm"]
    end_job_discipline [of quiet_env "DestroyFlags 0"
      "start_run (running_vm\<lparr>persistent := False\<rparr>)"]
  by (simp add: run_operation_def qemudDomainSuspend_def qemuDomainDestroyFlags_def
      qemudDomainSuspend_endjob_def qemuDomainDestroyFlags_endjob_def driver_cleanup_def
      qemuDomainObjBeginJob_def qemuDomainObjEndJob_def ext_def ext_unlocked_def log_def
      virReportError_def qemuProcessStop_def virCheckFlags_def Let_def releases_def
      vm_access_def quiet_env_def start_run_def running_vm_def idle_job_def
      virDomainObjIsActive_def virDomainObjGetState_def VIR_DOMAIN_DESTROY_GRACEFUL_def)

text \<open>
  C4.  Not every operation removes a transient domain that it has stopped.  In
  \<open>qemuDomainRevertToSnapshot\<close>, a forced revert of a transient running domain to a
  snapshot of a running domain whose definition is not ABI-compatible stops the domain
  and starts it again; when \<open>qemuProcessStart\<close> fails the function goes to \<open>endjob\<close>,
  where a positive return value of \<open>qemuDomainObjEndJob\<close> is followed by no
  \<open>qemuDomainRemoveInactive\<close>: the function returns \<open>-1\<close> and the domain, transient
  and no longer active, is still there.  On the failure path of the revert to a
  snapshot of a shut-off domain the same function does remove it.
\<close>

theorem revert_leaves_stopped_transient_domain:
  "\<not> persistent transient_vm
   \<and> referenced start_fails_env C_qemuDomainObjEndJob
   \<and> fst (qemuDomainRevertToSnapshot start_fails_env running_snapshot False force_flags
            (start_run transient_vm)) = - 1
   \<and> trace (snd (qemuDomainRevertToSnapshot start_fails_env running_snapshot False
                   force_flags (start_run transient_vm)))
       = [C_virDomainHasDiskMirror, C_qemuSnapObjFromSnapshot, C_qemuDomainDefFormatXML,
          C_virDomainDefParseString ''<domain/>'', C_qemuDomainObjBeginJob QEMU_JOB_MODIFY,
          C_virDomainDefCheckABIStability, C_virGetLastError,
          C_qemuProcessStop VIR_DOMAIN_SHUTOFF_FROM_SNAPSHOT, C_virDomainAuditStop,
          C_qemuDomainEventQueue, C_virDomainObjAssignDef, C_qemuProcessStart,
          C_virDomainAuditStart, C_qemuDomainObjEndJob, C_qemuDomainEventQueue,
          C_virDomainObjUnlock, C_qemuDriverUnlock]
   \<and> \<not> virDomainObjIsActive
          (obj (snd (qemuDomainRevertToSnapshot start_fails_env running_snapshot False
                       force_flags (start_run transient_vm))))
   \<and> \<not> removed_after_stop (referenced start_fails_env) False
          (trace (snd (qemuDomainRevertToSnapshot start_fails_env running_snapshot False
                         force_flags (start_run transient_vm))))
   \<and> trace (snd (qemuDomainRevertToSnapshot start_fails_env shutoff_snapshot False
                   force_running_flags (start_run transient_vm)))
       = [C_virDomainHasDiskMirror, C_qemuSnapObjFromSnapshot, C_qemuDomainDefFormatXML,
          C_virDomainDefParseString ''<domain/>'', C_qemuDomainObjBeginJob QEMU_JOB_MODIFY,
          C_qemuProcessStop VIR_DOMAIN_SHUTOFF_FROM_SNAPSHOT, C_virDomainAuditStop,
          C_qemuDomainSnapshotRevertInactive, C_virDomainObjAssignDef,
          C_qemuDomainEventQueue, C_qemuProcessStart, C_virDomainAuditStart,
          C_qemuDomainObjEndJob, C_qemuDomainRemoveInactive, C_qemuDomainEventQueue,
          C_qemuDriverUnlock]"
  by (simp add: qemuDomainRevertToSnapshot_def qemuDomainRevertToSnapshot_job_def
      qemuDomainRevertToSnapshot_online_def qemuDomainRevertToSnapshot_offline_def
      qemuDomainRevertToSnapshot_load_def qemuDomainRevertToSnapshot_loadvm_def
      qemuDomainRevertToSnapshot_touch_def qemuDomainRevertToSnapshot_remove_def
      qemuDomainRevertToSnapshot_endjob_def qemuDomainRevertToSnapshot_cleanup_def
      qemuProcessStart_def qemuProcessStop_def qemuDomainObjBeginJob_def
      qemuDomainObjEndJob_def virDomainDefParseString_def sys_def ext_def ext_unlocked_def
      log_def virReportError_def Let_def virDomainObjIsActive_def virDomainObjGetState_def
      guest_quit_def transient_vm_def start_fails_env_def running_snapshot_def
      shutoff_snapshot_def force_flags_def force_running_flags_def quiet_env_def
      start_run_def running_vm_def idle_job_def releases_def)

section \<open>Aborting a job\<close>

text \<open>
  C6.  Once \<open>qemuDomainAbortJob\<close> has acquired the ABORT job, it fails with an
  "operation invalid" error, sets no abort flag and issues no migrate-cancel command
  when the domain is not running, when no asynchronous job is active, when the job is a
  memory-only dump, or when it is an incoming migration.  In every other case it sets
  the abort flag, enters the monitor, issues migrate-cancel, leaves the monitor and ends
  its own job, and does nothing else: the asynchronous job stays active, and the result
  is that of the monitor command.
\<close>

theorem abortJob_cases:
  assumes "held st" and "trace st = []"
    and "fst (qemuDomainObjBeginJob env QEMU_JOB_ABORT st) = 0"
  shows "(\<not> virDomainObjIsActive (obj st)
          \<or> asyncJob (job (obj st)) = QEMU_ASYNC_JOB_NONE
          \<or> dump_memory_only (job (obj st))
          \<or> asyncJob (job (obj st)) = QEMU_ASYNC_JOB_MIGRATION_IN \<longrightarrow>
            fst (qemuDomainAbortJob env st) = - 1
          \<and> operation_invalid (last_error (snd (qemuDomainAbortJob env st)))
          \<and> asyncAbort (job (obj (snd (qemuDomainAbortJob env st))))
              = asyncAbort (job (obj st))
          \<and> C_qemuMonitorMigrateCancel \<notin> set (trace (snd (qemuDomainAbortJob env st))))
       \<and> (virDomainObjIsActive (obj st)
          \<and> asyncJob (job (obj st)) \<noteq> QEMU_ASYNC_JOB_NONE
          \<and> \<not> dump_memory_only (job (obj st))
          \<and> asyncJob (job (obj st)) \<noteq> QEMU_ASYNC_JOB_MIGRATION_IN \<longrightarrow>
            fst (qemuDomainAbortJob env st) = rc env C_qemuMonitorMigrateCancel
          \<and> asyncAbort (job (obj (snd (qemuDomainAbortJob env st))))
          \<and> asyncJob (job (obj (snd (qemuDomainAbortJob env st)))) = asyncJob (job (obj st))
          \<and> take 6 (trace (snd (qemuDomainAbortJob env st))) =
              [C_qemuDomainObjBeginJob QEMU_JOB_ABORT, C_qemuDomainObjAbortAsyncJob,
               C_qemuDomainObjEnterMonitor, C_qemuMonitorMigrateCancel,
               C_qemuDomainObjExitMonitor, C_qemuDomainObjEndJob]
          \<and> drop 6 (trace (snd (qemuDomainAbortJob env st))) =
              (if referenced env C_qemuDomainObjEndJob then [C_virDomainObjUnlock] else []))"
  using assms
  by (auto simp add: qemuDomainAbortJob_def qemuDomainAbortJob_endjob_def
      qemuDomainAbortJob_cleanup_def qemuDomainObjBeginJob_def qemuDomainObjEndJob_def
      ext_def ext_unlocked_def log_def virReportError_def qemuDomainObjEnterMonitor_def
      qemuDomainObjExitMonitor_def qemuDomainObjAbortAsyncJob_def Let_def not_running_def
      guest_quit_def operation_invalid_def virDomainObjIsActive_def
      split: prod.splits if_splits)

theorem abortJob_cases_witness:
  "qemuDomainAbortJob quiet_env
      (start_run (running_vm\<lparr>job := idle_job\<lparr>asyncJob := QEMU_ASYNC_JOB_MIGRATION_OUT\<rparr>\<rparr>))
     = (0, \<lparr> obj = running_vm\<lparr>job := idle_job\<lparr>asyncJob := QEMU_ASYNC_JOB_MIGRATION_OUT,
                                               start := 5, asyncAbort := True\<rparr>\<rparr>,
             held = True, last_error = None,
             trace = [C_qemuDomainObjBeginJob QEMU_JOB_ABORT, C_qemuDomainObjAbortAsyncJob,
                      C_qemuDomainObjEnterMonitor, C_qemuMonitorMigrateCancel,
                      C_qemuDomainObjExitMonitor, C_qemuDomainObjEndJob,
                      C_virDomainObjUnlock],
             disk = None, fd_pos = 0 \<rparr>)
   \<and> fst (qemuDomainAbortJob quiet_env
            (start_run (running_vm\<lparr>job := idle_job\<lparr>asyncJob := QEMU_ASYNC_JOB_MIGRATION_IN\<rparr>\<rparr>)))
     = - 1
   \<and> trace (snd (qemuDomainAbortJob quiet_env
            (start_run (running_vm\<lparr>job := idle_job\<lparr>asyncJob := QEMU_ASYNC_JOB_MIGRATION_IN\<rparr>\<rparr>))))
     = [C_qemuDomainObjBeginJob QEMU_JOB_ABORT, C_qemuDomainObjEndJob, C_virDomainObjUnlock]"
  using
    abortJob_cases [of
      "start_run (running_vm\<lparr>job := idle_job\<lparr>asyncJob := QEMU_ASYNC_JOB_MIGRATION_OUT\<rparr>\<rparr>)"
      quiet_env]
    abortJob_cases [of
      "start_run (running_vm\<lparr>job := idle_job\<lparr>asyncJob := QEMU_ASYNC_JOB_MIGRATION_IN\<rparr>\<rparr>)"
      quiet_env]
  by (simp add: qemuDomainAbortJob_def qemuDomainAbortJob_endjob_def
      qemuDomainAbortJob_cleanup_def qemuDomainObjBeginJob_def qemuDomainObjEndJob_def
      ext_def ext_unlocked_def log_def virReportError_def qemuDomainObjEnterMonitor_def
      qemuDomainObjExitMonitor_def qemuDomainObjAbortAsyncJob_def Let_def
      quiet_env_def start_run_def running_vm_def idle_job_def virDomainObjIsActive_def)

section \<open>Saving the memory of a domain\<close>

text \<open>What each primitive does to the trace, the file and the descriptor.\<close>

lemma log_proj [simp]:
  "trace (log c st) = trace st @ [c]" "disk (log c st) = disk st" "fd_pos (log c st) = fd_pos st"
  "obj (log c st) = obj st" "held (log c st) = held st" "last_error (log c st) = last_error st"
  by (simp_all add: log_def)

lemma report_proj [simp]:
  "trace (virReportError e st) = trace st" "disk (virReportError e st) = disk st"
  "fd_pos (virReportError e st) = fd_pos st" "obj (virReportError e st) = obj st"
  "held (virReportError e st) = held st" "last_error (virReportError e st) = Some e"
  by (simp_all add: virReportError_def)

lemma sys_proj [simp]:
  "fst (sys env c st) = rc env c" "snd (sys env c st) = log c st"
  by (simp_all add: sys_def)

lemma ext_proj [simp]:
  "fst (ext env c st) = rc env c"
  "trace (snd (ext env c st)) = trace st @ [c]" "disk (snd (ext env c st)) = disk st"
  "fd_pos (snd (ext env c st)) = fd_pos st" "obj (snd (ext env c st)) = obj st"
  "held (snd (ext env c st)) = held st"
  by (simp_all add: ext_def)

lemma ext_unlocked_proj [simp]:
  "fst (ext_unlocked env c st) = rc env c"
  "trace (snd (ext_unlocked env c st)) = trace st @ [c]"
  "disk (snd (ext_unlocked env c st)) = disk st"
  "fd_pos (snd (ext_unlocked env c st)) = fd_pos st"
  "held (snd (ext_unlocked env c st)) = held st"
  by (simp_all add: ext_unlocked_def ext_def split: prod.splits)

lemma safewrite_proj [simp]:
  "trace (snd (safewrite env buf st)) = trace st @ [C_safewrite buf]"
  "obj (snd (safewrite env buf st)) = obj st" "held (snd (safewrite env buf st)) = held st"
  by (simp_all add: safewrite_def Let_def)

lemma safewrite_ok:
  "(fst (safewrite env buf st) = int (length buf)) = (\<not> (rc env (C_safewrite buf) < 0 \<and> buf \<noteq> []))"
  by (simp add: safewrite_def Let_def)

lemma safewrite_ok_disk:
  "fst (safewrite env buf st) = int (length buf) \<Longrightarrow>
     disk (snd (safewrite env buf st)) = map_option (write_at (fd_pos st) buf) (disk st)
   \<and> fd_pos (snd (safewrite env buf st)) = fd_pos st + length buf"
  by (auto simp add: safewrite_def Let_def split: if_splits)

lemma safewrite_any_disk:
  "\<exists>moved. disk (snd (safewrite env buf st)) = map_option (write_at (fd_pos st) moved) (disk st)
     \<and> fd_pos (snd (safewrite env buf st)) = fd_pos st + length moved"
proof (cases "rc env (C_safewrite buf) < 0 \<and> buf \<noteq> []")
  case True
  then show ?thesis
    by (intro exI [where x = "take (min (short env (C_safewrite buf)) (length buf - 1)) buf"])
      (simp add: safewrite_def Let_def)
next
  case False
  then show ?thesis
    by (intro exI [where x = buf]) (auto simp add: safewrite_def Let_def)
qed

lemma sys_open_proj [simp]:
  "trace (snd (sys_open env c fl st)) = trace st @ [c]"
  "obj (snd (sys_open env c fl st)) = obj st" "held (snd (sys_open env c fl st)) = held st"
  "last_error (snd (sys_open env c fl st)) = last_error st"
  by (simp_all add: sys_open_def)

lemma sys_open_disk:
  "disk (snd (sys_open env c fl st)) =
     (if fst (sys_open env c fl st) < 0 then disk st else opened env fl (disk st))"
  "fd_pos (snd (sys_open env c fl st)) =
     (if fst (sys_open env c fl st) < 0 then fd_pos st else 0)"
  by (simp_all add: sys_open_def)

lemma unlink_proj [simp]:
  "trace (snd (unlink env st)) = trace st @ [C_unlink]"
  "obj (snd (unlink env st)) = obj st" "held (snd (unlink env st)) = held st"
  by (simp_all add: unlink_def sys_def split: prod.splits)

lemma unlink_disk:
  "disk (snd (unlink env st)) = None \<or> disk (snd (unlink env st)) = disk st"
  by (simp add: unlink_def sys_def split: prod.splits)

text \<open>\<open>qemuOpenFile\<close> writes nothing, and opens the file or leaves it alone.\<close>

lemma steps_simps [simp]:
  "steps [] = []" "steps (tr @ tr') = steps tr @ steps tr'"
  "steps (c # tr) = step_of c @ steps tr"
  by (simp_all add: steps_def)

lemma as_user_proj [simp]:
  "fst (snd (fst (qemuOpenFile_as_user env fl fo st))) = (O_CREAT \<in> fl)"
  "steps (trace (snd (qemuOpenFile_as_user env fl fo st))) = steps (trace st)"
  "obj (snd (qemuOpenFile_as_user env fl fo st)) = obj st"
  "held (snd (qemuOpenFile_as_user env fl fo st)) = held st"
  by (simp_all add: qemuOpenFile_as_user_def case_prod_beta)

lemma as_user_disk:
  "disk (snd (qemuOpenFile_as_user env fl fo st)) =
     (if fst (fst (qemuOpenFile_as_user env fl fo st)) < 0 then disk st
      else opened env fl (disk st))"
  "fd_pos (snd (qemuOpenFile_as_user env fl fo st)) =
     (if fst (fst (qemuOpenFile_as_user env fl fo st)) < 0 then fd_pos st else 0)"
  by (simp_all add: qemuOpenFile_as_user_def case_prod_beta sys_open_disk)

lemma regular_proj [simp]:
  "fst (snd (fst (qemuOpenFile_regular env fl ps ow fo st))) = (O_CREAT \<in> fl)"
  "steps (trace (snd (qemuOpenFile_regular env fl ps ow fo st))) = steps (trace st)"
  "obj (snd (qemuOpenFile_regular env fl ps ow fo st)) = obj st"
  "held (snd (qemuOpenFile_regular env fl ps ow fo st)) = held st"
  by (simp_all add: qemuOpenFile_regular_def case_prod_beta)

lemma regular_disk:
  "disk (snd (qemuOpenFile_regular env fl ps ow fo st)) =
     (if fst (fst (qemuOpenFile_regular env fl ps ow fo st)) < 0 then disk st
      else opened env fl (disk st))"
  "fd_pos (snd (qemuOpenFile_regular env fl ps ow fo st)) =
     (if fst (fst (qemuOpenFile_regular env fl ps ow fo st)) < 0 then fd_pos st else 0)"
  by (simp_all add: qemuOpenFile_regular_def case_prod_beta sys_open_disk as_user_disk)

lemma opened_minus: "opened env (fl - {O_CREAT}) d = opened env fl d"
  by (simp add: opened_def split: option.splits)

lemma device_proj [simp]:
  "fst (snd (fst (qemuOpenFile_device env fl st))) = (O_CREAT \<in> fl)"
  "steps (trace (snd (qemuOpenFile_device env fl st))) = steps (trace st)"
  "obj (snd (qemuOpenFile_device env fl st)) = obj st"
  "held (snd (qemuOpenFile_device env fl st)) = held st"
  by (simp_all add: qemuOpenFile_device_def case_prod_beta)

lemma device_disk:
  "disk (snd (qemuOpenFile_device env fl st)) =
     (if fst (fst (qemuOpenFile_device env fl st)) < 0 then disk st
      else opened env fl (disk st))"
  "fd_pos (snd (qemuOpenFile_device env fl st)) =
     (if fst (fst (qemuOpenFile_device env fl st)) < 0 then fd_pos st else 0)"
  by (simp_all add: qemuOpenFile_device_def case_prod_beta sys_open_disk opened_minus)

lemma qemuOpenFile_proj [simp]:
  "fst (snd (fst (qemuOpenFile env fl st))) = (O_CREAT \<in> fl)"
  "steps (trace (snd (qemuOpenFile env fl st))) = steps (trace st)"
  "obj (snd (qemuOpenFile env fl st)) = obj st"
  "held (snd (qemuOpenFile env fl st)) = held st"
  by (simp_all add: qemuOpenFile_def Let_def case_prod_beta)

lemma qemuOpenFile_disk:
  "disk (snd (qemuOpenFile env fl st)) =
     (if fst (fst (qemuOpenFile env fl st)) < 0 then disk st else opened env fl (disk st))"
  "fd_pos (snd (qemuOpenFile env fl st)) =
     (if fst (fst (qemuOpenFile env fl st)) < 0 then fd_pos st else 0)"
  by (simp_all add: qemuOpenFile_def Let_def case_prod_beta regular_disk device_disk)


text \<open>The bytes of the two headers.\<close>

lemma length_u32_bytes [simp]: "length (u32_bytes w) = 4"
  by (simp add: u32_bytes_def)

lemma length_concat_u32: "length (concat (map u32_bytes ws)) = 4 * length ws"
  by (induction ws) simp_all

lemma length_header_bytes:
  "length (header_bytes h) = length (magic h) + 16 + 4 * length (unused h)"
  by (simp add: header_bytes_def length_concat_u32)

lemma length_partial_header [simp]:
  "length (header_bytes (partial_header d c w)) = 92"
  by (simp add: length_header_bytes partial_header_def zero_header_def QEMUD_SAVE_PARTIAL_def)

lemma length_complete_header [simp]:
  "length (header_bytes (complete_header (partial_header d c w))) = 92"
  by (simp add: length_header_bytes complete_header_def partial_header_def zero_header_def
      QEMUD_SAVE_MAGIC_def)

lemma take16_partial [simp]:
  "take 16 (header_bytes (partial_header d c w)) = QEMUD_SAVE_PARTIAL"
  by (simp add: header_bytes_def partial_header_def zero_header_def QEMUD_SAVE_PARTIAL_def)

lemma take16_complete [simp]:
  "take 16 (header_bytes (complete_header (partial_header d c w))) = QEMUD_SAVE_MAGIC"
  by (simp add: header_bytes_def complete_header_def partial_header_def zero_header_def
      QEMUD_SAVE_MAGIC_def)

lemma drop16_complete:
  "drop 16 (header_bytes (complete_header (partial_header d c w)))
     = drop 16 (header_bytes (partial_header d c w))"
  by (simp add: header_bytes_def complete_header_def partial_header_def zero_header_def
      QEMUD_SAVE_MAGIC_def QEMUD_SAVE_PARTIAL_def)

text \<open>Writing at a position.\<close>

lemma write_at_0: "write_at 0 buf content = buf @ drop (length buf) content"
  by (simp add: write_at_def)

lemma write_at_append:
  "write_at (length a + p) buf (a @ r) = a @ write_at p buf r"
  by (simp add: write_at_def)

lemma take16_write_at:
  "16 \<le> pos \<Longrightarrow> 16 \<le> length content \<Longrightarrow> take 16 (write_at pos buf content) = take 16 content"
  by (simp add: write_at_def)


text \<open>The \<open>cleanup\<close> label of \<open>qemuDomainSaveMemory\<close>.\<close>

lemma cleanup_proj [simp]:
  "fst (qemuDomainSaveMemory_cleanup env r n st) = r"
  "steps (trace (snd (qemuDomainSaveMemory_cleanup env r n st))) =
     steps (trace st) @ (if r \<noteq> 0 \<and> n then [UNLINK] else [])"
  "obj (snd (qemuDomainSaveMemory_cleanup env r n st)) = obj st"
  "held (snd (qemuDomainSaveMemory_cleanup env r n st)) = held st"
  by (simp_all add: qemuDomainSaveMemory_cleanup_def Let_def)

lemma cleanup_disk:
  "disk (snd (qemuDomainSaveMemory_cleanup env r n st)) = None
   \<or> disk (snd (qemuDomainSaveMemory_cleanup env r n st)) = disk st"
  using unlink_disk [of env "log C_VIR_FORCE_CLOSE st"]
  by (simp add: qemuDomainSaveMemory_cleanup_def Let_def)

lemma cleanup_disk_ok:
  "disk (snd (qemuDomainSaveMemory_cleanup env 0 n st)) = disk st"
  by (simp add: qemuDomainSaveMemory_cleanup_def Let_def)

lemma cleanup_has_magic:
  "has_magic m (disk st) \<Longrightarrow>
     disk (snd (qemuDomainSaveMemory_cleanup env r n st)) = None
     \<or> has_magic m (disk (snd (qemuDomainSaveMemory_cleanup env r n st)))"
  using cleanup_disk [of env r n st] by auto

text \<open>The migration appends to the file.\<close>

lemma mig_proj [simp]:
  "fst (qemuMigrationToFile env off prog bp a st) = rc env (C_qemuMigrationToFile off prog bp a)"
  "trace (snd (qemuMigrationToFile env off prog bp a st)) =
     trace st @ [C_qemuMigrationToFile off prog bp a]"
  "held (snd (qemuMigrationToFile env off prog bp a st)) = held st"
  by (simp_all add: qemuMigrationToFile_def Let_def case_prod_beta)

lemma mig_disk:
  "disk (snd (qemuMigrationToFile env off prog bp a st))
     = map_option (write_at (fd_pos st)
         (if rc env (C_qemuMigrationToFile off prog bp a) < 0
          then take (short env (C_qemuMigrationToFile off prog bp a)) (memory_image env)
          else memory_image env)) (disk st)"
  "fd_pos st \<le> fd_pos (snd (qemuMigrationToFile env off prog bp a st))"
  by (simp_all add: qemuMigrationToFile_def Let_def case_prod_beta)

lemma mig_disk_ok:
  "0 \<le> rc env (C_qemuMigrationToFile off prog bp a) \<Longrightarrow>
     disk (snd (qemuMigrationToFile env off prog bp a st))
       = map_option (write_at (fd_pos st) (memory_image env)) (disk st)"
  by (simp add: qemuMigrationToFile_def Let_def case_prod_beta)

lemma has_magic_write:
  assumes "has_magic m d" and "length m = 16" and "16 \<le> pos"
  shows "has_magic m (map_option (write_at pos buf) d)"
proof -
  from assms obtain content where c: "d = Some content" "take 16 content = m"
    by (auto simp add: has_magic_def split: option.splits)
  with assms have "16 \<le> length content"
    by (metis length_take min.cobounded1)
  with c assms show ?thesis
    by (simp add: has_magic_def take16_write_at)
qed

lemma mig_has_magic:
  assumes "has_magic m (disk st)" and "length m = 16" and "16 \<le> fd_pos st"
  shows "has_magic m (disk (snd (qemuMigrationToFile env off prog bp a st)))"
    and "16 \<le> fd_pos (snd (qemuMigrationToFile env off prog bp a st))"
  using mig_disk(2) [of st env off prog bp a] assms
  by (simp_all add: mig_disk(1) has_magic_write)

text \<open>\<open>qemuDomainSaveHeader\<close>: the header, then the XML.\<close>

lemma safewrite_disk:
  "disk (snd (safewrite env buf st))
     = map_option (write_at (fd_pos st)
         (if rc env (C_safewrite buf) < 0 \<and> buf \<noteq> []
          then take (min (short env (C_safewrite buf)) (length buf - 1)) buf else buf))
       (disk st)"
  "fd_pos st \<le> fd_pos (snd (safewrite env buf st))"
  by (simp_all add: safewrite_def Let_def)

lemma safewrite_fst:
  "fst (safewrite env buf st) =
     (if rc env (C_safewrite buf) < 0 \<and> buf \<noteq> [] then - 1 else int (length buf))"
  by (simp add: safewrite_def Let_def)

lemma saveHeader_failed_header:
  assumes "rc env (C_safewrite (header_bytes h)) < 0" and "header_bytes h \<noteq> []"
  shows "fst (qemuDomainSaveHeader env xml h st) < 0"
    and "steps (trace (snd (qemuDomainSaveHeader env xml h st)))
           = steps (trace st) @ [WRITE (header_bytes h)]"
  using assms by (simp_all add: qemuDomainSaveHeader_def case_prod_beta safewrite_fst)

lemma saveHeader_wrote_header:
  assumes "\<not> rc env (C_safewrite (header_bytes h)) < 0"
    and "fd_pos st = 0" and "disk st = Some c0"
    and "take 16 (header_bytes h) = m" and "length m = 16"
  shows "steps (trace (snd (qemuDomainSaveHeader env xml h st)))
           = steps (trace st) @ [WRITE (header_bytes h), WRITE (take (unat (xml_len h)) xml)]"
    and "has_magic m (disk (snd (qemuDomainSaveHeader env xml h st)))"
    and "16 \<le> fd_pos (snd (qemuDomainSaveHeader env xml h st))"
proof -
  let ?s1 = "snd (safewrite env (header_bytes h) st)"
  have len: "16 \<le> length (header_bytes h)"
    using assms(4,5) by (metis length_take min.cobounded1)
  have d1: "disk ?s1 = Some (header_bytes h @ drop (length (header_bytes h)) c0)"
    and p1: "fd_pos ?s1 = length (header_bytes h)"
    using assms(1,2,3) by (simp_all add: safewrite_def Let_def write_at_0)
  have m1: "has_magic m (disk ?s1)"
    using d1 assms(4) len by (simp add: has_magic_def)
  show "steps (trace (snd (qemuDomainSaveHeader env xml h st)))
           = steps (trace st) @ [WRITE (header_bytes h), WRITE (take (unat (xml_len h)) xml)]"
    using assms(1) by (simp add: qemuDomainSaveHeader_def case_prod_beta safewrite_fst)
  have e: "snd (qemuDomainSaveHeader env xml h st) =
            (if fst (safewrite env (take (unat (xml_len h)) xml) ?s1) \<noteq> int (unat (xml_len h))
             then virReportError (Err VIR_ERR_OPERATION_FAILED ''failed to write xml to'')
                    (snd (safewrite env (take (unat (xml_len h)) xml) ?s1))
             else snd (safewrite env (take (unat (xml_len h)) xml) ?s1))"
    using assms(1) by (simp add: qemuDomainSaveHeader_def case_prod_beta safewrite_fst)
  have "has_magic m (disk (snd (safewrite env (take (unat (xml_len h)) xml) ?s1)))"
    using m1 p1 len assms(5) by (simp add: safewrite_disk(1) has_magic_write)
  then show "has_magic m (disk (snd (qemuDomainSaveHeader env xml h st)))"
    by (simp add: e)
  have "16 \<le> fd_pos (snd (safewrite env (take (unat (xml_len h)) xml) ?s1))"
    using safewrite_disk(2) [of ?s1 env "take (unat (xml_len h)) xml"] p1 len by simp
  then show "16 \<le> fd_pos (snd (qemuDomainSaveHeader env xml h st))"
    by (simp add: e)
qed

lemma saveHeader_ok:
  assumes "\<not> fst (qemuDomainSaveHeader env xml h st) < 0"
    and "unat (xml_len h) \<le> length xml" and "header_bytes h \<noteq> []"
    and "fd_pos st = 0" and "disk st = Some c0"
  shows "\<not> rc env (C_safewrite (header_bytes h)) < 0"
    and "disk (snd (qemuDomainSaveHeader env xml h st))
           = Some (header_bytes h
               @ write_at 0 (take (unat (xml_len h)) xml) (drop (length (header_bytes h)) c0))"
    and "fd_pos (snd (qemuDomainSaveHeader env xml h st))
           = length (header_bytes h) + unat (xml_len h)"
proof -
  show h_ok: "\<not> rc env (C_safewrite (header_bytes h)) < 0"
    using assms(1,3) by (auto simp add: qemuDomainSaveHeader_def case_prod_beta safewrite_fst)
  let ?s1 = "snd (safewrite env (header_bytes h) st)"
  let ?x = "take (unat (xml_len h)) xml"
  have lx: "length ?x = unat (xml_len h)" using assms(2) by simp
  have nn: "(0::int) \<le> int (unat (xml_len h))" by simp
  have x_ok: "\<not> (rc env (C_safewrite ?x) < 0 \<and> ?x \<noteq> [])"
    using assms(1) h_ok lx nn
    by (auto simp add: qemuDomainSaveHeader_def case_prod_beta safewrite_fst
        simp del: of_nat_unat split: if_splits)
  have d1: "disk ?s1 = Some (header_bytes h @ drop (length (header_bytes h)) c0)"
    and p1: "fd_pos ?s1 = length (header_bytes h)"
    using h_ok assms(4,5) by (simp_all add: safewrite_def Let_def write_at_0)
  have e: "snd (qemuDomainSaveHeader env xml h st) = snd (safewrite env ?x ?s1)"
    using h_ok x_ok lx
    by (auto simp add: qemuDomainSaveHeader_def case_prod_beta safewrite_fst)
  show "disk (snd (qemuDomainSaveHeader env xml h st))
           = Some (header_bytes h @ write_at 0 ?x (drop (length (header_bytes h)) c0))"
    using x_ok d1 p1 write_at_append [of "header_bytes h" 0 ?x]
    by (auto simp add: e safewrite_disk(1))
  show "fd_pos (snd (qemuDomainSaveHeader env xml h st))
           = length (header_bytes h) + unat (xml_len h)"
    using x_ok p1 lx by (auto simp add: e safewrite_def Let_def)
qed


lemma unat_xml_len_le:
  "unat (xml_len (partial_header d c w)) \<le> length (xml_buffer env d)"
proof -
  have "unat (of_nat (strlen d + 1) :: 32 word) \<le> strlen d + 1"
    by (metis mod_less_eq_dividend unat_of_nat)
  moreover have "strlen d \<le> length d"
    by (simp add: strlen_def length_takeWhile_le)
  ultimately show ?thesis
    by (simp add: partial_header_def xml_buffer_def)
qed

lemma header_nonempty [simp]: "header_bytes (partial_header d c w) \<noteq> []"
  using length_partial_header [of d c w] by fastforce

lemma length_PARTIAL [simp]: "length QEMUD_SAVE_PARTIAL = 16"
  by (simp add: QEMUD_SAVE_PARTIAL_def)

lemma opened_Some: "\<exists>c0. opened env fl d = Some c0"
  by (simp add: opened_def split: option.splits)

text \<open>Where every helper succeeds, so do the functions that call them.\<close>

lemma sys_open_succeeds:
  "0 \<le> rc env c \<Longrightarrow> O_CREAT \<in> fl \<or> disk st \<noteq> None \<Longrightarrow> \<not> fst (sys_open env c fl st) < 0"
  by (auto simp add: sys_open_def)

lemma regular_succeeds:
  assumes "0 \<le> rc env (C_virFileOpenAs fl ow fo False)" and "O_CREAT \<in> fl \<or> disk st \<noteq> None"
  shows "\<not> fst (fst (qemuOpenFile_regular env fl ps ow fo st)) < 0"
proof -
  have "0 \<le> fst (sys_open env (C_virFileOpenAs fl ow fo False) fl st)"
    using sys_open_succeeds [OF assms] by simp
  then show ?thesis
    by (simp add: qemuOpenFile_regular_def case_prod_beta)
qed

lemma device_succeeds:
  assumes "0 \<le> rc env (C_open (fl - {O_CREAT}))" and "disk st \<noteq> None"
  shows "\<not> fst (fst (qemuOpenFile_device env fl st)) < 0"
proof -
  have "\<not> fst (sys_open env (C_open (fl - {O_CREAT})) (fl - {O_CREAT}) st) < 0"
    using sys_open_succeeds [OF assms(1), where fl = "fl - {O_CREAT}" and st = st] assms(2) by simp
  then show ?thesis
    by (simp add: qemuOpenFile_device_def case_prod_beta)
qed

lemma qemuOpenFile_succeeds:
  assumes ok0: "\<forall>c. 0 \<le> rc env c" and there: "O_CREAT \<in> fl \<or> disk st \<noteq> None"
  shows "\<not> fst (fst (qemuOpenFile env fl st)) < 0"
proof -
  have ok: "\<And>c. 0 \<le> rc env c" using ok0 by simp
  let ?st0 = "snd (ext env C_virStorageFileIsSharedFS st)"
  have d0: "disk ?st0 = disk st" by simp
  show ?thesis
  proof (cases "O_CREAT \<in> fl \<and> disk st \<noteq> None \<and> \<not> is_regular env")
    case True
    then have "\<not> fst (fst (qemuOpenFile_device env fl ?st0)) < 0"
      using device_succeeds [OF ok, where fl = fl and st = ?st0] by simp
    with True show ?thesis
      by (simp add: qemuOpenFile_def Let_def case_prod_beta)
  next
    case False
    have "\<And>ps ow fo. \<not> fst (fst (qemuOpenFile_regular env fl ps ow fo ?st0)) < 0"
      using regular_succeeds [OF ok, where fl = fl and st = ?st0] there by simp
    moreover from False
    have "(if O_CREAT \<in> fl \<and> disk st \<noteq> None then is_regular env else True)"
      by auto
    ultimately show ?thesis
      by (simp add: qemuOpenFile_def Let_def case_prod_beta cong: if_cong split del: if_split)
  qed
qed

lemma saveHeader_disk_Some:
  "disk st \<noteq> None \<Longrightarrow> disk (snd (qemuDomainSaveHeader env xml h st)) \<noteq> None"
  by (simp add: qemuDomainSaveHeader_def case_prod_beta safewrite_disk(1))

lemma saveHeader_succeeds:
  assumes "\<forall>c. 0 \<le> rc env c"
  shows "\<not> fst (qemuDomainSaveHeader env xml h st) < 0"
proof -
  have nf: "\<And>c. (rc env c < 0) = False"
  proof -
    fix c
    have "0 \<le> rc env c" using assms by blast
    then show "(rc env c < 0) = False" by simp
  qed
  show ?thesis
    by (simp add: qemuDomainSaveHeader_def case_prod_beta nf)
qed

lemma write_phase_summary:
  fixes env d c w flags a st
  defines "H \<equiv> partial_header d c w"
  defines "X \<equiv> take (unat (xml_len H)) (xml_buffer env d)"
  defines "R \<equiv> qemuDomainSaveMemory_write env d c w flags a st"
  shows "(\<exists>st'. R = Inl (- 1, st') \<and> \<not> (\<forall>k. 0 \<le> rc env k) \<and>
            (steps (trace st') = steps (trace st)
             \<or> steps (trace st') = steps (trace st) @ [UNLINK]
             \<or> steps (trace st') = steps (trace st) @ [WRITE (header_bytes H), UNLINK]
             \<or> (steps (trace st') = steps (trace st) @ [WRITE (header_bytes H), WRITE X, UNLINK]
                 \<and> (disk st' \<noteq> None \<longrightarrow> has_magic QEMUD_SAVE_PARTIAL (disk st')))
             \<or> (steps (trace st')
                   = steps (trace st) @ [WRITE (header_bytes H), WRITE X, MIGRATE, UNLINK]
                 \<and> (disk st' \<noteq> None \<longrightarrow> has_magic QEMUD_SAVE_PARTIAL (disk st')))))
       \<or> (\<exists>st6. R = Inr (True, st6)
            \<and> steps (trace st6) = steps (trace st) @ [WRITE (header_bytes H), WRITE X, MIGRATE]
            \<and> (\<exists>m\<in>set (trace st6). step_of m = [MIGRATE] \<and> 0 \<le> rc env m)
            \<and> (\<exists>rest. disk st6 = Some (header_bytes H @ rest)))"
proof -
  define bypass where "bypass = (flags AND VIR_DOMAIN_SAVE_BYPASS_CACHE \<noteq> 0)"
  define fl where "fl = {O_WRONLY, O_TRUNC, O_CREAT} \<union> (if bypass then {O_DIRECT} else {})"
  define st1 where "st1 = log C_VIR_ALLOC_N st"
  define p2 where "p2 = (if bypass then sys env C_virFileDirectFdFlag st1 else (0, st1))"
  define o3 where "o3 = qemuOpenFile env fl (snd p2)"
  define st4 where "st4 = snd (ext env C_virFileWrapperFdNew (snd o3))"
  define h5 where "h5 = qemuDomainSaveHeader env (xml_buffer env d) H st4"
  define mc where "mc = C_qemuMigrationToFile (sizeof_header + (strlen d + 1) + xml_pad env d)
                          (qemuCompressProgramName c) (snd (snd (fst o3))) a"
  define m6 where "m6 = qemuMigrationToFile env (sizeof_header + (strlen d + 1) + xml_pad env d)
                          (qemuCompressProgramName c) (snd (snd (fst o3))) a (snd h5)"
  have nu: "O_CREAT \<in> fl" by (simp add: fl_def)
  have R_eq: "R =
     (if rc env C_VIR_ALLOC_N < 0 then
        Inl (qemuDomainSaveMemory_cleanup env (- 1) False
               (virReportError (Err VIR_ERR_NO_MEMORY ''out of memory'') st1))
      else if fst p2 < 0 then
        Inl (qemuDomainSaveMemory_cleanup env (- 1) False
               (virReportError (Err VIR_ERR_OPERATION_FAILED
                   ''bypass cache unsupported by this system'') (snd p2)))
      else if fst (fst o3) < 0 then Inl (qemuDomainSaveMemory_cleanup env (- 1) True (snd o3))
      else if rc env C_virFileWrapperFdNew < 0 then
        Inl (qemuDomainSaveMemory_cleanup env (- 1) True st4)
      else if fst h5 < 0 then Inl (qemuDomainSaveMemory_cleanup env (- 1) True (snd h5))
      else if fst m6 < 0 then Inl (qemuDomainSaveMemory_cleanup env (- 1) True (snd m6))
      else Inr (True, snd m6))"
    unfolding R_def qemuDomainSaveMemory_write_def Let_def case_prod_beta
    by (simp add: st1_def p2_def o3_def st4_def h5_def m6_def fl_def bypass_def H_def nu
        cong: if_cong split del: if_split)
  have t2: "steps (trace (snd p2)) = steps (trace st)"
    by (simp add: p2_def st1_def)
  have t3: "steps (trace (snd o3)) = steps (trace st)"
    by (simp add: o3_def t2)
  have t4: "steps (trace st4) = steps (trace st)"
    by (simp add: st4_def t3)
  have pair: "\<And>p. (fst p, snd p) = p" by simp
  have cl: "\<And>n s. qemuDomainSaveMemory_cleanup env (- 1) n s
              = (- 1, snd (qemuDomainSaveMemory_cleanup env (- 1) n s))"
    by (metis cleanup_proj(1) prod.collapse)
  consider (alloc) "rc env C_VIR_ALLOC_N < 0"
    | (direct) "\<not> rc env C_VIR_ALLOC_N < 0" "fst p2 < 0"
    | (opn) "\<not> rc env C_VIR_ALLOC_N < 0" "\<not> fst p2 < 0" "fst (fst o3) < 0"
    | (wrap) "\<not> rc env C_VIR_ALLOC_N < 0" "\<not> fst p2 < 0" "\<not> fst (fst o3) < 0"
        "rc env C_virFileWrapperFdNew < 0"
    | (hdr) "\<not> rc env C_VIR_ALLOC_N < 0" "\<not> fst p2 < 0" "\<not> fst (fst o3) < 0"
        "\<not> rc env C_virFileWrapperFdNew < 0" "fst h5 < 0"
    | (mig) "\<not> rc env C_VIR_ALLOC_N < 0" "\<not> fst p2 < 0" "\<not> fst (fst o3) < 0"
        "\<not> rc env C_virFileWrapperFdNew < 0" "\<not> fst h5 < 0" "fst m6 < 0"
    | (fin) "\<not> rc env C_VIR_ALLOC_N < 0" "\<not> fst p2 < 0" "\<not> fst (fst o3) < 0"
        "\<not> rc env C_virFileWrapperFdNew < 0" "\<not> fst h5 < 0" "\<not> fst m6 < 0"
    by blast
  then show ?thesis
  proof cases
    case alloc
    then have "\<not> (\<forall>k. 0 \<le> rc env k)" by (metis not_le)
    with alloc show ?thesis
      by (subst (1 2) R_eq, subst (1 2) cl) (simp add: st1_def)
  next
    case direct
    then have "rc env C_virFileDirectFdFlag < 0"
      by (simp add: p2_def split: if_splits)
    then have "\<not> (\<forall>k. 0 \<le> rc env k)"
      by (metis not_le)
    with direct show ?thesis
      by (subst (1 2) R_eq, subst (1 2) cl) (simp add: t2)
  next
    case opn
    then have "\<not> (\<forall>k. 0 \<le> rc env k)"
      using qemuOpenFile_succeeds [of env fl "snd p2"] nu unfolding o3_def by blast
    with opn show ?thesis
      by (subst (1 2) R_eq, subst (1 2) cl) (simp add: t3)
  next
    case wrap
    then have "\<not> (\<forall>k. 0 \<le> rc env k)" by (metis not_le)
    with wrap show ?thesis
      by (subst (1 2) R_eq, subst (1 2) cl) (simp add: t4)
  next
    case hdr
    have bad: "\<not> (\<forall>k. 0 \<le> rc env k)"
      using hdr(5) saveHeader_succeeds [of env "xml_buffer env d" H st4]
      unfolding h5_def by blast
    have pos4: "fd_pos st4 = 0" and "\<exists>c0. disk st4 = Some c0"
      using hdr(3) opened_Some [of env fl "disk (snd p2)"]
      by (simp_all add: st4_def o3_def qemuOpenFile_disk)
    then obtain c0 where d4: "disk st4 = Some c0" by blast
    show ?thesis
    proof (cases "rc env (C_safewrite (header_bytes H)) < 0")
      case True
      then have "steps (trace (snd h5)) = steps (trace st) @ [WRITE (header_bytes H)]"
        using saveHeader_failed_header(2) [of env H "xml_buffer env d" st4]
        by (simp add: h5_def t4 H_def)
      with hdr bad show ?thesis
        by (subst (1 2) R_eq, subst (1 2) cl) simp
    next
      case False
      then have "steps (trace (snd h5)) = steps (trace st) @ [WRITE (header_bytes H), WRITE X]"
        and "has_magic QEMUD_SAVE_PARTIAL (disk (snd h5))"
        using saveHeader_wrote_header [of env H st4 c0 QEMUD_SAVE_PARTIAL "xml_buffer env d"]
          pos4 d4
        by (simp_all add: h5_def t4 H_def X_def)
      with hdr bad cleanup_has_magic [of QEMUD_SAVE_PARTIAL "snd h5" env "- 1" True]
      show ?thesis
        by (subst (1 2) R_eq, subst (1 2) cl) auto
    qed
  next
    case mig
    have "rc env mc < 0"
      using mig(6) by (simp add: m6_def mc_def)
    then have bad: "\<not> (\<forall>k. 0 \<le> rc env k)"
      by (metis not_le)
    have pos4: "fd_pos st4 = 0" and "\<exists>c0. disk st4 = Some c0"
      using mig(3) opened_Some [of env fl "disk (snd p2)"]
      by (simp_all add: st4_def o3_def qemuOpenFile_disk)
    then obtain c0 where d4: "disk st4 = Some c0" by blast
    have h_ok: "\<not> rc env (C_safewrite (header_bytes H)) < 0"
      using saveHeader_ok(1) [of env "xml_buffer env d" H st4 c0] mig(5) pos4 d4
        unat_xml_len_le [of d c w env]
      by (simp add: h5_def H_def)
    then have t5: "steps (trace (snd h5)) = steps (trace st) @ [WRITE (header_bytes H), WRITE X]"
      and m5: "has_magic QEMUD_SAVE_PARTIAL (disk (snd h5))"
      and p5: "16 \<le> fd_pos (snd h5)"
      using saveHeader_wrote_header [of env H st4 c0 QEMUD_SAVE_PARTIAL "xml_buffer env d"]
        pos4 d4
      by (simp_all add: h5_def t4 H_def X_def)
    have t6: "steps (trace (snd m6))
                = steps (trace st) @ [WRITE (header_bytes H), WRITE X, MIGRATE]"
      by (simp add: m6_def t5)
    have m6m: "has_magic QEMUD_SAVE_PARTIAL (disk (snd m6))"
      using mig_has_magic(1) [OF m5 _ p5] by (simp add: m6_def)
    with mig bad t6 cleanup_has_magic [of QEMUD_SAVE_PARTIAL "snd m6" env "- 1" True]
    show ?thesis
      by (subst (1 2) R_eq, subst (1 2) cl) auto
  next
    case fin
    have pos4: "fd_pos st4 = 0" and "\<exists>c0. disk st4 = Some c0"
      using fin(3) opened_Some [of env fl "disk (snd p2)"]
      by (simp_all add: st4_def o3_def qemuOpenFile_disk)
    then obtain c0 where d4: "disk st4 = Some c0" by blast
    have h_ok: "\<not> rc env (C_safewrite (header_bytes H)) < 0"
      and d5: "disk (snd h5) = Some (header_bytes H @ write_at 0 X (drop (length (header_bytes H)) c0))"
      and p5: "fd_pos (snd h5) = length (header_bytes H) + unat (xml_len H)"
      using saveHeader_ok [of env "xml_buffer env d" H st4 c0] fin(5) pos4 d4
        unat_xml_len_le [of d c w env]
      by (simp_all add: h5_def H_def X_def)
    have t5: "steps (trace (snd h5)) = steps (trace st) @ [WRITE (header_bytes H), WRITE X]"
      using saveHeader_wrote_header(1) [of env H st4 c0 QEMUD_SAVE_PARTIAL "xml_buffer env d"]
        pos4 d4 h_ok
      by (simp add: h5_def t4 H_def X_def)
    have t6: "steps (trace (snd m6))
                = steps (trace st) @ [WRITE (header_bytes H), WRITE X, MIGRATE]"
      by (simp add: m6_def t5)
    have in6: "mc \<in> set (trace (snd m6))" "step_of mc = [MIGRATE]" "0 \<le> rc env mc"
      using fin(6) by (simp_all add: m6_def mc_def)
    have d6: "disk (snd m6) = Some (header_bytes H
               @ write_at (unat (xml_len H)) (memory_image env)
                   (write_at 0 X (drop (length (header_bytes H)) c0)))"
      using fin(6) d5 p5
        write_at_append [of "header_bytes H" "unat (xml_len H)" "memory_image env"]
      by (simp add: m6_def mig_disk_ok)
    from fin t6 in6 d6 show ?thesis
      by (subst (1 2) R_eq) auto
  qed
qed


lemma opened_wronly [simp]: "opened env {O_WRONLY} (Some content) = Some content"
  by (simp add: opened_def)

lemma complete_phase_summary:
  fixes env d c w st rest
  defines "H \<equiv> partial_header d c w"
  defines "R \<equiv> qemuDomainSaveMemory_complete env H True st"
  assumes d0: "disk st = Some (header_bytes H @ rest)"
  shows "(fst R = - 1 \<and> \<not> (\<forall>k. 0 \<le> rc env k)
            \<and> steps (trace (snd R)) = steps (trace st) @ [UNLINK]
            \<and> (disk (snd R) \<noteq> None \<longrightarrow> has_magic QEMUD_SAVE_PARTIAL (disk (snd R))))
       \<or> (fst R = - 1 \<and> \<not> (\<forall>k. 0 \<le> rc env k)
            \<and> steps (trace (snd R))
                = steps (trace st) @ [WRITE (header_bytes (complete_header H)), UNLINK])
       \<or> (fst R = 0
            \<and> steps (trace (snd R)) = steps (trace st) @ [WRITE (header_bytes (complete_header H))]
            \<and> disk (snd R) = Some (header_bytes (complete_header H) @ rest))"
proof -
  define st1 where "st1 = log (C_VIR_CLOSE 1) st"
  define st2 where "st2 = snd (ext env C_virFileWrapperFdClose st1)"
  define o3 where "o3 = qemuOpenFile env {O_WRONLY} st2"
  define w4 where "w4 = safewrite env (header_bytes (complete_header H)) (snd o3)"
  define st5 where "st5 = log (C_VIR_CLOSE 2) (snd w4)"
  have R_eq: "R =
     (if rc env (C_VIR_CLOSE 1) < 0 then
        qemuDomainSaveMemory_cleanup env (- 1) True
          (virReportError (Err VIR_ERR_SYSTEM_ERROR ''unable to close'') st1)
      else if rc env C_virFileWrapperFdClose < 0 then
        qemuDomainSaveMemory_cleanup env (- 1) True st2
      else if fst (fst o3) < 0 then qemuDomainSaveMemory_cleanup env (- 1) True (snd o3)
      else if fst w4 \<noteq> int (length (header_bytes (complete_header H))) then
        qemuDomainSaveMemory_cleanup env (- 1) True
          (virReportError (Err VIR_ERR_SYSTEM_ERROR ''unable to write'') (snd w4))
      else if rc env (C_VIR_CLOSE 2) < 0 then
        qemuDomainSaveMemory_cleanup env (- 1) True
          (virReportError (Err VIR_ERR_SYSTEM_ERROR ''unable to close'') st5)
      else qemuDomainSaveMemory_cleanup env 0 True st5)"
    unfolding R_def qemuDomainSaveMemory_complete_def case_prod_beta
    by (simp add: st1_def st2_def o3_def w4_def st5_def cong: if_cong split del: if_split)
  have m0: "has_magic QEMUD_SAVE_PARTIAL (disk st)"
    using d0 by (simp add: has_magic_def H_def)
  have t2: "steps (trace st2) = steps (trace st)" and d2: "disk st2 = disk st"
    by (simp_all add: st2_def st1_def)
  have t3: "steps (trace (snd o3)) = steps (trace st)"
    by (simp add: o3_def t2)
  have d3: "disk (snd o3) = disk st"
    using d0 by (simp add: o3_def qemuOpenFile_disk d2)
  have t4: "steps (trace (snd w4))
              = steps (trace st) @ [WRITE (header_bytes (complete_header H))]"
    by (simp add: w4_def t3)
  consider (close1) "rc env (C_VIR_CLOSE 1) < 0"
    | (wrap) "\<not> rc env (C_VIR_CLOSE 1) < 0" "rc env C_virFileWrapperFdClose < 0"
    | (reopen) "\<not> rc env (C_VIR_CLOSE 1) < 0" "\<not> rc env C_virFileWrapperFdClose < 0"
        "fst (fst o3) < 0"
    | (wfail) "\<not> rc env (C_VIR_CLOSE 1) < 0" "\<not> rc env C_virFileWrapperFdClose < 0"
        "\<not> fst (fst o3) < 0" "fst w4 \<noteq> int (length (header_bytes (complete_header H)))"
    | (close2) "\<not> rc env (C_VIR_CLOSE 1) < 0" "\<not> rc env C_virFileWrapperFdClose < 0"
        "\<not> fst (fst o3) < 0" "fst w4 = int (length (header_bytes (complete_header H)))"
        "rc env (C_VIR_CLOSE 2) < 0"
    | (fin) "\<not> rc env (C_VIR_CLOSE 1) < 0" "\<not> rc env C_virFileWrapperFdClose < 0"
        "\<not> fst (fst o3) < 0" "fst w4 = int (length (header_bytes (complete_header H)))"
        "\<not> rc env (C_VIR_CLOSE 2) < 0"
    by blast
  then show ?thesis
  proof cases
    case close1
    then have "\<not> (\<forall>k. 0 \<le> rc env k)" by (metis not_le)
    with close1 m0 cleanup_has_magic [of QEMUD_SAVE_PARTIAL
        "virReportError (Err VIR_ERR_SYSTEM_ERROR ''unable to close'') st1" env "- 1" True]
    show ?thesis by (auto simp add: R_eq st1_def)
  next
    case wrap
    then have "\<not> (\<forall>k. 0 \<le> rc env k)" by (metis not_le)
    with wrap m0 d2 cleanup_has_magic [of QEMUD_SAVE_PARTIAL st2 env "- 1" True]
    show ?thesis by (auto simp add: R_eq t2)
  next
    case reopen
    then have "\<not> (\<forall>k. 0 \<le> rc env k)"
      using qemuOpenFile_succeeds [of env "{O_WRONLY}" st2] d2 d0 unfolding o3_def
      by (metis option.distinct(1))
    with reopen m0 d3 cleanup_has_magic [of QEMUD_SAVE_PARTIAL "snd o3" env "- 1" True]
    show ?thesis by (auto simp add: R_eq t3)
  next
    case wfail
    then have "rc env (C_safewrite (header_bytes (complete_header H))) < 0"
      by (simp add: w4_def safewrite_fst split: if_splits)
    then have "\<not> (\<forall>k. 0 \<le> rc env k)"
      by (metis not_le)
    with wfail show ?thesis by (simp add: R_eq t4)
  next
    case close2
    then have "\<not> (\<forall>k. 0 \<le> rc env k)" by (metis not_le)
    with close2 show ?thesis by (simp add: R_eq t4 st5_def)
  next
    case fin
    have p3: "fd_pos (snd o3) = 0"
      using fin(3) by (simp add: o3_def qemuOpenFile_disk)
    have "disk (snd w4) = Some (header_bytes (complete_header H) @ rest)"
      using safewrite_ok_disk [of env "header_bytes (complete_header H)" "snd o3"] fin(4)
        d3 d0 p3
      by (simp add: w4_def write_at_0 H_def)
    with fin show ?thesis
      by (simp add: R_eq t4 st5_def cleanup_disk_ok)
  qed
qed


text \<open>A call, once in the trace, stays in it.\<close>

lemma qemuOpenFile_mono:
  "m \<in> set (trace st) \<Longrightarrow> m \<in> set (trace (snd (qemuOpenFile env fl st)))"
  by (simp add: qemuOpenFile_def qemuOpenFile_regular_def qemuOpenFile_device_def
      qemuOpenFile_as_user_def Let_def case_prod_beta)

lemma cleanup_mono:
  "m \<in> set (trace st) \<Longrightarrow> m \<in> set (trace (snd (qemuDomainSaveMemory_cleanup env r n st)))"
  by (simp add: qemuDomainSaveMemory_cleanup_def Let_def)

lemma complete_mono:
  "m \<in> set (trace st) \<Longrightarrow> m \<in> set (trace (snd (qemuDomainSaveMemory_complete env h n st)))"
  by (simp add: qemuDomainSaveMemory_complete_def case_prod_beta cleanup_mono qemuOpenFile_mono)

lemma save_succeeds:
  assumes ok: "\<forall>k. 0 \<le> rc env k"
  shows "fst (qemuDomainSaveMemory env d c w flags a st) = 0"
proof -
  from write_phase_summary [of env d c w flags a st] ok
  obtain st6 rest where
    W: "qemuDomainSaveMemory_write env d c w flags a st = Inr (True, st6)"
    and d6: "disk st6 = Some (header_bytes (partial_header d c w) @ rest)"
    by auto
  from complete_phase_summary [of st6 d c w rest env, OF d6] ok
  have "fst (qemuDomainSaveMemory_complete env (partial_header d c w) True st6) = 0"
    by auto
  with W show ?thesis by (simp add: qemuDomainSaveMemory_def)
qed



lemma take5_partial_header:
  "take 5 (header_bytes (partial_header d c w)) = ''Libvi''"
  by (simp add: header_bytes_def partial_header_def QEMUD_SAVE_PARTIAL_def)


text \<open>
  C10.  When \<open>qemuDomainSaveMemory\<close> succeeds, the file held, before the header was
  written again, the header with the partial magic followed by the rest (the XML and
  the memory image); afterwards it holds the header with the complete magic followed
  by the same rest.  The two headers have the same length and the same bytes after the
  magic: the version, the length of the XML, \<open>was_running\<close>, the compression and the
  unused words are unchanged.
\<close>

theorem completion_changes_only_magic:
  fixes env d c w flags a st st'
  defines "H \<equiv> partial_header d c w"
  assumes ok: "qemuDomainSaveMemory env d c w flags a st = (0, st')"
  shows "\<exists>st6 rest.
           qemuDomainSaveMemory_write env d c w flags a st = Inr (True, st6)
         \<and> disk st6 = Some (header_bytes H @ rest)
         \<and> disk st' = Some (header_bytes (complete_header H) @ rest)
         \<and> length (header_bytes (complete_header H)) = length (header_bytes H)
         \<and> take 16 (header_bytes H) = QEMUD_SAVE_PARTIAL
         \<and> take 16 (header_bytes (complete_header H)) = QEMUD_SAVE_MAGIC
         \<and> drop 16 (header_bytes (complete_header H)) = drop 16 (header_bytes H)
         \<and> version (complete_header H) = version H
         \<and> xml_len (complete_header H) = xml_len H
         \<and> was_running (complete_header H) = was_running H
         \<and> compressed (complete_header H) = compressed H
         \<and> unused (complete_header H) = unused H"
proof -
  have static: "length (header_bytes (complete_header H)) = length (header_bytes H)"
    "take 16 (header_bytes H) = QEMUD_SAVE_PARTIAL"
    "take 16 (header_bytes (complete_header H)) = QEMUD_SAVE_MAGIC"
    "drop 16 (header_bytes (complete_header H)) = drop 16 (header_bytes H)"
    "version (complete_header H) = version H"
    "xml_len (complete_header H) = xml_len H"
    "was_running (complete_header H) = was_running H"
    "compressed (complete_header H) = compressed H"
    "unused (complete_header H) = unused H"
    by (simp_all add: H_def drop16_complete) (simp_all add: complete_header_def)
  from write_phase_summary [of env d c w flags a st, folded H_def]
  obtain st6 rest where W: "qemuDomainSaveMemory_write env d c w flags a st = Inr (True, st6)"
    and d6: "disk st6 = Some (header_bytes H @ rest)"
    using ok by (auto simp add: qemuDomainSaveMemory_def)
  have R: "qemuDomainSaveMemory_complete env H True st6 = (0, st')"
    using ok W by (simp add: qemuDomainSaveMemory_def H_def)
  from complete_phase_summary [of st6 d c w rest env, folded H_def, OF d6]
  have "disk st' = Some (header_bytes (complete_header H) @ rest)"
    by (simp add: R)
  with W d6 static show ?thesis by blast
qed

theorem completion_changes_only_magic_witness:
  "\<exists>rest.
     disk (snd (qemuDomainSaveMemory quiet_env ''<domain/>'' QEMUD_SAVE_FORMAT_RAW True 0
                  QEMU_ASYNC_JOB_SAVE (start_run running_vm)))
       = Some (header_bytes (complete_header
                 (partial_header ''<domain/>'' QEMUD_SAVE_FORMAT_RAW True)) @ rest)"
proof -
  have "qemuDomainSaveMemory quiet_env ''<domain/>'' QEMUD_SAVE_FORMAT_RAW True 0
          QEMU_ASYNC_JOB_SAVE (start_run running_vm)
        = (0, snd (qemuDomainSaveMemory quiet_env ''<domain/>'' QEMUD_SAVE_FORMAT_RAW True 0
                     QEMU_ASYNC_JOB_SAVE (start_run running_vm)))"
    using save_succeeds [where env = quiet_env and d = "''<domain/>''"
        and c = QEMUD_SAVE_FORMAT_RAW and w = True and flags = 0
        and a = QEMU_ASYNC_JOB_SAVE and st = "start_run running_vm"]
    by (simp add: quiet_env_def prod_eq_iff)
  from completion_changes_only_magic [OF this] show ?thesis by blast
qed

section \<open>Saving a domain\<close>

text \<open>
  C1.  When the admission of the SAVE async job fails, \<open>qemuDomainSaveInternal\<close> does
  not return: the statement under the \<open>if\<close> is the \<open>memset\<close> of the job info, so the
  function clears the info and goes on.  On a running domain whose async job is held by
  a migration, in an environment where only the formatting of the XML fails, the
  admission fails, and yet the function pauses the guest CPUs, formats the XML, resumes
  the CPUs and ends the async job, so that the migration's job is gone and its info
  cleared when the function returns \<open>-1\<close>.
\<close>

theorem save_internal_ignores_failed_admission:
  "fst (qemuDomainObjBeginAsyncJob no_xml_env QEMU_ASYNC_JOB_SAVE (start_run busy_vm)) = - 1
   \<and> fst (qemuDomainSaveInternal no_xml_env QEMUD_SAVE_FORMAT_RAW None 0
            (start_run busy_vm)) = - 1
   \<and> trace (snd (qemuDomainSaveInternal no_xml_env QEMUD_SAVE_FORMAT_RAW None 0
                   (start_run busy_vm))) =
       [C_qemuProcessAutoDestroyActive, C_virDomainHasDiskMirror,
        C_qemuDomainObjBeginAsyncJob QEMU_ASYNC_JOB_SAVE,
        C_qemuProcessStopCPUs VIR_DOMAIN_PAUSED_SAVE QEMU_ASYNC_JOB_SAVE,
        C_qemuDomainDefFormatLive,
        C_qemuProcessStartCPUs QEMU_ASYNC_JOB_SAVE,
        C_qemuDomainObjEndAsyncJob, C_virDomainObjUnlock]
   \<and> asyncJob (job (obj (start_run busy_vm))) = QEMU_ASYNC_JOB_MIGRATION_OUT
   \<and> asyncJob (job (obj (snd (qemuDomainSaveInternal no_xml_env QEMUD_SAVE_FORMAT_RAW None 0
                                  (start_run busy_vm))))) = QEMU_ASYNC_JOB_NONE
   \<and> info (job (obj (snd (qemuDomainSaveInternal no_xml_env QEMUD_SAVE_FORMAT_RAW None 0
                             (start_run busy_vm)))))
       = zero_job_info\<lparr>jtype := VIR_DOMAIN_JOB_UNBOUNDED\<rparr>
   \<and> last_error (snd (qemuDomainSaveInternal no_xml_env QEMUD_SAVE_FORMAT_RAW None 0
                        (start_run busy_vm)))
       = Some (Err VIR_ERR_OPERATION_FAILED ''failed to get domain xml'')"
  by (simp add: qemuDomainSaveInternal_def qemuDomainSaveInternal_endjob_def
      qemuDomainSaveInternal_cleanup_def qemuDomainSaveInternal_save_def
      qemuDomainDefFormatLive_def qemuDomainObjBeginAsyncJob_def qemuDomainObjEndAsyncJob_def
      sys_def ext_def ext_unlocked_def log_def virReportError_def Let_def
      busy_vm_def no_xml_env_def quiet_env_def start_run_def running_vm_def idle_job_def
      virDomainObjIsActive_def virDomainObjGetState_def)

section \<open>Opening a partial save image\<close>

lemma guest_starts_simps [simp]:
  "guest_starts [] = []" "guest_starts (tr @ tr') = guest_starts tr @ guest_starts tr'"
  "guest_starts (c # tr) = (if guest_start c then [c] else []) @ guest_starts tr"
  by (simp_all add: guest_starts_def)

lemma magic_header_of_bytes: "magic (header_of_bytes bs) = take 16 bs"
  by (simp add: header_of_bytes_def)

lemma partial_not_complete: "QEMUD_SAVE_PARTIAL \<noteq> QEMUD_SAVE_MAGIC"
  by (simp add: QEMUD_SAVE_PARTIAL_def QEMUD_SAVE_MAGIC_def)

lemma sys_open_fst:
  "fst (sys_open env c fl st) = (if disk st = None \<and> O_CREAT \<notin> fl then - 2 else rc env c)"
  by (simp add: sys_open_def)

lemma as_user_fst:
  "disk st1 = disk st2 \<Longrightarrow>
   fst (qemuOpenFile_as_user env fl fo st1) = fst (qemuOpenFile_as_user env fl fo st2)"
  by (simp add: qemuOpenFile_as_user_def case_prod_beta sys_open_fst)

lemma sys_open_disk_fail:
  "fst (sys_open env c fl st) < 0 \<Longrightarrow> disk (snd (sys_open env c fl st)) = disk st"
  by (simp add: sys_open_disk)

lemma regular_fst:
  assumes "disk st1 = disk st2"
  shows "fst (qemuOpenFile_regular env fl ps ow fo st1)
       = fst (qemuOpenFile_regular env fl ps ow fo st2)"
proof -
  let ?c = "C_virFileOpenAs fl ow fo False"
  have f: "fst (sys_open env ?c fl st1) = fst (sys_open env ?c fl st2)"
    using assms by (simp add: sys_open_fst)
  show ?thesis
  proof (cases "fst (sys_open env ?c fl st2) < 0")
    case True
    then have "disk (snd (sys_open env ?c fl st1)) = disk (snd (sys_open env ?c fl st2))"
      using f assms by (simp add: sys_open_disk_fail)
    from as_user_fst [OF this] f show ?thesis
      by (simp add: qemuOpenFile_regular_def case_prod_beta)
  next
    case False
    then show ?thesis using f by (simp add: qemuOpenFile_regular_def case_prod_beta)
  qed
qed

lemma device_fst:
  "disk st1 = disk st2 \<Longrightarrow>
   fst (qemuOpenFile_device env fl st1) = fst (qemuOpenFile_device env fl st2)"
  by (simp add: qemuOpenFile_device_def case_prod_beta sys_open_fst)

lemma qemuOpenFile_fst:
  assumes "disk st1 = disk st2"
  shows "fst (qemuOpenFile env fl st1) = fst (qemuOpenFile env fl st2)"
proof -
  have "disk (snd (ext env C_virStorageFileIsSharedFS st1))
      = disk (snd (ext env C_virStorageFileIsSharedFS st2))"
    using assms by simp
  from regular_fst [OF this] device_fst [OF this] assms show ?thesis
    by (simp add: qemuOpenFile_def Let_def case_prod_beta)
qed

lemma as_user_starts [simp]:
  "guest_starts (trace (snd (qemuOpenFile_as_user env fl fo st))) = guest_starts (trace st)"
  by (simp add: qemuOpenFile_as_user_def case_prod_beta)

lemma regular_starts [simp]:
  "guest_starts (trace (snd (qemuOpenFile_regular env fl ps ow fo st))) = guest_starts (trace st)"
  by (simp add: qemuOpenFile_regular_def case_prod_beta)

lemma device_starts [simp]:
  "guest_starts (trace (snd (qemuOpenFile_device env fl st))) = guest_starts (trace st)"
  by (simp add: qemuOpenFile_device_def case_prod_beta)

lemma qemuOpenFile_starts [simp]:
  "guest_starts (trace (snd (qemuOpenFile env fl st))) = guest_starts (trace st)"
  by (simp add: qemuOpenFile_def Let_def case_prod_beta)

lemma opened_readonly:
  "O_TRUNC \<notin> fl \<Longrightarrow> opened env fl (Some content) = Some content"
  by (simp add: opened_def)

lemma saferead_proj [simp]:
  "trace (snd (saferead env n st)) = trace st @ [C_saferead n]"
  "obj (snd (saferead env n st)) = obj st" "held (snd (saferead env n st)) = held st"
  "last_error (snd (saferead env n st)) = last_error st"
  "disk (snd (saferead env n st)) = disk st"
  by (simp_all add: saferead_def Let_def)

lemma saferead_header:
  assumes "disk st = Some content" and "n \<le> length content" and "fd_pos st = 0"
    and "0 \<le> rc env (C_saferead n)"
  shows "fst (saferead env n st) = (int n, take n content)"
  using assms by (simp add: saferead_def Let_def not_less)

lemma error_proj [simp]:
  "fst (qemuDomainSaveImageOpen_error st) = Inl (- 1)"
  "trace (snd (qemuDomainSaveImageOpen_error st)) = trace st @ [C_VIR_FORCE_CLOSE]"
  "obj (snd (qemuDomainSaveImageOpen_error st)) = obj st"
  "held (snd (qemuDomainSaveImageOpen_error st)) = held st"
  "last_error (snd (qemuDomainSaveImageOpen_error st)) = last_error st"
  "disk (snd (qemuDomainSaveImageOpen_error st)) = disk st"
  by (simp_all add: qemuDomainSaveImageOpen_error_def)

lemma unlink_fst:
  "fst (unlink env st) = (if disk st = None then - 1 else rc env C_unlink)"
  by (simp add: unlink_def sys_def)

lemma unlink_last_error [simp]: "last_error (snd (unlink env st)) = last_error st"
  by (simp add: unlink_def sys_def)

lemma unlink_disk_eq:
  "disk (snd (unlink env st)) = (if fst (unlink env st) < 0 then disk st else None)"
  by (auto simp add: unlink_def sys_def)

text \<open>The removal of a corrupt image, by the outcome of the close and the unlink.\<close>

lemma corrupt_removed:
  assumes "disk st = Some content" and "0 \<le> rc env (C_VIR_CLOSE 3)" and "0 \<le> rc env C_unlink"
  shows "fst (qemuDomainSaveImageOpen_unlink env st) = Inl (- 3)"
    and "disk (snd (qemuDomainSaveImageOpen_unlink env st)) = None"
    and "trace (snd (qemuDomainSaveImageOpen_unlink env st))
           = trace st @ [C_VIR_CLOSE 3, C_unlink]"
    and "last_error (snd (qemuDomainSaveImageOpen_unlink env st)) = last_error st"
    and "obj (snd (qemuDomainSaveImageOpen_unlink env st)) = obj st"
  using assms
  by (simp_all add: qemuDomainSaveImageOpen_unlink_def case_prod_beta unlink_fst
      unlink_disk_eq not_less)

lemma corrupt_not_removed:
  assumes "disk st = Some content" and "\<not> (0 \<le> rc env (C_VIR_CLOSE 3) \<and> 0 \<le> rc env C_unlink)"
  shows "fst (qemuDomainSaveImageOpen_unlink env st) = Inl (- 1)"
    and "disk (snd (qemuDomainSaveImageOpen_unlink env st)) = Some content"
    and "guest_starts (trace (snd (qemuDomainSaveImageOpen_unlink env st)))
           = guest_starts (trace st)"
    and "last_error (snd (qemuDomainSaveImageOpen_unlink env st))
           = Some (Err VIR_ERR_SYSTEM_ERROR ''cannot remove corrupt file'')"
    and "obj (snd (qemuDomainSaveImageOpen_unlink env st)) = obj st"
  using assms
  by (auto simp add: qemuDomainSaveImageOpen_unlink_def case_prod_beta unlink_fst
      unlink_disk_eq not_less virReportError_def)

text \<open>
  When the file opens and its header is read, a header with the partial magic takes
  \<open>qemuDomainSaveImageOpen\<close> to the removal of the file or to the error.
\<close>

lemma open_partial:
  assumes d: "disk st = Some content" and len: "sizeof_header \<le> length content"
    and mg: "take 16 content = QEMUD_SAVE_PARTIAL"
    and byp: "bypass_cache \<longrightarrow>
                0 \<le> rc env C_virFileDirectFdFlag \<and> 0 \<le> rc env C_virFileWrapperFdNew"
    and opn: "0 \<le> fst (fst (qemuOpenFile env
                 ({if edit then O_RDWR else O_RDONLY}
                    \<union> (if bypass_cache then {O_DIRECT} else {})) st))"
    and rd: "0 \<le> rc env (C_saferead sizeof_header)"
  shows "\<exists>st4. disk st4 = Some content \<and> obj st4 = obj st
           \<and> guest_starts (trace st4) = guest_starts (trace st)
           \<and> qemuDomainSaveImageOpen env bypass_cache xmlin st_arg edit unlink_corrupt st =
               (if unlink_corrupt then qemuDomainSaveImageOpen_unlink env st4
                else qemuDomainSaveImageOpen_error
                       (virReportError
                          (Err VIR_ERR_OPERATION_FAILED ''save image is incomplete'') st4))"
proof -
  let ?fl = "{if edit then O_RDWR else O_RDONLY} \<union> (if bypass_cache then {O_DIRECT} else {})"
  define a1 where "a1 = (if bypass_cache then sys env C_virFileDirectFdFlag st else (0, st))"
  define a2 where "a2 = qemuOpenFile env ?fl (snd a1)"
  define a3 where
    "a3 = (if bypass_cache then ext env C_virFileWrapperFdNew (snd a2) else (0, snd a2))"
  define a4 where "a4 = saferead env sizeof_header (snd a3)"
  have notrunc: "O_TRUNC \<notin> ?fl" by simp
  have f1: "\<not> fst a1 < 0" using byp by (auto simp add: a1_def sys_def)
  have d1: "disk (snd a1) = disk st" by (simp add: a1_def)
  have f2: "\<not> fst (fst a2) < 0"
    using opn qemuOpenFile_fst [OF d1, of env ?fl] by (simp add: a2_def)
  have d2: "disk (snd a2) = Some content" and p2: "fd_pos (snd a2) = 0"
    using f2 d1 d opened_readonly [OF notrunc]
    by (simp_all add: a2_def qemuOpenFile_disk del: Un_insert_left)
  have f3: "\<not> fst a3 < 0" using byp by (auto simp add: a3_def ext_def)
  have d3: "disk (snd a3) = Some content" and p3: "fd_pos (snd a3) = 0"
    using d2 p2 by (simp_all add: a3_def ext_def log_def)
  have r4: "fst a4 = (int sizeof_header, take sizeof_header content)"
    unfolding a4_def by (rule saferead_header [OF d3 len p3 rd])
  have m4: "magic (header_of_bytes (snd (fst a4))) = QEMUD_SAVE_PARTIAL"
    using r4 mg by (simp add: magic_header_of_bytes sizeof_header_def min_def)
  have d4: "disk (snd a4) = Some content" using d3 by (simp add: a4_def)
  have o4: "obj (snd a4) = obj st"
    by (simp add: a4_def a3_def a2_def a1_def)
  have s4: "guest_starts (trace (snd a4)) = guest_starts (trace st)"
    by (simp add: a4_def a3_def a2_def a1_def)
  have "qemuDomainSaveImageOpen env bypass_cache xmlin st_arg edit unlink_corrupt st =
          (if unlink_corrupt then qemuDomainSaveImageOpen_unlink env (snd a4)
           else qemuDomainSaveImageOpen_error
                  (virReportError
                     (Err VIR_ERR_OPERATION_FAILED ''save image is incomplete'') (snd a4)))"
    apply (simp only: qemuDomainSaveImageOpen_def case_prod_beta)
    apply (simp only: a1_def [symmetric])
    apply (simp only: a2_def [symmetric])
    apply (simp only: a3_def [symmetric])
    apply (simp only: a4_def [symmetric])
    using f1 f2 f3 r4 m4 partial_not_complete
    apply (simp cong: if_cong split del: if_split)
    done
  with d4 o4 s4 show ?thesis by blast
qed


lemma restore_partial:
  assumes d: "disk st = Some content" and len: "sizeof_header \<le> length content"
    and mg: "take 16 content = QEMUD_SAVE_PARTIAL"
    and byp: "bypass_cache \<longrightarrow>
                0 \<le> rc env C_virFileDirectFdFlag \<and> 0 \<le> rc env C_virFileWrapperFdNew"
    and opn: "0 \<le> fst (fst (qemuOpenFile env
                 ({O_RDONLY} \<union> (if bypass_cache then {O_DIRECT} else {})) st))"
    and rd: "0 \<le> rc env (C_saferead sizeof_header)"
  shows "\<exists>st4. disk st4 = Some content \<and> obj st4 = obj st
           \<and> guest_starts (trace st4) = guest_starts (trace st)
           \<and> qemuDomainObjRestore env start_paused bypass_cache st =
               (if 0 \<le> rc env (C_VIR_CLOSE 3) \<and> 0 \<le> rc env C_unlink then 1 else - 1,
                log C_VIR_FORCE_CLOSE (snd (qemuDomainSaveImageOpen_unlink env st4)))"
proof -
  from open_partial [where edit = False and unlink_corrupt = True and xmlin = None
      and st_arg = "- 1", OF d len mg byp _ rd] opn
  obtain st4 where d4: "disk st4 = Some content" and o4: "obj st4 = obj st"
    and s4: "guest_starts (trace st4) = guest_starts (trace st)"
    and O: "qemuDomainSaveImageOpen env bypass_cache None (- 1) False True st
              = qemuDomainSaveImageOpen_unlink env st4"
    by auto
  have "qemuDomainObjRestore env start_paused bypass_cache st =
          (if 0 \<le> rc env (C_VIR_CLOSE 3) \<and> 0 \<le> rc env C_unlink then 1 else - 1,
           log C_VIR_FORCE_CLOSE (snd (qemuDomainSaveImageOpen_unlink env st4)))"
  proof (cases "0 \<le> rc env (C_VIR_CLOSE 3) \<and> 0 \<le> rc env C_unlink")
    case True
    then have "fst (qemuDomainSaveImageOpen_unlink env st4) = Inl (- 3)"
      using corrupt_removed(1) [OF d4] by simp
    then show ?thesis using True
      by (simp add: qemuDomainObjRestore_def O case_prod_beta)
  next
    case False
    then have "fst (qemuDomainSaveImageOpen_unlink env st4) = Inl (- 1)"
      using corrupt_not_removed(1) [OF d4] by simp
    then show ?thesis using False
      by (simp add: qemuDomainObjRestore_def O case_prod_beta)
  qed
  with d4 o4 s4 show ?thesis by blast
qed

lemma boot_proj:
  "fst (qemuDomainObjStart_boot env sp st) = rc env C_qemuProcessStart"
  "disk (snd (qemuDomainObjStart_boot env sp st)) = disk st"
  "guest_starts (trace (snd (qemuDomainObjStart_boot env sp st)))
     = guest_starts (trace st) @ [C_qemuProcessStart]"
  "\<exists>post. trace (snd (qemuDomainObjStart_boot env sp st))
            = trace st @ [C_qemuProcessStart] @ post"
  by (simp_all add: qemuDomainObjStart_boot_def case_prod_beta Let_def)

lemma start_partial:
  assumes d: "disk st = Some content" and len: "sizeof_header \<le> length content"
    and mg: "take 16 content = QEMUD_SAVE_PARTIAL"
    and byp: "flags AND VIR_DOMAIN_START_BYPASS_CACHE \<noteq> 0 \<longrightarrow>
                0 \<le> rc env C_virFileDirectFdFlag \<and> 0 \<le> rc env C_virFileWrapperFdNew"
    and opn: "0 \<le> fst (fst (qemuOpenFile env
                 ({O_RDONLY} \<union> (if flags AND VIR_DOMAIN_START_BYPASS_CACHE \<noteq> 0
                                 then {O_DIRECT} else {})) st))"
    and rd: "0 \<le> rc env (C_saferead sizeof_header)"
    and nf: "flags AND VIR_DOMAIN_START_FORCE_BOOT = 0"
    and path: "0 \<le> rc env C_virAsprintf"
  shows "\<exists>st4. disk st4 = Some content
           \<and> guest_starts (trace st4) = guest_starts (trace st)
           \<and> qemuDomainObjStart env flags st =
               (if 0 \<le> rc env (C_VIR_CLOSE 3) \<and> 0 \<le> rc env C_unlink then
                  qemuDomainObjStart_boot env (flags AND VIR_DOMAIN_START_PAUSED \<noteq> 0)
                    (log (C_VIR_WARN ''Ignoring incomplete managed state'')
                       (log C_VIR_FORCE_CLOSE (snd (qemuDomainSaveImageOpen_unlink env st4))))
                else
                  (- 1, log C_VIR_FORCE_CLOSE (snd (qemuDomainSaveImageOpen_unlink env st4))))"
proof -
  let ?bp = "flags AND VIR_DOMAIN_START_BYPASS_CACHE \<noteq> 0"
  let ?sp = "flags AND VIR_DOMAIN_START_PAUSED \<noteq> 0"
  define st0 where "st0 = log C_virAsprintf st"
  have M: "qemuDomainManagedSavePath env st = (True, st0)"
    using path by (simp add: qemuDomainManagedSavePath_def st0_def case_prod_beta)
  have d0: "disk st0 = Some content" using d by (simp add: st0_def)
  have "disk st0 = disk st" by (simp add: st0_def)
  from qemuOpenFile_fst [OF this] opn
  have opn0: "0 \<le> fst (fst (qemuOpenFile env
                 ({O_RDONLY} \<union> (if ?bp then {O_DIRECT} else {})) st0))"
    by simp
  from restore_partial [OF d0 len mg byp opn0 rd, of ?sp]
  obtain st4 where d4: "disk st4 = Some content"
    and s4: "guest_starts (trace st4) = guest_starts (trace st0)"
    and R: "qemuDomainObjRestore env ?sp ?bp st0 =
              (if 0 \<le> rc env (C_VIR_CLOSE 3) \<and> 0 \<le> rc env C_unlink then 1 else - 1,
               log C_VIR_FORCE_CLOSE (snd (qemuDomainSaveImageOpen_unlink env st4)))"
    by blast
  have s4': "guest_starts (trace st4) = guest_starts (trace st)"
    using s4 by (simp add: st0_def)
  have "qemuDomainObjStart env flags st =
               (if 0 \<le> rc env (C_VIR_CLOSE 3) \<and> 0 \<le> rc env C_unlink then
                  qemuDomainObjStart_boot env ?sp
                    (log (C_VIR_WARN ''Ignoring incomplete managed state'')
                       (log C_VIR_FORCE_CLOSE (snd (qemuDomainSaveImageOpen_unlink env st4))))
                else
                  (- 1, log C_VIR_FORCE_CLOSE (snd (qemuDomainSaveImageOpen_unlink env st4))))"
    using d0 nf by (simp add: qemuDomainObjStart_def Let_def M R)
  with d4 s4' show ?thesis by blast
qed

lemma managed_run_facts:
  "disk managed_run = Some partial_image" "sizeof_header \<le> length partial_image"
  "has_magic QEMUD_SAVE_PARTIAL (disk managed_run)" "trace managed_run = []"
  "take 16 partial_image = QEMUD_SAVE_PARTIAL"
  "has_magic QEMUD_SAVE_PARTIAL (Some partial_image)"
  by (simp_all add: managed_run_def start_run_def partial_image_def sizeof_header_def
      has_magic_def QEMUD_SAVE_PARTIAL_def)

text \<open>
  C3.  When the file opens and its header is read, and the header starts with the
  partial magic, \<open>qemuDomainSaveImageOpen\<close> adds no start of a guest to the trace and
  returns no descriptor.  Without \<open>unlink_corrupt\<close> it returns \<open>-1\<close> with the error
  ``save image is incomplete'' and leaves the file.  With \<open>unlink_corrupt\<close> it closes
  and unlinks the file and returns \<open>-3\<close> when the close and the unlink succeed, and
  it returns \<open>-1\<close> with the error ``cannot remove corrupt file'', the file still there,
  when one of them fails.  On the path of \<open>qemuDomainObjStart\<close> (no forced boot, the
  path of the managed save allocated), \<open>qemuDomainObjRestore\<close> returns 1 in the first
  of these two cases and \<open>-1\<close> in the second; in the first \<open>qemuDomainObjStart\<close>
  warns ``Ignoring incomplete managed state'' and goes on to \<open>qemuProcessStart\<close>, the
  only start of a guest it makes, and returns its result; in the second it returns
  \<open>-1\<close> and starts no guest.
\<close>

theorem partial_image_never_started:
  assumes d: "disk st = Some content" and len: "sizeof_header \<le> length content"
    and mg: "has_magic QEMUD_SAVE_PARTIAL (disk st)"
    and byp: "bypass_cache \<longrightarrow>
                0 \<le> rc env C_virFileDirectFdFlag \<and> 0 \<le> rc env C_virFileWrapperFdNew"
    and opn: "0 \<le> fst (fst (qemuOpenFile env
                 ({if edit then O_RDWR else O_RDONLY}
                    \<union> (if bypass_cache then {O_DIRECT} else {})) st))"
    and rd: "0 \<le> rc env (C_saferead sizeof_header)"
  shows
    "(case qemuDomainSaveImageOpen env bypass_cache xmlin st_arg edit unlink_corrupt st of
        (r, st') \<Rightarrow>
          guest_starts (trace st') = guest_starts (trace st)
          \<and> (if \<not> unlink_corrupt then
                r = Inl (- 1) \<and> disk st' = Some content
                \<and> last_error st'
                    = Some (Err VIR_ERR_OPERATION_FAILED ''save image is incomplete'')
              else if 0 \<le> rc env (C_VIR_CLOSE 3) \<and> 0 \<le> rc env C_unlink then
                r = Inl (- 3) \<and> disk st' = None
              else
                r = Inl (- 1) \<and> disk st' = Some content
                \<and> last_error st'
                    = Some (Err VIR_ERR_SYSTEM_ERROR ''cannot remove corrupt file'')))
     \<and> (\<not> edit \<and> bypass_cache = (flags AND VIR_DOMAIN_START_BYPASS_CACHE \<noteq> 0)
          \<and> flags AND VIR_DOMAIN_START_FORCE_BOOT = 0 \<and> 0 \<le> rc env C_virAsprintf \<longrightarrow>
        fst (qemuDomainObjRestore env start_paused bypass_cache st)
          = (if 0 \<le> rc env (C_VIR_CLOSE 3) \<and> 0 \<le> rc env C_unlink then 1 else - 1)
        \<and> (case qemuDomainObjStart env flags st of
              (ret, st') \<Rightarrow>
                if 0 \<le> rc env (C_VIR_CLOSE 3) \<and> 0 \<le> rc env C_unlink then
                  ret = rc env C_qemuProcessStart \<and> disk st' = None
                  \<and> guest_starts (trace st') = guest_starts (trace st) @ [C_qemuProcessStart]
                  \<and> (\<exists>pre post.
                        trace st' = pre @ [C_VIR_WARN ''Ignoring incomplete managed state'',
                                           C_qemuProcessStart] @ post)
                else
                  ret = - 1 \<and> disk st' = Some content
                  \<and> guest_starts (trace st') = guest_starts (trace st)
                  \<and> last_error st'
                      = Some (Err VIR_ERR_SYSTEM_ERROR ''cannot remove corrupt file'')))"
proof (intro conjI impI)
  have mg': "take 16 content = QEMUD_SAVE_PARTIAL"
    using mg d by (simp add: has_magic_def)
  let ?ok = "0 \<le> rc env (C_VIR_CLOSE 3) \<and> 0 \<le> rc env C_unlink"
  {
    from open_partial [OF d len mg' byp opn rd, of xmlin st_arg unlink_corrupt]
    obtain st4 where d4: "disk st4 = Some content"
      and s4: "guest_starts (trace st4) = guest_starts (trace st)"
      and O: "qemuDomainSaveImageOpen env bypass_cache xmlin st_arg edit unlink_corrupt st =
               (if unlink_corrupt then qemuDomainSaveImageOpen_unlink env st4
                else qemuDomainSaveImageOpen_error
                       (virReportError
                          (Err VIR_ERR_OPERATION_FAILED ''save image is incomplete'') st4))"
      by blast
    show "case qemuDomainSaveImageOpen env bypass_cache xmlin st_arg edit unlink_corrupt st of
        (r, st') \<Rightarrow>
          guest_starts (trace st') = guest_starts (trace st)
          \<and> (if \<not> unlink_corrupt then
                r = Inl (- 1) \<and> disk st' = Some content
                \<and> last_error st'
                    = Some (Err VIR_ERR_OPERATION_FAILED ''save image is incomplete'')
              else if ?ok then r = Inl (- 3) \<and> disk st' = None
              else
                r = Inl (- 1) \<and> disk st' = Some content
                \<and> last_error st'
                    = Some (Err VIR_ERR_SYSTEM_ERROR ''cannot remove corrupt file''))"
    proof (cases unlink_corrupt)
      case False
      then show ?thesis using d4 s4 O by (simp add: case_prod_beta)
    next
      case True
      show ?thesis
      proof (cases ?ok)
        case ok: True
        then show ?thesis
          using True s4 corrupt_removed [OF d4, of env] O
          by (simp add: case_prod_beta)
      next
        case nok: False
        then show ?thesis
          using True s4 corrupt_not_removed [OF d4 nok] O
          by (simp add: case_prod_beta)
      qed
    qed
  }
  assume g: "\<not> edit \<and> bypass_cache = (flags AND VIR_DOMAIN_START_BYPASS_CACHE \<noteq> 0)
          \<and> flags AND VIR_DOMAIN_START_FORCE_BOOT = 0 \<and> 0 \<le> rc env C_virAsprintf"
  have opn': "0 \<le> fst (fst (qemuOpenFile env
                 ({O_RDONLY} \<union> (if bypass_cache then {O_DIRECT} else {})) st))"
    using opn g by simp
  {
    from restore_partial [OF d len mg' byp opn' rd, of start_paused]
    show "fst (qemuDomainObjRestore env start_paused bypass_cache st)
          = (if ?ok then 1 else - 1)"
      by auto
  }
  from g have bp: "bypass_cache = (flags AND VIR_DOMAIN_START_BYPASS_CACHE \<noteq> 0)"
    and nf: "flags AND VIR_DOMAIN_START_FORCE_BOOT = 0" and path: "0 \<le> rc env C_virAsprintf"
    by simp_all
  from start_partial [OF d len mg' byp [unfolded bp] opn' [unfolded bp] rd nf path]
  obtain st4 where d4: "disk st4 = Some content"
    and s4: "guest_starts (trace st4) = guest_starts (trace st)"
    and S: "qemuDomainObjStart env flags st =
               (if ?ok then
                  qemuDomainObjStart_boot env (flags AND VIR_DOMAIN_START_PAUSED \<noteq> 0)
                    (log (C_VIR_WARN ''Ignoring incomplete managed state'')
                       (log C_VIR_FORCE_CLOSE (snd (qemuDomainSaveImageOpen_unlink env st4))))
                else
                  (- 1, log C_VIR_FORCE_CLOSE (snd (qemuDomainSaveImageOpen_unlink env st4))))"
    by blast
  show "case qemuDomainObjStart env flags st of
              (ret, st') \<Rightarrow>
                if ?ok then
                  ret = rc env C_qemuProcessStart \<and> disk st' = None
                  \<and> guest_starts (trace st') = guest_starts (trace st) @ [C_qemuProcessStart]
                  \<and> (\<exists>pre post.
                        trace st' = pre @ [C_VIR_WARN ''Ignoring incomplete managed state'',
                                           C_qemuProcessStart] @ post)
                else
                  ret = - 1 \<and> disk st' = Some content
                  \<and> guest_starts (trace st') = guest_starts (trace st)
                  \<and> last_error st'
                      = Some (Err VIR_ERR_SYSTEM_ERROR ''cannot remove corrupt file'')"
  proof (cases ?ok)
    case True
    let ?w = "log (C_VIR_WARN ''Ignoring incomplete managed state'')
                (log C_VIR_FORCE_CLOSE (snd (qemuDomainSaveImageOpen_unlink env st4)))"
    let ?sp = "flags AND VIR_DOMAIN_START_PAUSED \<noteq> 0"
    from boot_proj(4) [of env ?sp ?w]
    obtain post where "trace (snd (qemuDomainObjStart_boot env ?sp ?w))
        = trace (log C_VIR_FORCE_CLOSE (snd (qemuDomainSaveImageOpen_unlink env st4)))
          @ [C_VIR_WARN ''Ignoring incomplete managed state'', C_qemuProcessStart] @ post"
      by auto
    then have c4: "\<exists>pre post. trace (snd (qemuDomainObjStart_boot env ?sp ?w))
        = pre @ [C_VIR_WARN ''Ignoring incomplete managed state'', C_qemuProcessStart] @ post"
      by blast
    have S': "qemuDomainObjStart env flags st = qemuDomainObjStart_boot env ?sp ?w"
      using S True by simp
    have c1: "fst (qemuDomainObjStart_boot env ?sp ?w) = rc env C_qemuProcessStart"
      by (simp add: boot_proj(1))
    have c2: "disk (snd (qemuDomainObjStart_boot env ?sp ?w)) = None"
      using True corrupt_removed(2) [OF d4, of env] by (simp add: boot_proj(2))
    have c3: "guest_starts (trace (snd (qemuDomainObjStart_boot env ?sp ?w)))
                = guest_starts (trace st) @ [C_qemuProcessStart]"
      using True corrupt_removed(3) [OF d4, of env] s4 by (simp add: boot_proj(3))
    from True c1 c2 c3 c4 show ?thesis
      unfolding S' by (simp only: case_prod_beta if_True simp_thms)
  next
    case False
    have S': "qemuDomainObjStart env flags st
                = (- 1, log C_VIR_FORCE_CLOSE (snd (qemuDomainSaveImageOpen_unlink env st4)))"
      using S False by simp
    from False s4 corrupt_not_removed [OF d4 False] show ?thesis
      unfolding S' by simp
  qed
qed


theorem partial_image_never_started_witness:
  "fst (qemuDomainSaveImageOpen quiet_env False None (- 1) False True managed_run) = Inl (- 3)
   \<and> fst (qemuDomainObjRestore quiet_env False False managed_run) = 1
   \<and> fst (qemuDomainObjStart quiet_env 0 managed_run) = 0
   \<and> disk (snd (qemuDomainObjStart quiet_env 0 managed_run)) = None
   \<and> guest_starts (trace (snd (qemuDomainObjStart quiet_env 0 managed_run)))
       = [C_qemuProcessStart]"
proof -
  have ok: "\<forall>c. 0 \<le> rc quiet_env c" by (simp add: quiet_env_def)
  have opn: "0 \<le> fst (fst (qemuOpenFile quiet_env
                 ({if False then O_RDWR else O_RDONLY} \<union> (if False then {O_DIRECT} else {}))
                 managed_run))"
    using qemuOpenFile_succeeds [OF ok, where st = managed_run and fl = "{O_RDONLY}"]
    by (simp add: managed_run_facts)
  have rd: "0 \<le> rc quiet_env (C_saferead sizeof_header)" using ok by simp
  have byp: "False \<longrightarrow>
               0 \<le> rc quiet_env C_virFileDirectFdFlag \<and> 0 \<le> rc quiet_env C_virFileWrapperFdNew"
    by simp
  from partial_image_never_started [OF managed_run_facts(1,2,3) byp opn rd,
      where xmlin = None and st_arg = "- 1" and unlink_corrupt = True and flags = 0
        and start_paused = False]
  show ?thesis
    by (simp add: case_prod_beta managed_run_facts quiet_env_def
        VIR_DOMAIN_START_BYPASS_CACHE_def VIR_DOMAIN_START_FORCE_BOOT_def)
qed

text \<open>
  With \<open>unlink_corrupt\<close> set and an \<open>unlink\<close> that fails, the open of an image with
  the partial magic returns \<open>-1\<close> with the error ``cannot remove corrupt file'' (not
  ``save image is incomplete''), the file is still there, and \<open>qemuDomainObjStart\<close>
  fails without booting the domain.
\<close>

theorem corrupt_image_not_removed:
  "has_magic QEMUD_SAVE_PARTIAL (disk managed_run)
   \<and> fst (qemuDomainSaveImageOpen unlink_fails_env False None (- 1) False True managed_run)
       = Inl (- 1)
   \<and> last_error (snd (qemuDomainSaveImageOpen unlink_fails_env False None (- 1) False True
                        managed_run))
       = Some (Err VIR_ERR_SYSTEM_ERROR ''cannot remove corrupt file'')
   \<and> disk (snd (qemuDomainSaveImageOpen unlink_fails_env False None (- 1) False True
                  managed_run)) = Some partial_image
   \<and> fst (qemuDomainObjStart unlink_fails_env 0 managed_run) = - 1
   \<and> guest_starts (trace (snd (qemuDomainObjStart unlink_fails_env 0 managed_run))) = []"
proof -
  have rcs: "0 \<le> rc unlink_fails_env (C_virFileOpenAs {O_RDONLY} AS_CALLER False False)"
    "0 \<le> rc unlink_fails_env (C_saferead sizeof_header)"
    "0 \<le> rc unlink_fails_env C_virAsprintf"
    "\<not> (0 \<le> rc unlink_fails_env (C_VIR_CLOSE 3) \<and> 0 \<le> rc unlink_fails_env C_unlink)"
    by (simp_all add: unlink_fails_env_def quiet_env_def)
  have "\<not> fst (fst (qemuOpenFile_regular unlink_fails_env {O_RDONLY}
                      (rc unlink_fails_env C_virStorageFileIsSharedFS) AS_CALLER False
                      (snd (ext unlink_fails_env C_virStorageFileIsSharedFS managed_run)))) < 0"
    by (rule regular_succeeds [OF rcs(1)]) (simp add: managed_run_facts)
  then have opn: "0 \<le> fst (fst (qemuOpenFile unlink_fails_env
                 ({if False then O_RDWR else O_RDONLY} \<union> (if False then {O_DIRECT} else {}))
                 managed_run))"
    by (simp add: qemuOpenFile_def Let_def case_prod_beta)
  then have opn': "0 \<le> fst (fst (qemuOpenFile unlink_fails_env
                 ({O_RDONLY} \<union> (if (0 :: 32 word) AND VIR_DOMAIN_START_BYPASS_CACHE \<noteq> 0
                                 then {O_DIRECT} else {})) managed_run))"
    by simp
  from open_partial [OF managed_run_facts(1,2,5) _ opn rcs(2),
      where xmlin = None and st_arg = "- 1" and unlink_corrupt = True]
  obtain st4 where d4: "disk st4 = Some partial_image"
    and O: "qemuDomainSaveImageOpen unlink_fails_env False None (- 1) False True managed_run
              = qemuDomainSaveImageOpen_unlink unlink_fails_env st4"
    by auto
  from start_partial [OF managed_run_facts(1,2,5) _ opn' rcs(2) _ rcs(3)]
  obtain st5 where d5: "disk st5 = Some partial_image"
    and s5: "guest_starts (trace st5) = guest_starts (trace managed_run)"
    and S: "qemuDomainObjStart unlink_fails_env 0 managed_run =
              (- 1, log C_VIR_FORCE_CLOSE
                      (snd (qemuDomainSaveImageOpen_unlink unlink_fails_env st5)))"
    using rcs(4) by auto
  show ?thesis
    using corrupt_not_removed [OF d4 rcs(4)] corrupt_not_removed(3) [OF d5 rcs(4)] s5
    by (simp add: O S managed_run_facts)
qed

section \<open>The job mask during a snapshot\<close>

text \<open>The calls that \<open>qemuDomainSaveMemory\<close> adds to a trace all save memory.\<close>

lemma added_only_iff: "added_only P t0 t = (\<exists>a. t = t0 @ a \<and> list_all P a)"
proof
  assume "added_only P t0 t"
  then have "t = t0 @ drop (length t0) t \<and> list_all P (drop (length t0) t)"
    by (metis added_only_def append_take_drop_id)
  then show "\<exists>a. t = t0 @ a \<and> list_all P a" by blast
next
  assume "\<exists>a. t = t0 @ a \<and> list_all P a"
  then show "added_only P t0 t" by (auto simp add: added_only_def)
qed

lemma added_refl [simp]: "added_only P t t"
  by (simp add: added_only_def)

lemma added_append [simp]:
  "added_only P t0 t \<Longrightarrow> added_only P t0 (t @ a) = list_all P a"
  by (auto simp add: added_only_iff)

lemma added_trans:
  "added_only P t0 t1 \<Longrightarrow> added_only P t1 t2 \<Longrightarrow> added_only P t0 t2"
  by (auto simp add: added_only_iff)

lemma as_user_added [simp]:
  "added_only saves_memory t0 (trace st) \<Longrightarrow>
   added_only saves_memory t0 (trace (snd (qemuOpenFile_as_user env fl fo st)))"
  by (simp add: qemuOpenFile_as_user_def case_prod_beta)

lemma regular_added [simp]:
  "added_only saves_memory t0 (trace st) \<Longrightarrow>
   added_only saves_memory t0 (trace (snd (qemuOpenFile_regular env fl ps ow fo st)))"
  by (simp add: qemuOpenFile_regular_def case_prod_beta)

lemma device_added [simp]:
  "added_only saves_memory t0 (trace st) \<Longrightarrow>
   added_only saves_memory t0 (trace (snd (qemuOpenFile_device env fl st)))"
  by (simp add: qemuOpenFile_device_def case_prod_beta)

lemma qemuOpenFile_added [simp]:
  "added_only saves_memory t0 (trace st) \<Longrightarrow>
   added_only saves_memory t0 (trace (snd (qemuOpenFile env fl st)))"
  by (simp add: qemuOpenFile_def Let_def case_prod_beta)

lemma saveHeader_added [simp]:
  "added_only saves_memory t0 (trace st) \<Longrightarrow>
   added_only saves_memory t0 (trace (snd (qemuDomainSaveHeader env xml h st)))"
  by (simp add: qemuDomainSaveHeader_def case_prod_beta)

lemma unlink_added [simp]:
  "added_only saves_memory t0 (trace st) \<Longrightarrow>
   added_only saves_memory t0 (trace (snd (unlink env st)))"
  by simp

lemma cleanup_added [simp]:
  "added_only saves_memory t0 (trace st) \<Longrightarrow>
   added_only saves_memory t0 (trace (snd (qemuDomainSaveMemory_cleanup env r n st)))"
  by (simp add: qemuDomainSaveMemory_cleanup_def Let_def)

lemma complete_added [simp]:
  "added_only saves_memory t0 (trace st) \<Longrightarrow>
   added_only saves_memory t0 (trace (snd (qemuDomainSaveMemory_complete env h n st)))"
  by (simp add: qemuDomainSaveMemory_complete_def case_prod_beta)

lemma write_added:
  "added_only saves_memory (trace st @ [C_VIR_ALLOC_N])
     (trace (case qemuDomainSaveMemory_write env d c w flags a st of
               Inl r \<Rightarrow> snd r | Inr r \<Rightarrow> snd r))"
proof -
  define st1 where "st1 = log C_VIR_ALLOC_N st"
  have t1: "trace st @ [C_VIR_ALLOC_N] = trace st1" by (simp add: st1_def)
  show ?thesis
    apply (simp only: qemuDomainSaveMemory_write_def Let_def case_prod_beta sys_proj)
    apply (simp only: st1_def [symmetric] t1)
    apply simp
    done
qed

lemma saveMemory_added:
  "added_only saves_memory (trace st @ [C_VIR_ALLOC_N])
     (trace (snd (qemuDomainSaveMemory env d c w flags a st)))"
  using write_added [of st env d c w flags a]
  by (auto simp add: qemuDomainSaveMemory_def case_prod_beta split: sum.splits)


lemma other_simps [simp]:
  "other_call (C_qemuDomainObjBeginAsyncJob k)" "other_call C_qemuDomainObjEndAsyncJob"
  "other_call C_qemuDomainSnapshotFSFreeze" "other_call (C_qemuDomainSnapshotFSThaw b)"
  "other_call (C_qemuProcessStopCPUs r k)" "other_call (C_qemuProcessStartCPUs k)"
  "other_call (C_qemuProcessStop sr)" "other_call C_virDomainAuditStop"
  "other_call C_qemuDomainEventQueue" "other_call C_qemuDomainDefFormatLive"
  by (simp_all add: other_call_def)

lemma thaw_other [simp]:
  "added_only other_call t0 (trace st) \<Longrightarrow>
   added_only other_call t0
     (trace (snd (qemuDomainSnapshotCreateActiveExternal_thaw env ret thaw vm st)))"
  by (simp add: qemuDomainSnapshotCreateActiveExternal_thaw_def qemuDomainSnapshotFSThaw_def
      qemuDomainObjEndAsyncJob_def case_prod_beta)

lemma endjob_other [simp]:
  "added_only other_call t0 (trace st) \<Longrightarrow>
   added_only other_call t0
     (trace (snd (qemuDomainSnapshotCreateActiveExternal_endjob env ret resume thaw vm st)))"
  by (simp add: qemuDomainSnapshotCreateActiveExternal_endjob_def Let_def case_prod_beta)

lemma added_onlyD:
  "added_only P t0 t \<Longrightarrow> \<exists>a. t = t0 @ a \<and> list_all P a"
  by (simp add: added_only_iff)

text \<open>The snapshot of the disks is the first call of its part; the rest are other calls.\<close>

lemma disks_shape:
  "\<exists>post. trace (snd (qemuDomainSnapshotCreateActiveExternal_disks env flags resume thaw st))
            = trace st @ [C_qemuDomainSnapshotCreateDiskActive] @ post
          \<and> list_all other_call post"
proof -
  define st1 where "st1 = snd (ext_unlocked env C_qemuDomainSnapshotCreateDiskActive st)"
  have t1: "trace st1 = trace st @ [C_qemuDomainSnapshotCreateDiskActive]"
    by (simp add: st1_def)
  have "added_only other_call (trace st1)
          (trace (snd (qemuDomainSnapshotCreateActiveExternal_disks env flags resume thaw st)))"
    apply (simp only: qemuDomainSnapshotCreateActiveExternal_disks_def case_prod_beta)
    apply (simp only: st1_def [symmetric])
    apply (simp add: Let_def qemuProcessStop_def qemuDomainObjEndAsyncJob_def)
    done
  from added_onlyD [OF this] show ?thesis by (simp add: t1)
qed

lemma disks_contains:
  "C_qemuDomainSnapshotCreateDiskActive
     \<in> set (trace (snd (qemuDomainSnapshotCreateActiveExternal_disks env flags resume thaw
                            st)))"
  using disks_shape [of env flags resume thaw st] by auto

text \<open>The memory snapshot, by its outcome.\<close>

lemma memory_shape:
  fixes env resume thaw st
  defines "M \<equiv> qemuDomainSnapshotCreateActiveExternal_memory env resume thaw st"
  defines "hd2 \<equiv> [C_qemuDomainObjSetAsyncJobMask wide_mask, C_qemuDomainDefFormatLive]"
  shows "(\<exists>r sv post. M = Inl r \<and> trace (snd r) = trace st @ hd2 @ sv @ post
            \<and> list_all saves_memory sv \<and> list_all other_call post)
       \<or> (\<exists>s sv. M = Inr s
            \<and> trace s = trace st @ hd2 @ sv @ [C_qemuDomainObjSetAsyncJobMask DEFAULT_JOB_MASK]
            \<and> list_all saves_memory sv \<and> sv \<noteq> [])"
proof -
  define st1 where
    "st1 = snd (qemuDomainDefFormatLive env (qemuDomainObjSetAsyncJobMask wide_mask st))"
  have t1: "trace st1 = trace st @ hd2"
    by (simp add: st1_def hd2_def qemuDomainDefFormatLive_def qemuDomainObjSetAsyncJobMask_def)
  have f1: "qemuDomainDefFormatLive env (qemuDomainObjSetAsyncJobMask wide_mask st)
              = (live_xml env, st1)"
    by (simp add: st1_def qemuDomainDefFormatLive_def)
  show ?thesis
  proof (cases "live_xml env")
    case None
    let ?r = "qemuDomainSnapshotCreateActiveExternal_endjob env (- 1) resume thaw True st1"
    have M1: "M = Inl ?r"
      using None f1
      by (simp add: M_def qemuDomainSnapshotCreateActiveExternal_memory_def wide_mask_def)
    have "added_only other_call (trace st1) (trace (snd ?r))" by simp
    from added_onlyD [OF this] obtain post where
      "trace (snd ?r) = trace st1 @ post" "list_all other_call post" by blast
    then have "trace (snd ?r) = trace st @ hd2 @ [] @ post \<and> list_all saves_memory []
                 \<and> list_all other_call post"
      by (simp add: t1)
    with M1 show ?thesis by blast
  next
    case (Some xml)
    define sm where "sm = qemuDomainSaveMemory env xml QEMUD_SAVE_FORMAT_RAW resume 0
                            QEMU_ASYNC_JOB_SNAPSHOT st1"
    from added_onlyD [OF saveMemory_added [of st1 env xml QEMUD_SAVE_FORMAT_RAW resume 0
        QEMU_ASYNC_JOB_SNAPSHOT]]
    obtain a where ta: "trace (snd sm) = (trace st1 @ [C_VIR_ALLOC_N]) @ a"
      and la: "list_all saves_memory a"
      by (auto simp add: sm_def)
    define sv where "sv = C_VIR_ALLOC_N # a"
    have tsv: "trace (snd sm) = trace st @ hd2 @ sv" and lsv: "list_all saves_memory sv"
      and nsv: "sv \<noteq> []"
      using ta la by (simp_all add: sv_def t1)
    have M_eq: "M = (if fst sm < 0 then
                       Inl (qemuDomainSnapshotCreateActiveExternal_endjob env (fst sm) resume
                              thaw True (snd sm))
                     else Inr (qemuDomainObjSetAsyncJobMask DEFAULT_JOB_MASK (snd sm)))"
      using Some f1
      by (simp add: M_def qemuDomainSnapshotCreateActiveExternal_memory_def wide_mask_def
          case_prod_beta sm_def)
    show ?thesis
    proof (cases "fst sm < 0")
      case True
      let ?r = "qemuDomainSnapshotCreateActiveExternal_endjob env (fst sm) resume thaw True
                  (snd sm)"
      have "added_only other_call (trace (snd sm)) (trace (snd ?r))" by simp
      from added_onlyD [OF this] obtain post where
        "trace (snd ?r) = trace (snd sm) @ post" "list_all other_call post" by blast
      then have "trace (snd ?r) = trace st @ hd2 @ sv @ post \<and> list_all saves_memory sv
                   \<and> list_all other_call post"
        using tsv lsv by simp
      moreover have "M = Inl ?r" using True M_eq by simp
      ultimately show ?thesis by blast
    next
      case False
      let ?s = "qemuDomainObjSetAsyncJobMask DEFAULT_JOB_MASK (snd sm)"
      have "trace ?s = trace st @ hd2 @ sv @ [C_qemuDomainObjSetAsyncJobMask DEFAULT_JOB_MASK]"
        using tsv by (simp add: qemuDomainObjSetAsyncJobMask_def)
      moreover have "M = Inr ?s" using False M_eq by simp
      ultimately show ?thesis using lsv nsv by blast
    qed
  qed
qed


lemma snapshot_shape:
  fixes env flags resume thaw st
  defines "R \<equiv> qemuDomainSnapshotCreateActiveExternal_snapshot env True flags resume thaw st"
  defines "hd2 \<equiv> [C_qemuDomainObjSetAsyncJobMask wide_mask, C_qemuDomainDefFormatLive]"
  shows "\<exists>sv post. list_all saves_memory sv \<and> list_all other_call post
           \<and> (trace (snd R) = trace st @ hd2 @ sv @ post
              \<or> trace (snd R) = trace st @ hd2 @ sv
                   @ [C_qemuDomainObjSetAsyncJobMask DEFAULT_JOB_MASK,
                      C_qemuDomainSnapshotCreateDiskActive] @ post
                 \<and> sv \<noteq> [])"
proof -
  let ?M = "qemuDomainSnapshotCreateActiveExternal_memory env resume thaw st"
  from memory_shape [of env resume thaw st, folded hd2_def]
  consider (failed) r sv post where "?M = Inl r" "trace (snd r) = trace st @ hd2 @ sv @ post"
      "list_all saves_memory sv" "list_all other_call post"
    | (saved) s sv where "?M = Inr s"
      "trace s = trace st @ hd2 @ sv @ [C_qemuDomainObjSetAsyncJobMask DEFAULT_JOB_MASK]"
      "list_all saves_memory sv" "sv \<noteq> []"
    by blast
  then show ?thesis
  proof cases
    case failed
    then have "trace (snd R) = trace st @ hd2 @ sv @ post"
      by (simp add: R_def qemuDomainSnapshotCreateActiveExternal_snapshot_def)
    with failed(3,4) show ?thesis by blast
  next
    case saved
    have R1: "R = qemuDomainSnapshotCreateActiveExternal_disks env flags resume thaw s"
      using saved(1) by (simp add: R_def qemuDomainSnapshotCreateActiveExternal_snapshot_def)
    from disks_shape [of env flags resume thaw s] obtain post where
      "trace (snd R) = trace s @ [C_qemuDomainSnapshotCreateDiskActive] @ post"
      and lp: "list_all other_call post"
      unfolding R1 by blast
    then have "trace (snd R) = trace st @ hd2 @ sv
                   @ [C_qemuDomainObjSetAsyncJobMask DEFAULT_JOB_MASK,
                      C_qemuDomainSnapshotCreateDiskActive] @ post"
      using saved(2) by simp
    with saved(3,4) lp show ?thesis by blast
  qed
qed

text \<open>
  The part of the function before the snapshots: it ends the run, or goes to \<open>endjob\<close>,
  or goes on to the snapshots, and it has made other calls only.
\<close>

lemma prepare_cases:
  fixes env memory transaction flags st
  defines "R \<equiv> qemuDomainSnapshotCreateActiveExternal env memory transaction flags st"
  defines "b \<equiv> C_qemuDomainObjBeginAsyncJob QEMU_ASYNC_JOB_SNAPSHOT"
  shows "trace (snd R) = trace st @ [b]
       \<or> (\<exists>ret resume thaw stp. added_only other_call (trace st @ [b]) (trace stp)
            \<and> R = qemuDomainSnapshotCreateActiveExternal_endjob env ret resume thaw True stp)
       \<or> (\<exists>resume thaw stp. added_only other_call (trace st @ [b]) (trace stp)
            \<and> R = qemuDomainSnapshotCreateActiveExternal_snapshot env memory flags resume
                    thaw stp)"
proof -
  define B where "B = qemuDomainObjBeginAsyncJob env QEMU_ASYNC_JOB_SNAPSHOT st"
  define F where "F = (if flag_quiesce flags
                       then ext_unlocked env C_qemuDomainSnapshotFSFreeze (snd B)
                       else (0, snd B))"
  define S where "S = ext_unlocked env
                        (C_qemuProcessStopCPUs VIR_DOMAIN_PAUSED_SNAPSHOT
                           QEMU_ASYNC_JOB_SNAPSHOT) (snd F)"
  define thaw :: int where "thaw = (if flag_quiesce flags then 1 else 0)"
  define pause where
    "pause = ((memory \<and> \<not> flag_live flags) \<or> (\<not> memory \<and> flag_atomic flags \<and> \<not> transaction))"
  have tB: "trace (snd B) = trace st @ [b]"
    by (simp add: B_def b_def qemuDomainObjBeginAsyncJob_def Let_def)
  have aF: "added_only other_call (trace st @ [b]) (trace (snd F))"
    by (simp add: F_def tB [symmetric])
  have aS: "added_only other_call (trace st @ [b]) (trace (snd S))"
    using aF by (simp add: S_def)
  have aS': "added_only other_call (trace st @ [b])
               (trace (virReportError (Err VIR_ERR_INTERNAL_ERROR ''guest unexpectedly quit'')
                         (snd S)))"
    using aS by simp
  have R_eq: "R =
    (if fst B < 0 then (- 1, snd B)
     else if fst F < 0 then
       qemuDomainSnapshotCreateActiveExternal_endjob env (- 1) False (- 1) True (snd F)
     else if virDomainObjGetState (obj (snd F)) = VIR_DOMAIN_RUNNING then
       (if pause then
          (if fst S < 0 then
             qemuDomainSnapshotCreateActiveExternal_endjob env (- 1) True thaw True (snd S)
           else if \<not> virDomainObjIsActive (obj (snd S)) then
             qemuDomainSnapshotCreateActiveExternal_endjob env (- 1) True thaw True
               (virReportError (Err VIR_ERR_INTERNAL_ERROR ''guest unexpectedly quit'')
                  (snd S))
           else
             qemuDomainSnapshotCreateActiveExternal_snapshot env memory flags True thaw
               (snd S))
        else
          qemuDomainSnapshotCreateActiveExternal_snapshot env memory flags True thaw (snd F))
     else
       qemuDomainSnapshotCreateActiveExternal_snapshot env memory flags False thaw (snd F))"
    apply (simp only: R_def qemuDomainSnapshotCreateActiveExternal_def case_prod_beta Let_def)
    apply (simp only: B_def [symmetric])
    apply (simp only: F_def [symmetric])
    apply (simp only: S_def [symmetric] thaw_def [symmetric] pause_def [symmetric])
    done
  consider (busy) "fst B < 0"
    | (freeze) "\<not> fst B < 0" "fst F < 0"
    | (stop) "\<not> fst B < 0" "\<not> fst F < 0"
        "virDomainObjGetState (obj (snd F)) = VIR_DOMAIN_RUNNING"
        "pause"
        "fst S < 0"
    | (quit) "\<not> fst B < 0" "\<not> fst F < 0"
        "virDomainObjGetState (obj (snd F)) = VIR_DOMAIN_RUNNING"
        "pause"
        "\<not> fst S < 0" "\<not> virDomainObjIsActive (obj (snd S))"
    | (paused) "\<not> fst B < 0" "\<not> fst F < 0"
        "virDomainObjGetState (obj (snd F)) = VIR_DOMAIN_RUNNING"
        "pause"
        "\<not> fst S < 0" "virDomainObjIsActive (obj (snd S))"
    | (live) "\<not> fst B < 0" "\<not> fst F < 0"
        "virDomainObjGetState (obj (snd F)) = VIR_DOMAIN_RUNNING"
        "\<not> pause"
    | (idle) "\<not> fst B < 0" "\<not> fst F < 0"
        "virDomainObjGetState (obj (snd F)) \<noteq> VIR_DOMAIN_RUNNING"
    by blast
  then show ?thesis
  proof cases
    case busy
    then have "R = (- 1, snd B)" by (simp add: R_eq)
    then show ?thesis using tB by simp
  next
    case freeze
    then have "R = qemuDomainSnapshotCreateActiveExternal_endjob env (- 1) False (- 1) True
                     (snd F)"
      by (simp add: R_eq)
    with aF show ?thesis by blast
  next
    case stop
    then have "R = qemuDomainSnapshotCreateActiveExternal_endjob env (- 1) True thaw True
                     (snd S)"
      by (simp add: R_eq)
    with aS show ?thesis by blast
  next
    case quit
    then have "R = qemuDomainSnapshotCreateActiveExternal_endjob env (- 1) True thaw True
               (virReportError (Err VIR_ERR_INTERNAL_ERROR ''guest unexpectedly quit'')
                  (snd S))"
      by (simp add: R_eq)
    with aS' show ?thesis by blast
  next
    case paused
    then have "R = qemuDomainSnapshotCreateActiveExternal_snapshot env memory flags True thaw
                     (snd S)"
      by (simp add: R_eq)
    with aS show ?thesis by blast
  next
    case live
    then have "R = qemuDomainSnapshotCreateActiveExternal_snapshot env memory flags True thaw
                     (snd F)"
      by (simp add: R_eq)
    with aF show ?thesis by blast
  next
    case idle
    then have "R = qemuDomainSnapshotCreateActiveExternal_snapshot env memory flags False thaw
                     (snd F)"
      by (simp add: R_eq)
    with aF show ?thesis by blast
  qed
qed

lemma guest_quit_job [simp]: "job (guest_quit v) = job v"
  by (simp add: guest_quit_def)

lemma ext_unlocked_job [simp]: "job (obj (snd (ext_unlocked env c st))) = job (obj st)"
  by (simp add: ext_unlocked_def case_prod_beta)

lemma mig_job [simp]:
  "job (obj (snd (qemuMigrationToFile env off prog bp a st))) = job (obj st)"
  by (simp add: qemuMigrationToFile_def Let_def case_prod_beta)

lemma saveHeader_obj [simp]:
  "obj (snd (qemuDomainSaveHeader env xml h st)) = obj st"
  by (simp add: qemuDomainSaveHeader_def case_prod_beta)

lemma complete_obj [simp]:
  "obj (snd (qemuDomainSaveMemory_complete env h n st)) = obj st"
  by (simp add: qemuDomainSaveMemory_complete_def case_prod_beta)

lemma write_job:
  "job (obj (case qemuDomainSaveMemory_write env d c w flags a st of
               Inl r \<Rightarrow> snd r | Inr r \<Rightarrow> snd r)) = job (obj st)"
  by (simp add: qemuDomainSaveMemory_write_def Let_def case_prod_beta)

lemma saveMemory_job:
  "job (obj (snd (qemuDomainSaveMemory env d c w flags a st))) = job (obj st)"
  using write_job [of env d c w flags a st]
  by (auto simp add: qemuDomainSaveMemory_def case_prod_beta split: sum.splits)




section \<open>The migration job across Begin3 and Confirm3\<close>

lemmas migrate_defs =
  qemuDomainMigrateBegin3_def qemuDomainMigrateBegin3_endjob_def
  qemuDomainMigrateBegin3_cleanup_def qemuDomainMigrateConfirm3_def
  qemuDomainMigrateConfirm3_cleanup_def qemuMigrationJobStart_def
  qemuMigrationJobContinue_def qemuMigrationJobFinish_def qemuMigrationJobIsActive_def
  qemuMigrationJobStartPhase_def qemuMigrationBegin_def qemuDomainObjBeginAsyncJob_def
  qemuDomainObjEndAsyncJob_def ext_def ext_unlocked_def log_def virReportError_def
  guest_quit_def virDomainObjIsActive_def not_running_def Let_def case_prod_beta

text \<open>
  C7.  For a domain that is found.  \<open>qemuDomainMigrateBegin3\<close> with change protection
  asks for the MIGRATION_OUT async job first; when the job is not admitted it returns
  \<open>NULL\<close> and leaves the job state as it was.  When the domain is active, the check
  of the media, \<open>qemuMigrationBegin\<close> and the registering of the close callback
  succeed, the callback has been registered, the job has been handed on with
  \<open>qemuMigrationJobContinue\<close> and not ended, the async job is still MIGRATION_OUT
  when the function returns, and the XML is returned (unless the domain object is no
  longer referenced).  When one of these steps fails, an error has been raised and the
  job has been ended inside the function; the function then returns \<open>NULL\<close>, except
  that after a failed registering of the callback it returns the XML that
  \<open>qemuMigrationBegin\<close> made.  \<open>qemuDomainMigrateConfirm3\<close> fails with an error
  and touches nothing when the async job is not MIGRATION_OUT; otherwise it records the
  phase CONFIRM3_CANCELLED when \<open>cancelled\<close> is set and CONFIRM3 when it is not,
  unregisters the close callback, calls \<open>qemuMigrationConfirm\<close>, whose result it
  returns, and ends the async job; after that it only removes the domain or unlocks.
\<close>

theorem migration_job_across_begin_and_confirm:
  assumes found: "held st" and t0: "trace st = []"
  shows
    "(let B = qemuDomainMigrateBegin3 env \<lparr>change_protection = True, undefine_source = u\<rparr> st
      in
        if \<not> (active (job (obj st)) = QEMU_JOB_NONE
               \<and> asyncJob (job (obj st)) = QEMU_ASYNC_JOB_NONE) then
          fst B = None \<and> job (obj (snd B)) = job (obj st)
          \<and> trace (snd B) = [C_qemuDomainObjBeginAsyncJob QEMU_ASYNC_JOB_MIGRATION_OUT,
                              C_virDomainObjUnlock, C_qemuDriverUnlock]
        else if virDomainObjIsActive (obj st)
                \<and> 0 \<le> rc env (C_qemuDomainCheckEjectableMedia QEMU_ASYNC_JOB_MIGRATION_OUT)
                \<and> live_xml env \<noteq> None \<and> 0 \<le> rc env C_qemuDriverCloseCallbackSet then
          asyncJob (job (obj (snd B))) = QEMU_ASYNC_JOB_MIGRATION_OUT
          \<and> trace (snd B)
              = [C_qemuDomainObjBeginAsyncJob QEMU_ASYNC_JOB_MIGRATION_OUT,
                 C_qemuDomainCheckEjectableMedia QEMU_ASYNC_JOB_MIGRATION_OUT,
                 C_qemuMigrationBegin, C_qemuDriverCloseCallbackSet,
                 C_qemuMigrationJobContinue]
                @ (if referenced env C_qemuMigrationJobContinue then [C_virDomainObjUnlock]
                   else [])
                @ [C_qemuDriverUnlock]
          \<and> fst B = (if referenced env C_qemuMigrationJobContinue then live_xml env else None)
        else
          asyncJob (job (obj (snd B))) = QEMU_ASYNC_JOB_NONE
          \<and> last_error (snd B) \<noteq> None
          \<and> C_qemuDomainObjEndAsyncJob \<in> set (trace (snd B))
          \<and> C_qemuMigrationJobContinue \<notin> set (trace (snd B))
          \<and> fst B = (if virDomainObjIsActive (obj st)
                         \<and> 0 \<le> rc env (C_qemuDomainCheckEjectableMedia
                                          QEMU_ASYNC_JOB_MIGRATION_OUT)
                      then live_xml env else None))
     \<and> (let C = qemuDomainMigrateConfirm3 env flags cancelled st
        in
          if asyncJob (job (obj st)) \<noteq> QEMU_ASYNC_JOB_MIGRATION_OUT then
            fst C = - 1 \<and> job (obj (snd C)) = job (obj st)
            \<and> last_error (snd C)
                = Some (Err VIR_ERR_OPERATION_INVALID ''domain is not being migrated'')
            \<and> trace (snd C) = [C_virDomainObjUnlock, C_qemuDriverUnlock]
          else
            fst C = rc env C_qemuMigrationConfirm
            \<and> asyncJob (job (obj (snd C))) = QEMU_ASYNC_JOB_NONE
            \<and> take 4 (trace (snd C))
                = [C_qemuMigrationJobStartPhase
                     (if cancelled \<noteq> 0 then QEMU_MIGRATION_PHASE_CONFIRM3_CANCELLED
                      else QEMU_MIGRATION_PHASE_CONFIRM3),
                   C_qemuDriverCloseCallbackUnset, C_qemuMigrationConfirm,
                   C_qemuDomainObjEndAsyncJob]
            \<and> list_all (\<lambda>c. c = C_virDomainDeleteConfig \<or> c = C_qemuDomainRemoveInactive
                              \<or> c = C_virDomainObjUnlock \<or> c = C_qemuDriverUnlock)
                 (drop 4 (trace (snd C))))
     \<and> (\<forall>p s. phase (job (obj (qemuMigrationJobStartPhase p s))) = phase_number p)"
proof (intro conjI)
  show "let B = qemuDomainMigrateBegin3 env \<lparr>change_protection = True, undefine_source = u\<rparr> st
      in
        if \<not> (active (job (obj st)) = QEMU_JOB_NONE
               \<and> asyncJob (job (obj st)) = QEMU_ASYNC_JOB_NONE) then
          fst B = None \<and> job (obj (snd B)) = job (obj st)
          \<and> trace (snd B) = [C_qemuDomainObjBeginAsyncJob QEMU_ASYNC_JOB_MIGRATION_OUT,
                              C_virDomainObjUnlock, C_qemuDriverUnlock]
        else if virDomainObjIsActive (obj st)
                \<and> 0 \<le> rc env (C_qemuDomainCheckEjectableMedia QEMU_ASYNC_JOB_MIGRATION_OUT)
                \<and> live_xml env \<noteq> None \<and> 0 \<le> rc env C_qemuDriverCloseCallbackSet then
          asyncJob (job (obj (snd B))) = QEMU_ASYNC_JOB_MIGRATION_OUT
          \<and> trace (snd B)
              = [C_qemuDomainObjBeginAsyncJob QEMU_ASYNC_JOB_MIGRATION_OUT,
                 C_qemuDomainCheckEjectableMedia QEMU_ASYNC_JOB_MIGRATION_OUT,
                 C_qemuMigrationBegin, C_qemuDriverCloseCallbackSet,
                 C_qemuMigrationJobContinue]
                @ (if referenced env C_qemuMigrationJobContinue then [C_virDomainObjUnlock]
                   else [])
                @ [C_qemuDriverUnlock]
          \<and> fst B = (if referenced env C_qemuMigrationJobContinue then live_xml env else None)
        else
          asyncJob (job (obj (snd B))) = QEMU_ASYNC_JOB_NONE
          \<and> last_error (snd B) \<noteq> None
          \<and> C_qemuDomainObjEndAsyncJob \<in> set (trace (snd B))
          \<and> C_qemuMigrationJobContinue \<notin> set (trace (snd B))
          \<and> fst B = (if virDomainObjIsActive (obj st)
                         \<and> 0 \<le> rc env (C_qemuDomainCheckEjectableMedia
                                          QEMU_ASYNC_JOB_MIGRATION_OUT)
                      then live_xml env else None)"
    using found t0 by (auto simp add: migrate_defs)
next
  show "let C = qemuDomainMigrateConfirm3 env flags cancelled st
        in
          if asyncJob (job (obj st)) \<noteq> QEMU_ASYNC_JOB_MIGRATION_OUT then
            fst C = - 1 \<and> job (obj (snd C)) = job (obj st)
            \<and> last_error (snd C)
                = Some (Err VIR_ERR_OPERATION_INVALID ''domain is not being migrated'')
            \<and> trace (snd C) = [C_virDomainObjUnlock, C_qemuDriverUnlock]
          else
            fst C = rc env C_qemuMigrationConfirm
            \<and> asyncJob (job (obj (snd C))) = QEMU_ASYNC_JOB_NONE
            \<and> take 4 (trace (snd C))
                = [C_qemuMigrationJobStartPhase
                     (if cancelled \<noteq> 0 then QEMU_MIGRATION_PHASE_CONFIRM3_CANCELLED
                      else QEMU_MIGRATION_PHASE_CONFIRM3),
                   C_qemuDriverCloseCallbackUnset, C_qemuMigrationConfirm,
                   C_qemuDomainObjEndAsyncJob]
            \<and> list_all (\<lambda>c. c = C_virDomainDeleteConfig \<or> c = C_qemuDomainRemoveInactive
                              \<or> c = C_virDomainObjUnlock \<or> c = C_qemuDriverUnlock)
                 (drop 4 (trace (snd C)))"
    using found t0 by (auto simp add: migrate_defs)
next
  show "\<forall>p s. phase (job (obj (qemuMigrationJobStartPhase p s))) = phase_number p"
    by (simp add: qemuMigrationJobStartPhase_def)
qed


theorem migration_job_across_begin_and_confirm_witness:
  "fst (qemuDomainMigrateBegin3 quiet_env protected_flags (start_run running_vm))
     = Some ''<domain/>''
   \<and> asyncJob (job (obj (snd (qemuDomainMigrateBegin3 quiet_env protected_flags
                                (start_run running_vm))))) = QEMU_ASYNC_JOB_MIGRATION_OUT
   \<and> trace (snd (qemuDomainMigrateBegin3 quiet_env protected_flags (start_run running_vm)))
       = [C_qemuDomainObjBeginAsyncJob QEMU_ASYNC_JOB_MIGRATION_OUT,
          C_qemuDomainCheckEjectableMedia QEMU_ASYNC_JOB_MIGRATION_OUT,
          C_qemuMigrationBegin, C_qemuDriverCloseCallbackSet, C_qemuMigrationJobContinue,
          C_virDomainObjUnlock, C_qemuDriverUnlock]
   \<and> fst (qemuDomainMigrateConfirm3 quiet_env protected_flags 0 (start_run busy_vm)) = 0
   \<and> asyncJob (job (obj (snd (qemuDomainMigrateConfirm3 quiet_env protected_flags 0
                                (start_run busy_vm))))) = QEMU_ASYNC_JOB_NONE
   \<and> take 4 (trace (snd (qemuDomainMigrateConfirm3 quiet_env protected_flags 0
                            (start_run busy_vm))))
       = [C_qemuMigrationJobStartPhase QEMU_MIGRATION_PHASE_CONFIRM3,
          C_qemuDriverCloseCallbackUnset, C_qemuMigrationConfirm,
          C_qemuDomainObjEndAsyncJob]"
  using
    migration_job_across_begin_and_confirm [where st = "start_run running_vm"
      and env = quiet_env and u = False and flags = protected_flags and cancelled = 0]
    migration_job_across_begin_and_confirm [where st = "start_run busy_vm"
      and env = quiet_env and u = False and flags = protected_flags and cancelled = 0]
  by (simp add: Let_def protected_flags_def start_run_def running_vm_def busy_vm_def
      idle_job_def quiet_env_def virDomainObjIsActive_def)

end
